theory Spec2Isabelle
  imports Main
begin

section \<open>Bytes, text and small string helpers\<close>

text \<open>
  \<^verbatim>\<open>serve.py\<close> is a thin script over three modules of the Python standard library:
  \<^verbatim>\<open>mimetypes\<close>, \<^verbatim>\<open>http.server\<close> and \<^verbatim>\<open>socketserver\<close>. The script's own code is
  modelled line by line (\<open>module_init\<close>, \<open>end_headers\<close>, \<open>main\<close>). The library methods
  it calls or inherits are transcribed from CPython 3.11 (\<^verbatim>\<open>Lib/http/server.py\<close>,
  \<^verbatim>\<open>Lib/mimetypes.py\<close>, \<^verbatim>\<open>Lib/socketserver.py\<close>, \<^verbatim>\<open>Lib/genericpath.py\<close>), each
  definition naming the method it follows. What the operating system, the clock and the
  URL and date parsers answer is an input of the model (the records \<open>env\<close> and \<open>fs\<close>).
  Python's \<^verbatim>\<open>str\<close> and \<^verbatim>\<open>bytes\<close> are both \<open>string\<close> here: every text the handler
  writes is encoded as Latin-1, one character per byte.
\<close>

type_synonym bytes = string

definition CRLF :: bytes where
  "CRLF = [CHR 0x0D, CHR 0x0A]"

text \<open>\<^verbatim>\<open>str.lower()\<close> on ASCII letters; other characters are left as they are.\<close>

definition lower_char :: "char \<Rightarrow> char" where
  "lower_char c =
     (case map_of (zip ''ABCDEFGHIJKLMNOPQRSTUVWXYZ'' ''abcdefghijklmnopqrstuvwxyz'') c of
        Some l \<Rightarrow> l
      | None \<Rightarrow> c)"

definition lower :: "string \<Rightarrow> string" where
  "lower s = map lower_char s"

text \<open>\<^verbatim>\<open>"%d" % n\<close> for a natural number.\<close>

definition digit_char :: "nat \<Rightarrow> char" where
  "digit_char n = ''0123456789'' ! (n mod 10)"

function str_nat :: "nat \<Rightarrow> string" where
  "str_nat n = (if n < 10 then [digit_char n] else str_nat (n div 10) @ [digit_char n])"
  by pat_completeness auto
termination
  by (relation "measure id") auto

declare str_nat.simps [simp del]

section \<open>The handler state and the header buffer\<close>

text \<open>
  What the handler writes to \<^verbatim>\<open>self.wfile\<close>, in order. \<^verbatim>\<open>flush_headers\<close> writes the
  joined header buffer in one call; that write is recorded as \<open>HeaderBlock\<close> with the
  buffer's entries, so that a header can be looked up in it. Any other write is a
  \<open>BodyBytes\<close>. \<open>wire\<close> is the byte stream the client receives.
\<close>

datatype chunk = HeaderBlock "bytes list" | BodyBytes bytes

fun chunk_bytes :: "chunk \<Rightarrow> bytes" where
  "chunk_bytes (HeaderBlock ls) = concat ls"
| "chunk_bytes (BodyBytes b) = b"

definition wire :: "chunk list \<Rightarrow> bytes" where
  "wire cs = concat (map chunk_bytes cs)"

text \<open>
  The \<^verbatim>\<open>mimetypes\<close> registry, the module's \<^verbatim>\<open>_db\<close>: the strict table
  \<^verbatim>\<open>types_map[True]\<close> and its inverse. Both calls the program makes use
  \<^verbatim>\<open>strict=True\<close>, so the non-strict tables are never read.
\<close>

record mimetypes_db =
  types_map :: "string \<rightharpoonup> string"
  types_map_inv :: "string \<rightharpoonup> string list"

text \<open>
  The state the methods of a handler run in. First the attributes of the
  \<^verbatim>\<open>BaseHTTPRequestHandler\<close> instance that the modelled methods read or write:
  \<open>command\<close> is \<open>None\<close> where Python has \<^verbatim>\<open>self.command = None\<close>;
  \<^verbatim>\<open>_headers_buffer\<close> is created on first use by \<^verbatim>\<open>send_response_only\<close> and
  \<^verbatim>\<open>send_header\<close>, and a buffer not yet created is the empty list; \<open>headers\<close> are the
  request's header fields, in the order received. Then the two pieces of state of the
  whole process that a method can reach, as any Python code can: \<open>working_dir\<close>, what
  \<^verbatim>\<open>os.getcwd()\<close> returns and \<^verbatim>\<open>os.chdir\<close> sets, and \<open>registry\<close>, the object
  \<^verbatim>\<open>mimetypes._db\<close> that \<^verbatim>\<open>mimetypes.guess_type\<close> reads and \<^verbatim>\<open>mimetypes.add_type\<close>
  writes. The server takes both back from the handler when it has finished.
\<close>

record handler =
  request_version :: string
  command :: "string option"
  path :: string
  close_connection :: bool
  headers_buffer :: "bytes list"
  wfile :: "chunk list"
  directory :: string
  headers :: "(string \<times> string) list"
  working_dir :: string
  registry :: mimetypes_db

text \<open>\<^verbatim>\<open>BaseHTTPRequestHandler.send_header\<close>.\<close>

definition send_header :: "string \<Rightarrow> string \<Rightarrow> handler \<Rightarrow> handler" where
  "send_header keyword val h =
     (let h1 = (if request_version h \<noteq> ''HTTP/0.9''
                then h\<lparr>headers_buffer := headers_buffer h @ [keyword @ '': '' @ val @ CRLF]\<rparr>
                else h)
      in if lower keyword = ''connection''
         then (if lower val = ''close'' then h1\<lparr>close_connection := True\<rparr>
               else if lower val = ''keep-alive'' then h1\<lparr>close_connection := False\<rparr>
               else h1)
         else h1)"

text \<open>\<^verbatim>\<open>BaseHTTPRequestHandler.flush_headers\<close>.\<close>

definition flush_headers :: "handler \<Rightarrow> handler" where
  "flush_headers h =
     h\<lparr>wfile := wfile h @ [HeaderBlock (headers_buffer h)], headers_buffer := []\<rparr>"

text \<open>\<^verbatim>\<open>BaseHTTPRequestHandler.end_headers\<close>, reached through \<^verbatim>\<open>super().end_headers()\<close>.\<close>

definition BaseHTTPRequestHandler_end_headers :: "handler \<Rightarrow> handler" where
  "BaseHTTPRequestHandler_end_headers h =
     (if request_version h \<noteq> ''HTTP/0.9''
      then flush_headers (h\<lparr>headers_buffer := headers_buffer h @ [CRLF]\<rparr>)
      else h)"

text \<open>
  \<^verbatim>\<open>DdsHTTPRequestHandler.end_headers\<close> (serve.py, lines 16 to 20). Every call of
  \<^verbatim>\<open>self.end_headers()\<close> in the inherited methods is dispatched to it.
\<close>

definition COEP_line :: bytes where
  "COEP_line = ''Cross-Origin-Embedder-Policy: require-corp'' @ CRLF"

definition COOP_line :: bytes where
  "COOP_line = ''Cross-Origin-Opener-Policy: same-origin'' @ CRLF"

definition end_headers :: "handler \<Rightarrow> handler" where
  "end_headers h =
     BaseHTTPRequestHandler_end_headers
       (send_header ''Cross-Origin-Opener-Policy'' ''same-origin''
         (send_header ''Cross-Origin-Embedder-Policy'' ''require-corp'' h))"

section \<open>Status lines and error replies\<close>

text \<open>
  What the handler asks of its surroundings: the clock, the interpreter's name and the
  library's text functions that are not modelled character by character.
  \<^item> \<open>version_string\<close>: \<^verbatim>\<open>self.version_string()\<close>, the \<^verbatim>\<open>Server\<close> header;
  \<^item> \<open>date_time_string\<close>: \<^verbatim>\<open>self.date_time_string()\<close>, the current time;
  \<^item> \<open>format_timestamp\<close>: \<^verbatim>\<open>self.date_time_string(t)\<close> for a file's \<^verbatim>\<open>st_mtime\<close>;
  \<^item> \<open>repr\<close>: Python's \<^verbatim>\<open>%r\<close> of a string;
  \<^item> \<open>error_page\<close>: \<^verbatim>\<open>error_message_format\<close> filled with the code, the escaped
    message and the explanation, encoded as UTF-8;
  \<^item> \<open>unquote\<close>: \<^verbatim>\<open>urllib.parse.unquote\<close> as \<^verbatim>\<open>translate_path\<close> calls it;
  \<^item> \<open>urlsplit_path\<close>: \<^verbatim>\<open>urllib.parse.urlsplit(p).path\<close>;
  \<^item> \<open>redirect_url\<close>: the \<^verbatim>\<open>Location\<close> of a directory redirect, the request target
    with \<^verbatim>\<open>/\<close> appended to its path component;
  \<^item> \<open>parsedate\<close>: \<^verbatim>\<open>email.utils.parsedate_to_datetime\<close> of an
    \<^verbatim>\<open>If-Modified-Since\<close> value;
  \<^item> \<open>filesystem_encoding\<close>: \<^verbatim>\<open>sys.getfilesystemencoding()\<close>.
\<close>

datatype ims = IllFormed | OtherZone | UtcSeconds int

record env =
  version_string :: string
  date_time_string :: string
  format_timestamp :: "int \<Rightarrow> string"
  repr :: "string \<Rightarrow> string"
  error_page :: "nat \<Rightarrow> string \<Rightarrow> string \<Rightarrow> bytes"
  unquote :: "string \<Rightarrow> string"
  urlsplit_path :: "string \<Rightarrow> string"
  redirect_url :: "string \<Rightarrow> string"
  parsedate :: "string \<Rightarrow> ims"
  filesystem_encoding :: string

text \<open>
  \<^verbatim>\<open>BaseHTTPRequestHandler.responses\<close>: phrase and description of a status code, for the
  codes the modelled methods send (\<^verbatim>\<open>http.HTTPStatus\<close>).
\<close>

definition responses :: "nat \<Rightarrow> (string \<times> string) option" where
  "responses code =
     (if code = 100 then Some (''Continue'', ''Request received, please continue'')
      else if code = 200 then Some (''OK'', ''Request fulfilled, document follows'')
      else if code = 301 then
        Some (''Moved Permanently'', ''Object moved permanently -- see URI list'')
      else if code = 304 then
        Some (''Not Modified'', ''Document has not changed since given time'')
      else if code = 400 then
        Some (''Bad Request'', ''Bad request syntax or unsupported method'')
      else if code = 404 then Some (''Not Found'', ''Nothing matches the given URI'')
      else if code = 414 then Some (''Request-URI Too Long'', ''URI is too long'')
      else if code = 431 then
        Some (''Request Header Fields Too Large'',
              ''The server is unwilling to process the request because its header ''
              @ ''fields are too large'')
      else if code = 501 then
        Some (''Not Implemented'', ''Server does not support this operation'')
      else if code = 505 then
        Some (''HTTP Version Not Supported'', ''Cannot fulfill request'')
      else None)"

text \<open>The class attributes \<^verbatim>\<open>protocol_version\<close> and \<^verbatim>\<open>error_content_type\<close>; the
  script overrides neither.\<close>

definition protocol_version :: string where
  "protocol_version = ''HTTP/1.0''"

definition error_content_type :: string where
  "error_content_type = ''text/html;charset=utf-8''"

text \<open>\<^verbatim>\<open>BaseHTTPRequestHandler.send_response_only\<close>; \<open>message = None\<close> is the default
  argument.\<close>

definition send_response_only :: "nat \<Rightarrow> string option \<Rightarrow> handler \<Rightarrow> handler" where
  "send_response_only code message h =
     (if request_version h \<noteq> ''HTTP/0.9''
      then (let m = (case message of
                       Some m \<Rightarrow> m
                     | None \<Rightarrow> (case responses code of Some (phrase, _) \<Rightarrow> phrase | None \<Rightarrow> []))
            in h\<lparr>headers_buffer :=
                   headers_buffer h
                   @ [protocol_version @ '' '' @ str_nat code @ '' '' @ m @ CRLF]\<rparr>)
      else h)"

text \<open>\<^verbatim>\<open>BaseHTTPRequestHandler.send_response\<close>. The call of \<^verbatim>\<open>log_request\<close> writes a line
  to the standard error stream and is left out.\<close>

definition send_response :: "env \<Rightarrow> nat \<Rightarrow> string option \<Rightarrow> handler \<Rightarrow> handler" where
  "send_response e code message h =
     send_header ''Date'' (date_time_string e)
       (send_header ''Server'' (version_string e)
         (send_response_only code message h))"

text \<open>
  \<^verbatim>\<open>BaseHTTPRequestHandler.send_error\<close>. \<^verbatim>\<open>self.end_headers()\<close> is the script's
  override. The codes 204, 205 and 304 and those below 200 carry no body.
\<close>

definition send_error :: "env \<Rightarrow> nat \<Rightarrow> string option \<Rightarrow> string option \<Rightarrow> handler \<Rightarrow> handler" where
  "send_error e code message explain h =
     (let (shortmsg, longmsg) =
            (case responses code of Some r \<Rightarrow> r | None \<Rightarrow> (''???'', ''???''));
          message = (case message of None \<Rightarrow> shortmsg | Some m \<Rightarrow> m);
          explain = (case explain of None \<Rightarrow> longmsg | Some x \<Rightarrow> x);
          h1 = send_header ''Connection'' ''close'' (send_response e code (Some message) h);
          has_body = (code \<ge> 200 \<and> code \<notin> {204, 205, 304});
          body = error_page e code message explain;
          h2 = (if has_body
                then send_header ''Content-Length'' (str_nat (length body))
                       (send_header ''Content-Type'' error_content_type h1)
                else h1);
          h3 = end_headers h2
      in if command h3 \<noteq> Some ''HEAD'' \<and> has_body \<and> body \<noteq> []
         then h3\<lparr>wfile := wfile h3 @ [BodyBytes body]\<rparr>
         else h3)"

section \<open>Paths and the MIME registry\<close>

text \<open>\<^verbatim>\<open>str.rfind(c)\<close>: the index of the last \<open>c\<close>, or \<open>-1\<close>.\<close>

definition rfind :: "char \<Rightarrow> string \<Rightarrow> int" where
  "rfind c s =
     (if c \<in> set s
      then int (length s) - 1 - int (length (takeWhile (\<lambda>x. x \<noteq> c) (rev s)))
      else - 1)"

text \<open>
  \<^verbatim>\<open>posixpath.splitext\<close>, that is \<^verbatim>\<open>genericpath._splitext(p, '/', None, '.')\<close>. The
  loop over \<^verbatim>\<open>filenameIndex\<close> returns the split at the first character that is not a
  dot between the last separator and the last dot, and falls through when there is none.
\<close>

definition splitext :: "string \<Rightarrow> string \<times> string" where
  "splitext p =
     (let sepIndex = rfind CHR ''/'' p;
          dotIndex = rfind CHR ''.'' p
      in if dotIndex > sepIndex
            \<and> list_ex (\<lambda>ch. ch \<noteq> CHR ''.'')
                 (take (nat (dotIndex - (sepIndex + 1))) (drop (nat (sepIndex + 1)) p))
         then (take (nat dotIndex) p, drop (nat dotIndex) p)
         else (p, []))"

definition endswith_slash :: "string \<Rightarrow> bool" where
  "endswith_slash s = (s \<noteq> [] \<and> last s = CHR ''/'')"

definition startswith :: "string \<Rightarrow> string \<Rightarrow> bool" where
  "startswith pre s = (take (length pre) s = pre)"

text \<open>\<^verbatim>\<open>str.split(sep)\<close> for a one-character separator.\<close>

fun split_sep :: "char \<Rightarrow> string \<Rightarrow> string list" where
  "split_sep c [] = [[]]"
| "split_sep c (x # xs) =
     (if x = c then [] # split_sep c xs
      else (case split_sep c xs of w # ws \<Rightarrow> (x # w) # ws | [] \<Rightarrow> [[x]]))"

text \<open>\<^verbatim>\<open>'/'.join(comps)\<close>.\<close>

fun join_sep :: "string list \<Rightarrow> string" where
  "join_sep [] = []"
| "join_sep [w] = w"
| "join_sep (w # ws) = w @ ''/'' @ join_sep ws"

text \<open>\<^verbatim>\<open>posixpath.join(a, b)\<close>.\<close>

definition path_join :: "string \<Rightarrow> string \<Rightarrow> string" where
  "path_join a b =
     (if startswith ''/'' b then b
      else if a = [] \<or> endswith_slash a then a @ b
      else a @ ''/'' @ b)"

text \<open>\<^verbatim>\<open>posixpath.dirname\<close>.\<close>

definition dirname :: "string \<Rightarrow> string" where
  "dirname p =
     (let i = rfind CHR ''/'' p + 1;
          head = take (nat i) p
      in if head \<noteq> [] \<and> head \<noteq> replicate (length head) CHR ''/''
         then rev (dropWhile (\<lambda>c. c = CHR ''/'') (rev head))
         else head)"

text \<open>\<^verbatim>\<open>posixpath.normpath\<close> (the Python implementation of CPython 3.11).\<close>

definition normpath_step :: "nat \<Rightarrow> string list \<Rightarrow> string \<Rightarrow> string list" where
  "normpath_step initial_slashes new_comps part =
     (if part = [] \<or> part = ''.'' then new_comps
      else if part \<noteq> ''..'' \<or> (initial_slashes = 0 \<and> new_comps = [])
              \<or> (new_comps \<noteq> [] \<and> last new_comps = ''..'')
           then new_comps @ [part]
      else if new_comps \<noteq> [] then butlast new_comps
      else new_comps)"

definition normpath :: "string \<Rightarrow> string" where
  "normpath p =
     (if p = [] then ''.''
      else let initial_slashes =
                 (if startswith ''/'' p
                  then (if startswith ''//'' p \<and> \<not> startswith ''///'' p then 2 else 1)
                  else 0);
               comps = foldl (normpath_step initial_slashes) [] (split_sep CHR ''/'' p);
               r = replicate initial_slashes CHR ''/'' @ join_sep comps
           in if r = [] then ''.'' else r)"

text \<open>The characters \<^verbatim>\<open>str.rstrip()\<close> and \<^verbatim>\<open>str.split()\<close> treat as white space, among
  the first 256 code points.\<close>

definition is_space :: "char \<Rightarrow> bool" where
  "is_space c =
     (c \<in> {CHR 0x09, CHR 0x0A, CHR 0x0B, CHR 0x0C, CHR 0x0D, CHR 0x1C, CHR 0x1D, CHR 0x1E,
            CHR 0x1F, CHR 0x20, CHR 0x85, CHR 0xA0})"

definition rstrip :: "string \<Rightarrow> string" where
  "rstrip s = rev (dropWhile is_space (rev s))"

text \<open>
  \<^verbatim>\<open>SimpleHTTPRequestHandler.translate_path\<close>. \<open>dir\<close> is \<^verbatim>\<open>self.directory\<close>, which
  \<^verbatim>\<open>__init__\<close> sets to \<^verbatim>\<open>os.getcwd()\<close> when the handler is created.
\<close>

definition translate_path :: "env \<Rightarrow> string \<Rightarrow> string \<Rightarrow> string" where
  "translate_path e dir p =
     (let p1 = takeWhile (\<lambda>c. c \<noteq> CHR ''?'') p;
          p2 = takeWhile (\<lambda>c. c \<noteq> CHR ''#'') p1;
          trailing_slash = endswith_slash (rstrip p2);
          p3 = normpath (unquote e p2);
          words = filter (\<lambda>w. w \<noteq> []) (split_sep CHR ''/'' p3);
          r = foldl (\<lambda>acc word.
                       if dirname word \<noteq> [] \<or> word = ''.'' \<or> word = ''..'' then acc
                       else path_join acc word) dir words
      in if trailing_slash then r @ ''/'' else r)"

text \<open>
  \<^verbatim>\<open>suffix_map\<close> and \<^verbatim>\<open>encodings_map\<close> are the built-in tables of the \<^verbatim>\<open>mimetypes\<close>
  module; reading the system's \<^verbatim>\<open>mime.types\<close> files only adds to \<^verbatim>\<open>types_map\<close>.
\<close>

definition suffix_map :: "string \<rightharpoonup> string" where
  "suffix_map = map_of
     [(''.svgz'', ''.svg.gz''), (''.tgz'', ''.tar.gz''), (''.taz'', ''.tar.gz''),
      (''.tz'', ''.tar.gz''), (''.tbz2'', ''.tar.bz2''), (''.txz'', ''.tar.xz'')]"

definition encodings_map :: "string \<rightharpoonup> string" where
  "encodings_map = map_of
     [(''.gz'', ''gzip''), (''.Z'', ''compress''), (''.bz2'', ''bzip2''),
      (''.xz'', ''xz''), (''.br'', ''br'')]"

text \<open>\<^verbatim>\<open>MimeTypes.add_type(type, ext, strict=True)\<close>.\<close>

definition add_type :: "string \<Rightarrow> string \<Rightarrow> mimetypes_db \<Rightarrow> mimetypes_db" where
  "add_type type ext db =
     (let exts = (case types_map_inv db type of None \<Rightarrow> [] | Some l \<Rightarrow> l)
      in db\<lparr>types_map := (types_map db)(ext \<mapsto> type),
            types_map_inv :=
              (types_map_inv db)(type \<mapsto> (if ext \<in> set exts then exts else exts @ [ext]))\<rparr>)"

text \<open>The \<^verbatim>\<open>while\<close> loop of \<^verbatim>\<open>MimeTypes.guess_type\<close> over \<^verbatim>\<open>suffix_map\<close>.\<close>

function apply_suffix_map :: "string \<Rightarrow> string \<Rightarrow> string \<times> string" where
  "apply_suffix_map base ext =
     (case suffix_map (lower ext) of
        None \<Rightarrow> (base, ext)
      | Some s \<Rightarrow> (case splitext (base @ s) of (base', ext') \<Rightarrow> apply_suffix_map base' ext'))"
  by pat_completeness auto
termination
proof (relation "measure (\<lambda>(base, ext). if suffix_map (lower ext) = None then 0 else 1)")
  show "wf (measure (\<lambda>(base, ext). if suffix_map (lower ext) = None then 0 else 1))"
    by simp
next
  fix base ext s x y
  assume s: "suffix_map (lower ext) = Some s" and xy: "(x, y) = splitext (base @ s)"
  have cases: "s = ''.svg.gz'' \<or> s = ''.tar.gz'' \<or> s = ''.tar.bz2'' \<or> s = ''.tar.xz''"
    using s by (auto simp: suffix_map_def split: if_splits)
  have "y = [] \<or> y = ''.gz'' \<or> y = ''.bz2'' \<or> y = ''.xz''"
    using cases xy
    by (elim disjE) (auto simp: splitext_def rfind_def Let_def nat_add_distrib split: if_splits)
  then have "suffix_map (lower y) = None"
    by (elim disjE) (simp_all add: suffix_map_def lower_def lower_char_def)
  then show "((x, y), (base, ext))
      \<in> measure (\<lambda>(base, ext). if suffix_map (lower ext) = None then 0 else 1)"
    using s by simp
qed

declare apply_suffix_map.simps [simp del]

text \<open>
  \<^verbatim>\<open>MimeTypes.guess_type(url, strict=True)\<close> for an argument without a URL scheme. The
  handler passes the file system path \<^verbatim>\<open>translate_path\<close> built from \<^verbatim>\<open>os.getcwd()\<close>: it
  starts with \<^verbatim>\<open>/\<close>, \<^verbatim>\<open>urlparse\<close> finds no scheme in it, and the method goes on with the
  path unchanged. The result is the pair of type and encoding.
\<close>

definition mimetypes_guess_type :: "mimetypes_db \<Rightarrow> string \<Rightarrow> string option \<times> string option" where
  "mimetypes_guess_type db url =
     (let (base0, ext0) = splitext url;
          (base, ext) = apply_suffix_map base0 ext0;
          (encoding, ext1) =
            (case encodings_map ext of
               Some enc \<Rightarrow> (Some enc, snd (splitext base))
             | None \<Rightarrow> (None, ext))
      in (types_map db (lower ext1), encoding))"

text \<open>The class attribute \<^verbatim>\<open>SimpleHTTPRequestHandler.extensions_map\<close>.\<close>

definition extensions_map :: "string \<rightharpoonup> string" where
  "extensions_map = map_of
     [(''.gz'', ''application/gzip''), (''.Z'', ''application/octet-stream''),
      (''.bz2'', ''application/x-bzip2''), (''.xz'', ''application/x-xz'')]"

text \<open>
  \<^verbatim>\<open>SimpleHTTPRequestHandler.guess_type\<close>; \<open>db\<close> is the registry \<^verbatim>\<open>mimetypes._db\<close> at
  the time of the call. The module's \<^verbatim>\<open>guess_type\<close> and \<^verbatim>\<open>add_type\<close> call
  \<^verbatim>\<open>mimetypes.init()\<close> only while \<^verbatim>\<open>_db\<close> is \<^verbatim>\<open>None\<close>; the script's
  \<^verbatim>\<open>add_type\<close> at line 11 is the first call, so from then on the registry exists and
  \<^verbatim>\<open>guess_type\<close> only reads it.
\<close>

definition guess_type :: "mimetypes_db \<Rightarrow> string \<Rightarrow> string" where
  "guess_type db p =
     (let ext = snd (splitext p)
      in case extensions_map ext of
           Some t \<Rightarrow> t
         | None \<Rightarrow>
             (case extensions_map (lower ext) of
                Some t \<Rightarrow> t
              | None \<Rightarrow>
                  (case fst (mimetypes_guess_type db p) of
                     Some guess \<Rightarrow> if guess \<noteq> [] then guess else ''application/octet-stream''
                   | None \<Rightarrow> ''application/octet-stream'')))"

text \<open>
  serve.py, line 11: \<^verbatim>\<open>mimetypes.add_type('application/octet-stream', '.dds')\<close>, run when
  the module is loaded. \<open>system_db\<close> is the registry \<^verbatim>\<open>mimetypes.init()\<close> has built from
  the built-in tables and the system's \<^verbatim>\<open>mime.types\<close> files.
\<close>

definition module_init :: "mimetypes_db \<Rightarrow> mimetypes_db" where
  "module_init system_db = add_type ''application/octet-stream'' ''.dds'' system_db"

definition PORT :: nat where
  "PORT = 8080"

section \<open>Serving a file\<close>

text \<open>
  Exceptions are values. \<open>OSError\<close> stands for the class and its subclasses, with the
  subclass or the \<^verbatim>\<open>errno\<close> name as its argument.
\<close>

datatype pyerror = OSError string | ValueError | KeyboardInterrupt

text \<open>
  What the file system answers the handler:
  \<^item> \<open>isdir\<close>, \<open>isfile\<close>: \<^verbatim>\<open>os.path.isdir\<close>, \<^verbatim>\<open>os.path.isfile\<close>;
  \<^item> \<open>open_rb\<close>: \<^verbatim>\<open>open(path, 'rb')\<close>, either the exception raised or the file's bytes
    with the \<^verbatim>\<open>st_mtime\<close> of \<^verbatim>\<open>os.fstat\<close> in whole seconds; \<^verbatim>\<open>st_size\<close> is the number
    of bytes;
  \<^item> \<open>listing\<close>: the encoded page \<^verbatim>\<open>list_directory\<close> builds from \<^verbatim>\<open>os.listdir(path)\<close>
    and \<^verbatim>\<open>self.path\<close>, or \<open>None\<close> when \<^verbatim>\<open>os.listdir\<close> raises \<^verbatim>\<open>OSError\<close>.
\<close>

record fs =
  isdir :: "string \<Rightarrow> bool"
  isfile :: "string \<Rightarrow> bool"
  open_rb :: "string \<Rightarrow> pyerror + bytes \<times> int"
  listing :: "string \<Rightarrow> string \<Rightarrow> bytes option"

text \<open>\<^verbatim>\<open>self.headers.get(name)\<close>: field names compare without regard to case, and the
  first field of that name is returned.\<close>

definition headers_get :: "(string \<times> string) list \<Rightarrow> string \<Rightarrow> string option" where
  "headers_get hs name = map_of (map (\<lambda>(k, v). (lower k, v)) hs) (lower name)"

text \<open>\<^verbatim>\<open>SimpleHTTPRequestHandler.list_directory\<close>. The second component is the file object
  returned (its bytes), \<open>None\<close> for Python's \<^verbatim>\<open>None\<close>.\<close>

definition list_directory :: "env \<Rightarrow> fs \<Rightarrow> string \<Rightarrow> handler \<Rightarrow> handler \<times> (pyerror + bytes option)" where
  "list_directory e f p h =
     (case listing f p (path h) of
        None \<Rightarrow>
          (send_error e 404 (Some ''No permission to list directory'') None h, Inr None)
      | Some encoded \<Rightarrow>
          (end_headers
             (send_header ''Content-Length'' (str_nat (length encoded))
               (send_header ''Content-type'' (''text/html; charset='' @ filesystem_encoding e)
                 (send_response e 200 None h))),
           Inr (Some encoded)))"

text \<open>
  The test of \<^verbatim>\<open>send_head\<close> for the browser cache: an \<^verbatim>\<open>If-Modified-Since\<close> field,
  no \<^verbatim>\<open>If-None-Match\<close> field, a date that parses and is in UTC (a date without a zone
  is read as UTC), and a file not modified after it.
\<close>

definition not_modified :: "env \<Rightarrow> (string \<times> string) list \<Rightarrow> int \<Rightarrow> bool" where
  "not_modified e hs mtime =
     (case headers_get hs ''If-Modified-Since'' of
        None \<Rightarrow> False
      | Some v \<Rightarrow>
          (case headers_get hs ''If-None-Match'' of
             Some _ \<Rightarrow> False
           | None \<Rightarrow>
               (case parsedate e v of
                  UtcSeconds t \<Rightarrow> mtime \<le> t
                | _ \<Rightarrow> False)))"

text \<open>
  \<^verbatim>\<open>SimpleHTTPRequestHandler.send_head\<close> from \<^verbatim>\<open>ctype = self.guess_type(path)\<close> on.
  \<^verbatim>\<open>except OSError\<close> catches the \<^verbatim>\<open>OSError\<close> of \<^verbatim>\<open>open\<close>; any other exception leaves the
  method.
\<close>

definition send_head_file ::
  "env \<Rightarrow> fs \<Rightarrow> string \<Rightarrow> handler \<Rightarrow> handler \<times> (pyerror + bytes option)" where
  "send_head_file e f p h =
     (let ctype = guess_type (registry h) p
      in if endswith_slash p
         then (send_error e 404 (Some ''File not found'') None h, Inr None)
         else (case open_rb f p of
                 Inl (OSError _) \<Rightarrow>
                   (send_error e 404 (Some ''File not found'') None h, Inr None)
               | Inl err \<Rightarrow> (h, Inl err)
               | Inr (content, mtime) \<Rightarrow>
                   if not_modified e (headers h) mtime
                   then (end_headers (send_response e 304 None h), Inr None)
                   else (end_headers
                           (send_header ''Last-Modified'' (format_timestamp e mtime)
                             (send_header ''Content-Length'' (str_nat (length content))
                               (send_header ''Content-type'' ctype
                                 (send_response e 200 None h)))),
                         Inr (Some content))))"

text \<open>\<^verbatim>\<open>SimpleHTTPRequestHandler.send_head\<close>.\<close>

definition send_head ::
  "env \<Rightarrow> fs \<Rightarrow> handler \<Rightarrow> handler \<times> (pyerror + bytes option)" where
  "send_head e f h =
     (let p = translate_path e (directory h) (path h)
      in if isdir f p
         then (if \<not> endswith_slash (urlsplit_path e (path h))
               then (end_headers
                       (send_header ''Content-Length'' ''0''
                         (send_header ''Location'' (redirect_url e (path h))
                           (send_response e 301 None h))),
                     Inr None)
               else if isfile f (path_join p ''index.html'')
                    then send_head_file e f (path_join p ''index.html'') h
               else if isfile f (path_join p ''index.htm'')
                    then send_head_file e f (path_join p ''index.htm'') h
               else list_directory e f p h)
         else send_head_file e f p h)"

text \<open>
  \<^verbatim>\<open>SimpleHTTPRequestHandler.do_GET\<close> and \<^verbatim>\<open>do_HEAD\<close>. \<^verbatim>\<open>copyfile\<close> writes the file's
  bytes to \<^verbatim>\<open>self.wfile\<close>; they are recorded as one \<open>BodyBytes\<close>. The second component is
  the exception that leaves the method, if any.
\<close>

definition do_GET :: "env \<Rightarrow> fs \<Rightarrow> handler \<Rightarrow> handler \<times> pyerror option" where
  "do_GET e f h =
     (case send_head e f h of
        (h', Inr (Some content)) \<Rightarrow> (h'\<lparr>wfile := wfile h' @ [BodyBytes content]\<rparr>, None)
      | (h', Inr None) \<Rightarrow> (h', None)
      | (h', Inl err) \<Rightarrow> (h', Some err))"

definition do_HEAD :: "env \<Rightarrow> fs \<Rightarrow> handler \<Rightarrow> handler \<times> pyerror option" where
  "do_HEAD e f h =
     (case send_head e f h of
        (h', Inr _) \<Rightarrow> (h', None)
      | (h', Inl err) \<Rightarrow> (h', Some err))"

section \<open>Reading a request\<close>

text \<open>
  One request as the handler reads it from \<^verbatim>\<open>self.rfile\<close>: the request line
  (\<^verbatim>\<open>raw_requestline\<close>, decoded as Latin-1; empty at the end of the stream) and what
  \<^verbatim>\<open>http.client.parse_headers\<close> makes of the lines after it.
\<close>

datatype header_parse =
  LineTooLong string | TooManyHeaders string | ParsedHeaders "(string \<times> string) list"

record request =
  raw_requestline :: string
  header_lines :: header_parse

text \<open>\<^verbatim>\<open>str.split()\<close>: the words between runs of white space.\<close>

fun split_ws :: "string \<Rightarrow> string list" where
  "split_ws [] = []"
| "split_ws (c # cs) =
     (if is_space c then split_ws cs
      else (case cs of
              [] \<Rightarrow> [[c]]
            | d # _ \<Rightarrow>
                if is_space d then [c] # split_ws cs
                else (case split_ws cs of w # ws \<Rightarrow> (c # w) # ws | [] \<Rightarrow> [[c]])))"

text \<open>Lexicographic \<^verbatim>\<open>a <= b\<close> on strings, by code point.\<close>

fun str_le :: "string \<Rightarrow> string \<Rightarrow> bool" where
  "str_le [] ys = True"
| "str_le (x # xs) [] = False"
| "str_le (x # xs) (y # ys) = ((of_char x :: nat) < of_char y \<or> (x = y \<and> str_le xs ys))"

definition is_digit :: "char \<Rightarrow> bool" where
  "is_digit c = (48 \<le> (of_char c :: nat) \<and> (of_char c :: nat) \<le> 57)"

definition int_of_digits :: "string \<Rightarrow> nat" where
  "int_of_digits s = foldl (\<lambda>n c. 10 * n + ((of_char c :: nat) - 48)) 0 s"

text \<open>
  The \<^verbatim>\<open>try\<close> block of \<^verbatim>\<open>parse_request\<close> that reads the version: \<open>None\<close> where it raises
  \<^verbatim>\<open>ValueError\<close>. A component passes \<^verbatim>\<open>isdigit()\<close> and \<^verbatim>\<open>int()\<close> together exactly when
  it is a non-empty run of the digits 0 to 9.
\<close>

definition parse_version :: "string \<Rightarrow> (nat \<times> nat) option" where
  "parse_version version =
     (if \<not> startswith ''HTTP/'' version then None
      else let base_version_number = drop 1 (dropWhile (\<lambda>c. c \<noteq> CHR ''/'') version);
               version_number = split_sep CHR ''.'' base_version_number
           in if length version_number \<noteq> 2 then None
              else if list_ex (\<lambda>component. component = [] \<or> \<not> list_all is_digit component)
                        version_number then None
              else if list_ex (\<lambda>component. length component > 10) version_number then None
              else Some (int_of_digits (version_number ! 0), int_of_digits (version_number ! 1)))"

text \<open>\<^verbatim>\<open>BaseHTTPRequestHandler.handle_expect_100\<close>; it returns \<^verbatim>\<open>True\<close>.\<close>

definition handle_expect_100 :: "handler \<Rightarrow> handler" where
  "handle_expect_100 h = end_headers (send_response_only 100 None h)"

text \<open>
  \<^verbatim>\<open>BaseHTTPRequestHandler.parse_request\<close>, in three parts: the request line, the
  header fields, and the two together. The result is the method's return value with
  the handler it leaves. While the request line is read \<^verbatim>\<open>self.request_version\<close> holds
  \<^verbatim>\<open>default_request_version\<close>, \<^verbatim>\<open>'HTTP/0.9'\<close>; it receives the version of the request
  only after that version has been accepted. \<open>rstrip_crlf\<close> strips the line ending;
  \<open>single_leading_slash\<close> is the replacement of a leading \<^verbatim>\<open>//\<close> in \<^verbatim>\<open>self.path\<close>.
\<close>

definition single_leading_slash :: "string \<Rightarrow> string" where
  "single_leading_slash p =
     (if startswith ''//'' p then ''/'' @ dropWhile (\<lambda>c. c = CHR ''/'') p else p)"

definition rstrip_crlf :: "string \<Rightarrow> string" where
  "rstrip_crlf s = rev (dropWhile (\<lambda>c. c = CHR 0x0D \<or> c = CHR 0x0A) (rev s))"

definition parse_request_line :: "env \<Rightarrow> string \<Rightarrow> handler \<Rightarrow> bool \<times> handler" where
  "parse_request_line e raw h =
     (let h0 = h\<lparr>command := None, request_version := ''HTTP/0.9'', close_connection := True\<rparr>;
          requestline = rstrip_crlf raw;
          words = split_ws requestline
      in if length words = 0 then (False, h0)
         else
           let r1 =
             (if length words \<ge> 3
              then (let version = last words
                    in case parse_version version of
                         None \<Rightarrow>
                           Inl (send_error e 400
                                  (Some (''Bad request version ('' @ repr e version @ '')''))
                                  None h0)
                       | Some (major, minor) \<Rightarrow>
                           let h1 = (if (major > 1 \<or> (major = 1 \<and> minor \<ge> 1))
                                        \<and> str_le ''HTTP/1.1'' protocol_version
                                     then h0\<lparr>close_connection := False\<rparr> else h0)
                           in if major \<ge> 2
                              then Inl (send_error e 505
                                          (Some (''Invalid HTTP version (''
                                                 @ drop 1 (dropWhile (\<lambda>c. c \<noteq> CHR ''/'') version)
                                                 @ '')''))
                                          None h1)
                              else Inr (h1\<lparr>request_version := version\<rparr>))
              else Inr h0)
           in case r1 of
                Inl herr \<Rightarrow> (False, herr)
              | Inr h2 \<Rightarrow>
                  if \<not> (2 \<le> length words \<and> length words \<le> 3)
                  then (False, send_error e 400
                                 (Some (''Bad request syntax ('' @ repr e requestline @ '')''))
                                 None h2)
                  else
                    let cmd = words ! 0; pth = words ! 1;
                        h3 = (if length words = 2 then h2\<lparr>close_connection := True\<rparr> else h2)
                    in if length words = 2 \<and> cmd \<noteq> ''GET''
                       then (False, send_error e 400
                                      (Some (''Bad HTTP/0.9 request type ('' @ repr e cmd @ '')''))
                                      None h3)
                       else (True,
                             h3\<lparr>command := Some cmd, path := single_leading_slash pth\<rparr>))"

definition parse_request_headers :: "env \<Rightarrow> header_parse \<Rightarrow> handler \<Rightarrow> bool \<times> handler" where
  "parse_request_headers e hp h =
     (case hp of
        LineTooLong err \<Rightarrow> (False, send_error e 431 (Some ''Line too long'') (Some err) h)
      | TooManyHeaders err \<Rightarrow> (False, send_error e 431 (Some ''Too many headers'') (Some err) h)
      | ParsedHeaders hs \<Rightarrow>
          let h1 = h\<lparr>headers := hs\<rparr>;
              conntype = (case headers_get hs ''Connection'' of None \<Rightarrow> [] | Some v \<Rightarrow> v);
              h2 = (if lower conntype = ''close'' then h1\<lparr>close_connection := True\<rparr>
                    else if lower conntype = ''keep-alive'' \<and> str_le ''HTTP/1.1'' protocol_version
                         then h1\<lparr>close_connection := False\<rparr>
                    else h1);
              expect = (case headers_get hs ''Expect'' of None \<Rightarrow> [] | Some v \<Rightarrow> v)
          in if lower expect = ''100-continue'' \<and> str_le ''HTTP/1.1'' protocol_version
                \<and> str_le ''HTTP/1.1'' (request_version h2)
             then (True, handle_expect_100 h2)
             else (True, h2))"

definition parse_request :: "env \<Rightarrow> request \<Rightarrow> handler \<Rightarrow> bool \<times> handler" where
  "parse_request e r h =
     (case parse_request_line e (raw_requestline r) h of
        (False, h1) \<Rightarrow> (False, h1)
      | (True, h1) \<Rightarrow> parse_request_headers e (header_lines r) h1)"

text \<open>
  \<^verbatim>\<open>BaseHTTPRequestHandler.handle_one_request\<close>. \<^verbatim>\<open>SimpleHTTPRequestHandler\<close> defines
  \<^verbatim>\<open>do_GET\<close> and \<^verbatim>\<open>do_HEAD\<close> and the script adds no method, so \<^verbatim>\<open>hasattr(self, mname)\<close>
  holds for these two commands only. The \<^verbatim>\<open>except TimeoutError\<close> clause is left out:
  reads and writes do not time out here.
\<close>

definition handle_one_request ::
  "env \<Rightarrow> fs \<Rightarrow> request \<Rightarrow> handler \<Rightarrow> handler \<times> pyerror option" where
  "handle_one_request e f r h =
     (if length (raw_requestline r) > 65536
      then (send_error e 414 None None
              (h\<lparr>request_version := [], command := Some []\<rparr>), None)
      else if raw_requestline r = [] then (h\<lparr>close_connection := True\<rparr>, None)
      else (case parse_request e r h of
              (False, h1) \<Rightarrow> (h1, None)
            | (True, h1) \<Rightarrow>
                (case command h1 of
                   None \<Rightarrow> (h1, None)
                 | Some cmd \<Rightarrow>
                     if cmd = ''GET'' then do_GET e f h1
                     else if cmd = ''HEAD'' then do_HEAD e f h1
                     else (send_error e 501
                             (Some (''Unsupported method ('' @ repr e cmd @ '')'')) None h1,
                           None))))"

text \<open>
  \<^verbatim>\<open>BaseHTTPRequestHandler.handle\<close>. \<open>rs\<close> are the requests the client sends on the
  connection before it closes its end; after the last one \<^verbatim>\<open>readline\<close> returns the empty
  string and \<^verbatim>\<open>handle_one_request\<close> sets \<^verbatim>\<open>close_connection\<close>.
\<close>

fun handle_loop ::
  "env \<Rightarrow> fs \<Rightarrow> request list \<Rightarrow> handler \<Rightarrow> handler \<times> pyerror option" where
  "handle_loop e f [] h = (h\<lparr>close_connection := True\<rparr>, None)"
| "handle_loop e f (r # rs) h =
     (case handle_one_request e f r h of
        (h', Some err) \<Rightarrow> (h', Some err)
      | (h', None) \<Rightarrow> if close_connection h' then (h', None) else handle_loop e f rs h')"

definition handle ::
  "env \<Rightarrow> fs \<Rightarrow> request list \<Rightarrow> handler \<Rightarrow> handler \<times> pyerror option" where
  "handle e f rs h = handle_loop e f rs (h\<lparr>close_connection := True\<rparr>)"

text \<open>
  A handler as \<^verbatim>\<open>finish_request\<close> creates it for an accepted connection, in a process
  whose working directory is \<open>getcwd\<close> and whose registry is \<open>db\<close>:
  \<^verbatim>\<open>SimpleHTTPRequestHandler.__init__\<close> reads \<^verbatim>\<open>os.getcwd()\<close> into \<^verbatim>\<open>self.directory\<close>.
\<close>

definition new_handler :: "string \<Rightarrow> mimetypes_db \<Rightarrow> handler" where
  "new_handler getcwd db =
     \<lparr>request_version = [], command = None, path = [], close_connection = True,
      headers_buffer = [], wfile = [], directory = getcwd, headers = [],
      working_dir = getcwd, registry = db\<rparr>"

section \<open>The process: start, serve, stop\<close>

text \<open>
  The state of the process: working directory, MIME registry, what was printed to the
  standard output (one entry for each \<^verbatim>\<open>print\<close>, the text in UTF-8), the listening
  socket, the calls made in order (on the socket, to change directory, and the
  \<^verbatim>\<open>__exit__\<close> of the \<^verbatim>\<open>with\<close> statement), what each accepted connection was sent, and
  the exceptions \<^verbatim>\<open>handle_error\<close> reported.
\<close>

datatype sock_state = NoSocket | Unbound | Listening | Closed

datatype call = SocketCreate | Bind string nat | Listen | SocketClose | Chdir string | ContextExit

record process =
  cwd :: string
  mime :: mimetypes_db
  stdout :: "string list"
  sock :: sock_state
  calls :: "call list"
  replies :: "chunk list list"
  reported :: "pyerror list"

text \<open>
  What the launch meets. \<open>launch_dir\<close> is \<^verbatim>\<open>os.getcwd()\<close> when the script starts.
  \<open>dist\<close> is what \<^verbatim>\<open>os.stat('dist')\<close> finds there: nothing, something that is not a
  directory, or a directory. For a directory, \<open>chdir_error\<close> is the name of the
  \<^verbatim>\<open>OSError\<close> that \<^verbatim>\<open>os.chdir('dist')\<close> raises, if it does (\<^verbatim>\<open>PermissionError\<close> when the
  process may not enter the directory), and \<open>dist_path\<close> is what \<^verbatim>\<open>os.getcwd()\<close> returns
  after the change: the path of \<^verbatim>\<open>dist\<close> in the launch directory, with symbolic links
  resolved. \<open>bind_error\<close> is the \<^verbatim>\<open>errno\<close> name of the \<^verbatim>\<open>OSError\<close> that
  \<^verbatim>\<open>socket.bind\<close> raises, if it does. \<open>startup_interrupt\<close> names the statement during which
  a \<^verbatim>\<open>KeyboardInterrupt\<close> arrives before \<^verbatim>\<open>serve_forever\<close> is entered, if one does.
  \<open>events\<close> is what happens while \<^verbatim>\<open>serve_forever\<close> runs: a connection with the requests
  sent on it, or an exception raised in the loop outside a handler
  (\<open>Raise KeyboardInterrupt\<close> is the interrupt signal).
\<close>

datatype entry = Absent | NonDirectory | Directory

datatype startup_phase = AtDistCheck | AtBind | AtBanner1 | AtBanner2

datatype event = Connection "request list" | Raise pyerror

record launch =
  launch_dir :: string
  system_db :: mimetypes_db
  dist :: entry
  chdir_error :: "string option"
  dist_path :: string
  bind_error :: "string option"
  startup_interrupt :: "startup_phase option"
  events :: "event list"
  environment :: env
  files :: fs

text \<open>
  \<^verbatim>\<open>os.path.exists('dist')\<close> and \<^verbatim>\<open>os.chdir('dist')\<close> (serve.py, lines 24 and 25). A
  change of directory that raises leaves the working directory as it was and is not
  entered in the trace of calls.
\<close>

definition os_path_exists :: "entry \<Rightarrow> bool" where
  "os_path_exists en = (en \<noteq> Absent)"

definition os_chdir :: "launch \<Rightarrow> string \<Rightarrow> process \<Rightarrow> pyerror + process" where
  "os_chdir L name p =
     (case dist L of
        Directory \<Rightarrow>
          (case chdir_error L of
             Some errno \<Rightarrow> Inl (OSError errno)
           | None \<Rightarrow> Inr (p\<lparr>cwd := dist_path L, calls := calls p @ [Chdir name]\<rparr>))
      | NonDirectory \<Rightarrow> Inl (OSError ''NotADirectoryError'')
      | Absent \<Rightarrow> Inl (OSError ''FileNotFoundError''))"

text \<open>\<^verbatim>\<open>TCPServer.server_close\<close>.\<close>

definition server_close :: "process \<Rightarrow> process" where
  "server_close p = p\<lparr>sock := Closed, calls := calls p @ [SocketClose]\<rparr>"

text \<open>\<^verbatim>\<open>BaseServer.__exit__\<close>, which the \<^verbatim>\<open>with\<close> statement calls when its body is left.\<close>

definition BaseServer_exit :: "process \<Rightarrow> process" where
  "BaseServer_exit p = server_close (p\<lparr>calls := calls p @ [ContextExit]\<rparr>)"

text \<open>
  \<^verbatim>\<open>TCPServer.__init__(("", PORT), DdsHTTPRequestHandler)\<close>: the socket is created, then
  \<^verbatim>\<open>server_bind\<close> and \<^verbatim>\<open>server_activate\<close> run inside \<^verbatim>\<open>try\<close>, and the
  \<^verbatim>\<open>except\<close> clause closes the socket and raises again. The second component is the
  exception that leaves the constructor, if any.
\<close>

definition TCPServer_init :: "launch \<Rightarrow> process \<Rightarrow> process \<times> pyerror option" where
  "TCPServer_init L p =
     (let p1 = p\<lparr>sock := Unbound, calls := calls p @ [SocketCreate]\<rparr>
      in if startup_interrupt L = Some AtBind then (server_close p1, Some KeyboardInterrupt)
         else let p2 = p1\<lparr>calls := calls p1 @ [Bind [] PORT]\<rparr>
              in case bind_error L of
                   Some errno \<Rightarrow> (server_close p2, Some (OSError errno))
                 | None \<Rightarrow> (p2\<lparr>sock := Listening, calls := calls p2 @ [Listen]\<rparr>, None))"

text \<open>
  The process when a handler has finished: the working directory and the registry are
  what the handler's methods have left, and what it wrote is what the connection was sent.
\<close>

definition after_handler :: "handler \<Rightarrow> process \<Rightarrow> process" where
  "after_handler h p =
     p\<lparr>cwd := working_dir h, mime := registry h, replies := replies p @ [wfile h]\<rparr>"

text \<open>
  \<^verbatim>\<open>BaseServer.serve_forever\<close> with \<^verbatim>\<open>_handle_request_noblock\<close>: each connection gets a
  new handler; an \<^verbatim>\<open>Exception\<close> leaving the handler is reported by \<^verbatim>\<open>handle_error\<close> and
  the loop goes on, any other exception leaves the loop. Nothing calls \<^verbatim>\<open>shutdown\<close>, so
  the loop never returns: when the events are used up the server is \<open>Blocked\<close> in
  \<^verbatim>\<open>select\<close>.
\<close>

datatype serve_result = Blocked process | Raised pyerror process

fun serve_forever :: "env \<Rightarrow> fs \<Rightarrow> event list \<Rightarrow> process \<Rightarrow> serve_result" where
  "serve_forever e f [] p = Blocked p"
| "serve_forever e f (Raise err # evs) p = Raised err p"
| "serve_forever e f (Connection rs # evs) p =
     (case handle e f rs (new_handler (cwd p) (mime p)) of
        (h, None) \<Rightarrow> serve_forever e f evs (after_handler h p)
      | (h, Some KeyboardInterrupt) \<Rightarrow> Raised KeyboardInterrupt (after_handler h p)
      | (h, Some err) \<Rightarrow>
          serve_forever e f evs ((after_handler h p)\<lparr>reported := reported p @ [err]\<rparr>))"

declare serve_forever.simps(3) [simp del]

text \<open>The three texts the script prints (serve.py, lines 28, 29 and 33).\<close>

definition banner1 :: string where
  "banner1 = [CHR 0xF0, CHR 0x9F, CHR 0x9A, CHR 0x80]
             @ '' Serving at http://localhost:'' @ str_nat PORT"

definition banner2 :: string where
  "banner2 = [CHR 0xF0, CHR 0x9F, CHR 0x93, CHR 0x81]
             @ '' DDS files will be served with correct MIME type''"

definition farewell :: string where
  "farewell = [CHR 0x0A, CHR 0xF0, CHR 0x9F, CHR 0x91, CHR 0x8B] @ '' Server stopped''"

definition print :: "string \<Rightarrow> process \<Rightarrow> process" where
  "print s p = p\<lparr>stdout := stdout p @ [s]\<rparr>"

text \<open>
  How the process ends. An exception nothing catches ends it with a traceback and status
  1; an uncaught \<^verbatim>\<open>KeyboardInterrupt\<close> ends it through the interrupt signal, which a
  shell reports as status 130.
\<close>

datatype exit = ExitOK | Uncaught pyerror

fun exit_status :: "exit \<Rightarrow> nat" where
  "exit_status ExitOK = 0"
| "exit_status (Uncaught KeyboardInterrupt) = 130"
| "exit_status (Uncaught _) = 1"

datatype outcome = Serving process | Exited exit process

text \<open>
  The body of the \<^verbatim>\<open>with\<close> statement (serve.py, lines 28 to 33): \<open>Inl\<close> when
  \<^verbatim>\<open>serve_forever\<close> is still running, otherwise the process with the exception that
  leaves the body, if any.
\<close>

definition with_body :: "launch \<Rightarrow> process \<Rightarrow> process + process \<times> pyerror option" where
  "with_body L p =
     (if startup_interrupt L = Some AtBanner1 then Inr (p, Some KeyboardInterrupt)
      else let p1 = print banner1 p
           in if startup_interrupt L = Some AtBanner2 then Inr (p1, Some KeyboardInterrupt)
              else let p2 = print banner2 p1
                   in case serve_forever (environment L) (files L) (events L) p2 of
                        Blocked p3 \<Rightarrow> Inl p3
                      | Raised KeyboardInterrupt p3 \<Rightarrow> Inr (print farewell p3, None)
                      | Raised err p3 \<Rightarrow> Inr (p3, Some err))"

text \<open>
  The script from its first line to its last (serve.py, lines 11 to 33). The module
  level runs \<^verbatim>\<open>mimetypes.add_type\<close>; then the \<^verbatim>\<open>dist\<close> check, the construction of the
  server, and the \<^verbatim>\<open>with\<close> statement, whose \<^verbatim>\<open>__exit__\<close> closes the server whether or
  not its body raised and lets the exception pass. An exception raised by the constructor
  leaves the script before the \<^verbatim>\<open>with\<close> statement is entered.
\<close>

definition initial_process :: "launch \<Rightarrow> process" where
  "initial_process L =
     \<lparr>cwd = launch_dir L, mime = module_init (system_db L), stdout = [], sock = NoSocket,
      calls = [], replies = [], reported = []\<rparr>"

definition main :: "launch \<Rightarrow> outcome" where
  "main L =
     (let p0 = initial_process L
      in if startup_interrupt L = Some AtDistCheck then Exited (Uncaught KeyboardInterrupt) p0
         else case (if os_path_exists (dist L) then os_chdir L ''dist'' p0 else Inr p0) of
                Inl err \<Rightarrow> Exited (Uncaught err) p0
              | Inr p1 \<Rightarrow>
                  (case TCPServer_init L p1 of
                     (p2, Some err) \<Rightarrow> Exited (Uncaught err) p2
                   | (p2, None) \<Rightarrow>
                       (case with_body L p2 of
                          Inl p3 \<Rightarrow> Serving p3
                        | Inr (p3, Some err) \<Rightarrow> Exited (Uncaught err) (BaseServer_exit p3)
                        | Inr (p3, None) \<Rightarrow> Exited ExitOK (BaseServer_exit p3))))"

section \<open>What the claims speak of\<close>

text \<open>
  A header block that carries the two isolation headers last, right before the blank
  line that ends it, as \<open>end_headers\<close> leaves them; and a reply that contains a header
  block with both headers in it.
\<close>

definition ends_with_cors :: "bytes list \<Rightarrow> bool" where
  "ends_with_cors ls =
     (length ls \<ge> 3 \<and> drop (length ls - 3) ls = [COEP_line, COOP_line, CRLF])"

fun cors_ok :: "chunk \<Rightarrow> bool" where
  "cors_ok (HeaderBlock ls) = ends_with_cors ls"
| "cors_ok (BodyBytes b) = True"

fun has_cors :: "chunk \<Rightarrow> bool" where
  "has_cors (HeaderBlock ls) = (COEP_line \<in> set ls \<and> COOP_line \<in> set ls)"
| "has_cors (BodyBytes b) = False"

definition carries_cors :: "chunk list \<Rightarrow> bool" where
  "carries_cors reply = list_ex has_cors reply"

section \<open>An example installation\<close>

text \<open>
  Concrete surroundings for the closed examples below. The texts are ASCII and the
  request targets have no percent escapes, no query and no fragment, so \<^verbatim>\<open>unquote\<close> is
  the identity, \<^verbatim>\<open>%r\<close> puts the text between single quotes and the error page is
  \<^verbatim>\<open>DEFAULT_ERROR_MESSAGE\<close> with the three fields filled in.
\<close>

definition html_escape :: "string \<Rightarrow> string" where
  "html_escape s =
     concat (map (\<lambda>c. if c = CHR ''&'' then ''&amp;''
                        else if c = CHR ''<'' then ''&lt;''
                        else if c = CHR ''>'' then ''&gt;''
                        else [c]) s)"

definition error_page_ascii :: "nat \<Rightarrow> string \<Rightarrow> string \<Rightarrow> bytes" where
  "error_page_ascii code message explain =
     ''<!DOCTYPE HTML>'' @ [CHR 0x0A]
     @ ''<html lang='' @ [CHR 0x22] @ ''en'' @ [CHR 0x22] @ ''>'' @ [CHR 0x0A]
     @ ''    <head>'' @ [CHR 0x0A]
     @ ''        <meta charset='' @ [CHR 0x22] @ ''utf-8'' @ [CHR 0x22] @ ''>'' @ [CHR 0x0A]
     @ ''        <title>Error response</title>'' @ [CHR 0x0A]
     @ ''    </head>'' @ [CHR 0x0A]
     @ ''    <body>'' @ [CHR 0x0A]
     @ ''        <h1>Error response</h1>'' @ [CHR 0x0A]
     @ ''        <p>Error code: '' @ str_nat code @ ''</p>'' @ [CHR 0x0A]
     @ ''        <p>Message: '' @ html_escape message @ ''.</p>'' @ [CHR 0x0A]
     @ ''        <p>Error code explanation: '' @ str_nat code @ '' - ''
     @ html_escape explain @ ''.</p>'' @ [CHR 0x0A]
     @ ''    </body>'' @ [CHR 0x0A]
     @ ''</html>'' @ [CHR 0x0A]"

definition example_env :: env where
  "example_env =
     \<lparr>version_string = ''SimpleHTTP/0.6 Python/3.11.10'',
      date_time_string = ''Wed, 04 Nov 2026 12:00:00 GMT'',
      format_timestamp =
        (\<lambda>t. if t = 1793707200 then ''Tue, 03 Nov 2026 12:00:00 GMT''
              else ''Thu, 01 Jan 1970 00:00:00 GMT''),
      repr = (\<lambda>s. [CHR 0x27] @ s @ [CHR 0x27]),
      error_page = error_page_ascii,
      unquote = (\<lambda>s. s),
      urlsplit_path = takeWhile (\<lambda>c. c \<noteq> CHR ''?'' \<and> c \<noteq> CHR ''#''),
      redirect_url = (\<lambda>s. s @ ''/''),
      parsedate =
        (\<lambda>s. if s = ''Wed, 04 Nov 2026 12:00:00 GMT'' then UtcSeconds 1793793600
              else IllFormed),
      filesystem_encoding = ''utf-8''\<rparr>"

text \<open>
  A serving root \<^verbatim>\<open>/srv/dist\<close> with a texture, a page and a directory of textures. A
  path with a NUL character makes \<^verbatim>\<open>open\<close> raise \<^verbatim>\<open>ValueError\<close> before the operating
  system is asked.
\<close>

definition example_fs :: fs where
  "example_fs =
     \<lparr>isdir = (\<lambda>p. p \<in> {''/srv/dist'', ''/srv/dist/'', ''/srv/dist/textures'',
                          ''/srv/dist/textures/''}),
      isfile = (\<lambda>p. p \<in> {''/srv/dist/model.dds'', ''/srv/dist/index.html''}),
      open_rb =
        (\<lambda>p. if CHR 0x00 \<in> set p then Inl ValueError
              else if p = ''/srv/dist/model.dds'' then Inr (''DDS |'', 1793707200)
              else if p = ''/srv/dist/index.html'' then Inr (''<html></html>'', 1793707200)
              else if p \<in> {''/srv/dist'', ''/srv/dist/'', ''/srv/dist/textures'',
                            ''/srv/dist/textures/''}
                   then Inl (OSError ''IsADirectoryError'')
              else Inl (OSError ''FileNotFoundError'')),
      listing =
        (\<lambda>p target. if p = ''/srv/dist/textures/'' then Some ''<!DOCTYPE HTML>'' else None)\<rparr>"

text \<open>A system registry that maps \<^verbatim>\<open>.dds\<close> to an image type of its own.\<close>

definition example_system_db :: mimetypes_db where
  "example_system_db =
     \<lparr>types_map = [''.html'' \<mapsto> ''text/html'', ''.dds'' \<mapsto> ''image/vnd-ms.dds''],
      types_map_inv = [''text/html'' \<mapsto> [''.html''], ''image/vnd-ms.dds'' \<mapsto> [''.dds'']]\<rparr>"

definition one_request :: "string \<Rightarrow> (string \<times> string) list \<Rightarrow> request" where
  "one_request line hs = \<lparr>raw_requestline = line @ CRLF, header_lines = ParsedHeaders hs\<rparr>"

text \<open>What the example server, started in \<^verbatim>\<open>/srv/dist\<close>, sends on a connection.\<close>

definition example_reply :: "request list \<Rightarrow> chunk list" where
  "example_reply rs =
     wfile (fst (handle example_env example_fs rs
                   (new_handler ''/srv/dist'' (module_init example_system_db))))"

section \<open>Reading the outcome of a run\<close>

text \<open>
  Projections of the results, the calls of one kind in the trace, the reply a
  connection gets from a handler created in a process with registry \<open>db\<close> and working
  directory \<open>d\<close>, and the connections \<^verbatim>\<open>serve_forever\<close> accepts before an exception
  leaves the loop.
\<close>

fun process_of :: "serve_result \<Rightarrow> process" where
  "process_of (Blocked p) = p"
| "process_of (Raised err p) = p"

fun raised_by :: "serve_result \<Rightarrow> pyerror option" where
  "raised_by (Blocked p) = None"
| "raised_by (Raised err p) = Some err"

fun outcome_process :: "outcome \<Rightarrow> process" where
  "outcome_process (Serving p) = p"
| "outcome_process (Exited x p) = p"

fun outcome_exit :: "outcome \<Rightarrow> exit option" where
  "outcome_exit (Serving p) = None"
| "outcome_exit (Exited x p) = Some x"

fun is_chdir :: "call \<Rightarrow> bool" where
  "is_chdir (Chdir d) = True"
| "is_chdir _ = False"

fun is_bind :: "call \<Rightarrow> bool" where
  "is_bind (Bind host port) = True"
| "is_bind _ = False"

definition reply_to :: "env \<Rightarrow> fs \<Rightarrow> mimetypes_db \<Rightarrow> string \<Rightarrow> request list \<Rightarrow> chunk list" where
  "reply_to e f db d rs = wfile (fst (handle e f rs (new_handler d db)))"

fun accepted :: "env \<Rightarrow> fs \<Rightarrow> mimetypes_db \<Rightarrow> string \<Rightarrow> event list \<Rightarrow> request list list" where
  "accepted e f db d [] = []"
| "accepted e f db d (Raise err # evs) = []"
| "accepted e f db d (Connection rs # evs) =
     rs # (if snd (handle e f rs (new_handler d db)) = Some KeyboardInterrupt then []
           else accepted e f db d evs)"

text \<open>A launch of the example installation from \<^verbatim>\<open>/srv\<close>: one request, then the
  interrupt.\<close>

definition example_launch :: launch where
  "example_launch =
     \<lparr>launch_dir = ''/srv'', system_db = example_system_db, dist = Directory,
      chdir_error = None, dist_path = ''/srv/dist'', bind_error = None,
      startup_interrupt = None,
      events = [Connection [one_request ''GET /model.dds HTTP/1.1'' []],
                Raise KeyboardInterrupt],
      environment = example_env, files = example_fs\<rparr>"

section \<open>The methods of the handler\<close>

subsection \<open>What the header methods change\<close>

lemma send_header_fields [simp]:
  "wfile (send_header k v h) = wfile h"
  "request_version (send_header k v h) = request_version h"
  "command (send_header k v h) = command h"
  "path (send_header k v h) = path h"
  "directory (send_header k v h) = directory h"
  "headers (send_header k v h) = headers h"
  "working_dir (send_header k v h) = working_dir h"
  "registry (send_header k v h) = registry h"
  by (simp_all add: send_header_def Let_def)

lemma headers_buffer_send_header:
  "headers_buffer (send_header k v h) =
     (if request_version h \<noteq> ''HTTP/0.9'' then headers_buffer h @ [k @ '': '' @ v @ CRLF]
      else headers_buffer h)"
  by (simp add: send_header_def Let_def)

lemma send_response_only_fields [simp]:
  "wfile (send_response_only c m h) = wfile h"
  "request_version (send_response_only c m h) = request_version h"
  "command (send_response_only c m h) = command h"
  "path (send_response_only c m h) = path h"
  "directory (send_response_only c m h) = directory h"
  "headers (send_response_only c m h) = headers h"
  "close_connection (send_response_only c m h) = close_connection h"
  "working_dir (send_response_only c m h) = working_dir h"
  "registry (send_response_only c m h) = registry h"
  by (simp_all add: send_response_only_def Let_def)

lemma send_response_fields [simp]:
  "wfile (send_response e c m h) = wfile h"
  "request_version (send_response e c m h) = request_version h"
  "command (send_response e c m h) = command h"
  "path (send_response e c m h) = path h"
  "directory (send_response e c m h) = directory h"
  "headers (send_response e c m h) = headers h"
  "working_dir (send_response e c m h) = working_dir h"
  "registry (send_response e c m h) = registry h"
  by (simp_all add: send_response_def)

lemma lower_cors_names [simp]:
  "lower ''Cross-Origin-Embedder-Policy'' \<noteq> ''connection''"
  "lower ''Cross-Origin-Opener-Policy'' \<noteq> ''connection''"
  by (simp_all add: lower_def lower_char_def)

lemma end_headers_fields [simp]:
  "request_version (end_headers h) = request_version h"
  "command (end_headers h) = command h"
  "path (end_headers h) = path h"
  "directory (end_headers h) = directory h"
  "headers (end_headers h) = headers h"
  "working_dir (end_headers h) = working_dir h"
  "registry (end_headers h) = registry h"
  by (simp_all add: end_headers_def BaseHTTPRequestHandler_end_headers_def flush_headers_def)

lemma wfile_end_headers:
  "wfile (end_headers h) =
     (if request_version h \<noteq> ''HTTP/0.9''
      then wfile h @ [HeaderBlock (headers_buffer h @ [COEP_line, COOP_line, CRLF])]
      else wfile h)"
  by (simp add: end_headers_def BaseHTTPRequestHandler_end_headers_def flush_headers_def
      headers_buffer_send_header COEP_line_def COOP_line_def)

lemma send_error_fields [simp]:
  "command (send_error e c m x h) = command h"
  "request_version (send_error e c m x h) = request_version h"
  "working_dir (send_error e c m x h) = working_dir h"
  "registry (send_error e c m x h) = registry h"
  by (simp_all add: send_error_def Let_def split: prod.splits)

subsection \<open>Every header block ends with the two headers\<close>

lemma ends_with_cors_append [simp]: "ends_with_cors (pre @ [COEP_line, COOP_line, CRLF])"
  by (simp add: ends_with_cors_def)

lemma cors_end_headers:
  "list_all cors_ok (wfile h) \<Longrightarrow> list_all cors_ok (wfile (end_headers h))"
  by (simp add: wfile_end_headers)

lemma cors_send_error:
  "list_all cors_ok (wfile h) \<Longrightarrow> list_all cors_ok (wfile (send_error e c m x h))"
  by (simp add: send_error_def Let_def cors_end_headers split: prod.splits)

lemma cors_list_directory:
  "list_all cors_ok (wfile h) \<Longrightarrow> list_all cors_ok (wfile (fst (list_directory e f p h)))"
  by (simp add: list_directory_def cors_send_error cors_end_headers split: option.splits)

lemma cors_send_head_file:
  "list_all cors_ok (wfile h) \<Longrightarrow> list_all cors_ok (wfile (fst (send_head_file e f p h)))"
  by (simp add: send_head_file_def Let_def cors_send_error cors_end_headers
      split: sum.splits pyerror.splits prod.splits)

lemma cors_send_head:
  "list_all cors_ok (wfile h) \<Longrightarrow> list_all cors_ok (wfile (fst (send_head e f h)))"
  by (simp add: send_head_def Let_def cors_send_head_file cors_list_directory cors_end_headers)

lemma cors_do_GET:
  "list_all cors_ok (wfile h) \<Longrightarrow> list_all cors_ok (wfile (fst (do_GET e f h)))"
  using cors_send_head [of h e f]
  by (auto simp: do_GET_def split: prod.splits sum.splits option.splits)

lemma cors_do_HEAD:
  "list_all cors_ok (wfile h) \<Longrightarrow> list_all cors_ok (wfile (fst (do_HEAD e f h)))"
  using cors_send_head [of h e f]
  by (auto simp: do_HEAD_def split: prod.splits sum.splits)

lemma cors_parse_request_line:
  "list_all cors_ok (wfile h) \<Longrightarrow>
   list_all cors_ok (wfile (snd (parse_request_line e raw h)))"
  by (auto simp: parse_request_line_def Let_def cors_send_error
      split: option.splits prod.splits sum.splits)

lemma cors_parse_request_headers:
  "list_all cors_ok (wfile h) \<Longrightarrow>
   list_all cors_ok (wfile (snd (parse_request_headers e hp h)))"
  by (auto simp: parse_request_headers_def Let_def cors_send_error handle_expect_100_def
      cors_end_headers split: header_parse.splits)

lemma cors_parse_request:
  "list_all cors_ok (wfile h) \<Longrightarrow> list_all cors_ok (wfile (snd (parse_request e r h)))"
  using cors_parse_request_line [of h e "raw_requestline r"]
    cors_parse_request_headers [of "snd (parse_request_line e (raw_requestline r) h)" e "header_lines r"]
  by (auto simp: parse_request_def split: prod.splits bool.splits)

lemma cors_handle_one_request:
  assumes "list_all cors_ok (wfile h)"
  shows "list_all cors_ok (wfile (fst (handle_one_request e f r h)))"
proof -
  have p: "list_all cors_ok (wfile (snd (parse_request e r h)))"
    using assms by (rule cors_parse_request)
  show ?thesis
    using assms p
      cors_do_GET [of "snd (parse_request e r h)" e f]
      cors_do_HEAD [of "snd (parse_request e r h)" e f]
      cors_send_error [of "snd (parse_request e r h)"]
    by (auto simp: handle_one_request_def cors_send_error split: prod.splits option.splits bool.splits)
qed

lemma cors_handle_loop:
  "list_all cors_ok (wfile h) \<Longrightarrow> list_all cors_ok (wfile (fst (handle_loop e f rs h)))"
proof (induction rs arbitrary: h)
  case Nil
  then show ?case by simp
next
  case (Cons r rs)
  have "list_all cors_ok (wfile (fst (handle_one_request e f r h)))"
    using Cons.prems by (rule cors_handle_one_request)
  then show ?case
    using Cons.IH [of "fst (handle_one_request e f r h)"]
    by (auto split: prod.splits option.splits)
qed

lemma cors_reply_to: "list_all cors_ok (reply_to e f db d rs)"
  by (simp add: reply_to_def handle_def cors_handle_loop new_handler_def)

subsection \<open>What the handler leaves of the process\<close>

lemma globals_list_directory:
  "working_dir (fst (list_directory e f p h)) = working_dir h
   \<and> registry (fst (list_directory e f p h)) = registry h"
  by (simp add: list_directory_def split: option.splits)

lemma globals_send_head_file:
  "working_dir (fst (send_head_file e f p h)) = working_dir h
   \<and> registry (fst (send_head_file e f p h)) = registry h"
  by (simp add: send_head_file_def Let_def split: sum.splits pyerror.splits prod.splits)

lemma globals_send_head:
  "working_dir (fst (send_head e f h)) = working_dir h
   \<and> registry (fst (send_head e f h)) = registry h"
  by (simp add: send_head_def Let_def globals_send_head_file globals_list_directory)

lemma globals_do_GET:
  "working_dir (fst (do_GET e f h)) = working_dir h
   \<and> registry (fst (do_GET e f h)) = registry h"
  using globals_send_head [of e f h]
  by (auto simp: do_GET_def split: prod.splits sum.splits option.splits)

lemma globals_do_HEAD:
  "working_dir (fst (do_HEAD e f h)) = working_dir h
   \<and> registry (fst (do_HEAD e f h)) = registry h"
  using globals_send_head [of e f h]
  by (auto simp: do_HEAD_def split: prod.splits sum.splits)

lemma globals_parse_request_line:
  "working_dir (snd (parse_request_line e raw h)) = working_dir h
   \<and> registry (snd (parse_request_line e raw h)) = registry h"
  by (auto simp: parse_request_line_def Let_def split: option.splits prod.splits sum.splits)

lemma globals_parse_request_headers:
  "working_dir (snd (parse_request_headers e hp h)) = working_dir h
   \<and> registry (snd (parse_request_headers e hp h)) = registry h"
  by (auto simp: parse_request_headers_def Let_def handle_expect_100_def
      split: header_parse.splits)

lemma globals_parse_request:
  "working_dir (snd (parse_request e r h)) = working_dir h
   \<and> registry (snd (parse_request e r h)) = registry h"
  using globals_parse_request_line [of e "raw_requestline r" h]
    globals_parse_request_headers [of e "header_lines r" "snd (parse_request_line e (raw_requestline r) h)"]
  by (auto simp: parse_request_def split: prod.splits bool.splits)

lemma globals_handle_one_request:
  "working_dir (fst (handle_one_request e f r h)) = working_dir h
   \<and> registry (fst (handle_one_request e f r h)) = registry h"
  using globals_parse_request [of e r h]
    globals_do_GET [of e f "snd (parse_request e r h)"]
    globals_do_HEAD [of e f "snd (parse_request e r h)"]
  by (auto simp: handle_one_request_def split: prod.splits option.splits bool.splits)

lemma globals_handle_loop:
  "working_dir (fst (handle_loop e f rs h)) = working_dir h
   \<and> registry (fst (handle_loop e f rs h)) = registry h"
proof (induction rs arbitrary: h)
  case Nil
  then show ?case by simp
next
  case (Cons r rs)
  show ?case
    using globals_handle_one_request [of e f r h]
      Cons.IH [of "fst (handle_one_request e f r h)"]
    by (auto split: prod.splits option.splits)
qed

lemma globals_handle:
  "working_dir (fst (handle e f rs (new_handler d db))) = d"
  "registry (fst (handle e f rs (new_handler d db))) = db"
  using globals_handle_loop [of e f rs "(new_handler d db)\<lparr>close_connection := True\<rparr>"]
  by (simp_all add: handle_def new_handler_def)

lemma after_handler_handle:
  "after_handler (fst (handle e f rs (new_handler (cwd p) (mime p)))) p =
     p\<lparr>replies := replies p @ [reply_to e f (mime p) (cwd p) rs]\<rparr>"
  by (simp add: after_handler_def globals_handle reply_to_def)

subsection \<open>One request on each connection\<close>

lemma protocol_below_11 [simp]: "\<not> str_le ''HTTP/1.1'' protocol_version"
  by (simp add: protocol_version_def)

lemma lower_Connection [simp]: "lower ''Connection'' = ''connection''" "lower ''close'' = ''close''"
  by (simp_all add: lower_def lower_char_def)

lemma lower_header_names [simp]:
  "lower ''Content-Type'' \<noteq> ''connection''"
  "lower ''Content-Length'' \<noteq> ''connection''"
  "lower ''Content-type'' \<noteq> ''connection''"
  "lower ''Last-Modified'' \<noteq> ''connection''"
  "lower ''Location'' \<noteq> ''connection''"
  "lower ''Server'' \<noteq> ''connection''"
  "lower ''Date'' \<noteq> ''connection''"
  by (simp_all add: lower_def lower_char_def)

lemma close_connection_send_header_other [simp]:
  "lower k \<noteq> ''connection'' \<Longrightarrow> close_connection (send_header k v h) = close_connection h"
  by (simp add: send_header_def Let_def)

lemma close_connection_send_response [simp]:
  "close_connection (send_response e c m h) = close_connection h"
  by (simp add: send_response_def)

lemma close_connection_end_headers [simp]:
  "close_connection (end_headers h) = close_connection h"
  by (simp add: end_headers_def BaseHTTPRequestHandler_end_headers_def flush_headers_def)

lemma close_connection_send_error [simp]:
  "close_connection (send_error e c m x h) = True"
  by (simp add: send_error_def Let_def send_header_def split: prod.splits)

lemma close_connection_list_directory:
  "close_connection h \<Longrightarrow> close_connection (fst (list_directory e f p h))"
  by (simp add: list_directory_def split: option.splits)

lemma close_connection_send_head_file:
  "close_connection h \<Longrightarrow> close_connection (fst (send_head_file e f p h))"
  by (simp add: send_head_file_def Let_def split: sum.splits pyerror.splits prod.splits)

lemma close_connection_send_head:
  "close_connection h \<Longrightarrow> close_connection (fst (send_head e f h))"
  by (simp add: send_head_def Let_def close_connection_send_head_file
      close_connection_list_directory)

lemma close_connection_do_GET:
  "close_connection h \<Longrightarrow> close_connection (fst (do_GET e f h))"
  using close_connection_send_head [of h e f]
  by (auto simp: do_GET_def split: prod.splits sum.splits option.splits)

lemma close_connection_do_HEAD:
  "close_connection h \<Longrightarrow> close_connection (fst (do_HEAD e f h))"
  using close_connection_send_head [of h e f]
  by (auto simp: do_HEAD_def split: prod.splits sum.splits)

lemma close_connection_parse_request_line:
  "close_connection (snd (parse_request_line e raw h))"
  by (auto simp: parse_request_line_def Let_def split: option.splits prod.splits sum.splits)

lemma close_connection_parse_request_headers:
  "close_connection h \<Longrightarrow> close_connection (snd (parse_request_headers e hp h))"
  by (auto simp: parse_request_headers_def Let_def split: header_parse.splits)

lemma close_connection_parse_request:
  "close_connection (snd (parse_request e r h))"
  using close_connection_parse_request_line [of e "raw_requestline r" h]
    close_connection_parse_request_headers
      [of "snd (parse_request_line e (raw_requestline r) h)" e "header_lines r"]
  by (auto simp: parse_request_def split: prod.splits bool.splits)

lemma close_connection_handle_one_request:
  "close_connection h \<Longrightarrow> close_connection (fst (handle_one_request e f r h))"
  using close_connection_parse_request [of e r h]
    close_connection_do_GET [of "snd (parse_request e r h)" e f]
    close_connection_do_HEAD [of "snd (parse_request e r h)" e f]
  by (auto simp: handle_one_request_def split: prod.splits option.splits bool.splits)

lemma handle_first_only:
  "handle e f (r # rs) (new_handler d db) = handle_one_request e f r (new_handler d db)"
proof -
  have h: "(new_handler d db)\<lparr>close_connection := True\<rparr> = new_handler d db"
    by (simp add: new_handler_def)
  have "close_connection (fst (handle_one_request e f r (new_handler d db)))"
    by (rule close_connection_handle_one_request) (simp add: new_handler_def)
  then show ?thesis
    unfolding handle_def h by (auto split: prod.splits option.splits)
qed

lemma reply_to_first:
  "reply_to e f db d (r # rs) = wfile (fst (handle_one_request e f r (new_handler d db)))"
  by (simp add: reply_to_def handle_first_only)

subsection \<open>The request line and the header fields\<close>

lemma parse_request_line_versioned:
  assumes "split_ws (rstrip_crlf raw) = [cmd, target, version]"
    and "parse_version version = Some (major, minor)" and "major < 2"
  shows "parse_request_line e raw h =
     (True, h\<lparr>command := Some cmd, request_version := version, close_connection := True,
              path := single_leading_slash target\<rparr>)"
  using assms by (simp add: parse_request_line_def Let_def)

lemma parse_request_line_long:
  assumes "split_ws (rstrip_crlf raw) = ws" and "3 < length ws"
    and "parse_version (last ws) = Some (major, minor)" and "major < 2"
  shows "parse_request_line e raw h =
     (False, send_error e 400
        (Some (''Bad request syntax ('' @ repr e (rstrip_crlf raw) @ '')'')) None
        (h\<lparr>command := None, close_connection := True, request_version := last ws\<rparr>))"
proof -
  have "ws \<noteq> []" "length ws \<noteq> 0" "3 \<le> length ws" "\<not> length ws \<le> 3"
    using assms(2) by auto
  then show ?thesis
    using assms(1,3,4) by (simp add: parse_request_line_def Let_def)
qed

lemma parse_request_line_simple:
  assumes "split_ws (rstrip_crlf raw) = [''GET'', target]"
  shows "parse_request_line e raw h =
     (True, h\<lparr>command := Some ''GET'', request_version := ''HTTP/0.9'',
              close_connection := True, path := single_leading_slash target\<rparr>)"
  using assms by (simp add: parse_request_line_def Let_def)

lemma parse_request_line_one_word:
  "split_ws (rstrip_crlf raw) = [w] \<Longrightarrow>
   parse_request_line e raw h =
     (False, send_error e 400
        (Some (''Bad request syntax ('' @ repr e (rstrip_crlf raw) @ '')''))
        None (h\<lparr>command := None, request_version := ''HTTP/0.9'', close_connection := True\<rparr>))"
  by (simp add: parse_request_line_def Let_def)

lemma parse_request_headers_parsed:
  "parse_request_headers e (ParsedHeaders hs) h =
     (True, (if lower (case headers_get hs ''Connection'' of None \<Rightarrow> [] | Some v \<Rightarrow> v) = ''close''
             then h\<lparr>headers := hs, close_connection := True\<rparr> else h\<lparr>headers := hs\<rparr>))"
  by (simp add: parse_request_headers_def Let_def)

lemma parse_request_versioned:
  assumes "split_ws (rstrip_crlf (raw_requestline r)) = [cmd, target, version]"
    and "parse_version version = Some (major, minor)" and "major < 2"
    and "header_lines r = ParsedHeaders hs"
  shows "\<exists>h1. parse_request e r h = (True, h1) \<and> command h1 = Some cmd
     \<and> request_version h1 = version \<and> path h1 = single_leading_slash target
     \<and> headers h1 = hs \<and> directory h1 = directory h \<and> wfile h1 = wfile h
     \<and> headers_buffer h1 = headers_buffer h \<and> registry h1 = registry h"
  using assms
  by (simp add: parse_request_def parse_request_line_versioned [OF assms(1,2,3)]
      parse_request_headers_parsed)

lemma parse_request_simple:
  assumes "split_ws (rstrip_crlf (raw_requestline r)) = [''GET'', target]"
    and "header_lines r = ParsedHeaders hs"
  shows "\<exists>h1. parse_request e r h = (True, h1) \<and> command h1 = Some ''GET''
     \<and> request_version h1 = ''HTTP/0.9'' \<and> path h1 = single_leading_slash target
     \<and> headers h1 = hs \<and> directory h1 = directory h \<and> wfile h1 = wfile h
     \<and> headers_buffer h1 = headers_buffer h \<and> registry h1 = registry h"
  using assms
  by (simp add: parse_request_def parse_request_line_simple [OF assms(1)]
      parse_request_headers_parsed)

lemma parse_version_not_09:
  "parse_version version = Some (1, minor) \<Longrightarrow> version \<noteq> ''HTTP/0.9''"
  by (auto simp: parse_version_def Let_def startswith_def is_digit_def int_of_digits_def
      split: if_splits)

lemma raw_nonempty: "split_ws (rstrip_crlf raw) = w # ws \<Longrightarrow> raw \<noteq> []"
  by (auto simp: rstrip_crlf_def)

lemma handle_one_request_parsed:
  assumes "parse_request e r h = (True, h1)" and "command h1 = Some cmd"
    and "length (raw_requestline r) \<le> 65536" and "raw_requestline r \<noteq> []"
  shows "handle_one_request e f r h =
     (if cmd = ''GET'' then do_GET e f h1
      else if cmd = ''HEAD'' then do_HEAD e f h1
      else (send_error e 501 (Some (''Unsupported method ('' @ repr e cmd @ '')'')) None h1, None))"
  using assms by (simp add: handle_one_request_def)

lemma request_versioned:
  assumes line: "split_ws (rstrip_crlf (raw_requestline r)) = [cmd, target, version]"
    and ver: "parse_version version = Some (major, minor)" "major < 2"
    and len: "length (raw_requestline r) \<le> 65536"
    and hdr: "header_lines r = ParsedHeaders hs"
  shows "\<exists>h1. command h1 = Some cmd \<and> request_version h1 = version
     \<and> path h1 = single_leading_slash target \<and> headers h1 = hs \<and> directory h1 = d
     \<and> registry h1 = db \<and> wfile h1 = [] \<and> headers_buffer h1 = []
     \<and> handle_one_request e f r (new_handler d db)
         = (if cmd = ''GET'' then do_GET e f h1
            else if cmd = ''HEAD'' then do_HEAD e f h1
            else (send_error e 501 (Some (''Unsupported method ('' @ repr e cmd @ '')''))
                    None h1, None))"
proof -
  let ?h = "new_handler d db"
  obtain h1 where h1: "parse_request e r ?h = (True, h1)" "command h1 = Some cmd"
    "request_version h1 = version" "path h1 = single_leading_slash target" "headers h1 = hs"
    "directory h1 = directory ?h" "wfile h1 = wfile ?h" "headers_buffer h1 = headers_buffer ?h"
    "registry h1 = registry ?h"
    using parse_request_versioned [OF line ver hdr, of e ?h] by blast
  have ne: "raw_requestline r \<noteq> []"
    using line by (rule raw_nonempty)
  note handle_one_request_parsed [OF h1(1,2) len ne, of f]
  then show ?thesis
    using h1 by (intro exI [of _ h1]) (simp add: new_handler_def)
qed

lemma request_simple:
  assumes line: "split_ws (rstrip_crlf (raw_requestline r)) = [''GET'', target]"
    and len: "length (raw_requestline r) \<le> 65536"
    and hdr: "header_lines r = ParsedHeaders hs"
  shows "\<exists>h1. command h1 = Some ''GET'' \<and> request_version h1 = ''HTTP/0.9''
     \<and> path h1 = single_leading_slash target \<and> headers h1 = hs \<and> directory h1 = d
     \<and> registry h1 = db \<and> wfile h1 = [] \<and> headers_buffer h1 = []
     \<and> handle_one_request e f r (new_handler d db) = do_GET e f h1"
proof -
  let ?h = "new_handler d db"
  obtain h1 where h1: "parse_request e r ?h = (True, h1)" "command h1 = Some ''GET''"
    "request_version h1 = ''HTTP/0.9''" "path h1 = single_leading_slash target"
    "headers h1 = hs" "directory h1 = directory ?h" "wfile h1 = wfile ?h"
    "headers_buffer h1 = headers_buffer ?h" "registry h1 = registry ?h"
    using parse_request_simple [OF line hdr, of e ?h] by blast
  have ne: "raw_requestline r \<noteq> []"
    using line by (rule raw_nonempty)
  note handle_one_request_parsed [OF h1(1,2) len ne, of f]
  then show ?thesis
    using h1 by (intro exI [of _ h1]) (simp add: new_handler_def)
qed

subsection \<open>What is written for a status\<close>

lemma str_nat_codes [simp]:
  "str_nat 200 = ''200''" "str_nat 301 = ''301''" "str_nat 304 = ''304''"
  "str_nat 400 = ''400''" "str_nat 404 = ''404''" "str_nat 0 = ''0''"
  by (simp_all add: str_nat.simps digit_char_def)

lemma headers_buffer_send_response_only:
  "request_version h \<noteq> ''HTTP/0.9'' \<Longrightarrow>
   headers_buffer (send_response_only code (Some m) h) =
     headers_buffer h @ [''HTTP/1.0 '' @ str_nat code @ '' '' @ m @ CRLF]"
  by (simp add: send_response_only_def protocol_version_def)

lemma headers_buffer_send_response:
  "request_version h \<noteq> ''HTTP/0.9'' \<Longrightarrow>
   headers_buffer (send_response e code (Some m) h) =
     headers_buffer h @ [''HTTP/1.0 '' @ str_nat code @ '' '' @ m @ CRLF,
                         ''Server: '' @ version_string e @ CRLF,
                         ''Date: '' @ date_time_string e @ CRLF]"
  by (simp add: send_response_def headers_buffer_send_header headers_buffer_send_response_only)

lemma send_response_default_phrase:
  "responses code = Some (phrase, descr) \<Longrightarrow>
   send_response e code None h = send_response e code (Some phrase) h"
  by (simp add: send_response_def send_response_only_def)

lemma wfile_send_error_versioned:
  assumes "request_version h \<noteq> ''HTTP/0.9''" and "200 \<le> code" and "code \<notin> {204, 205, 304}"
    and "responses code = Some (phrase, descr)"
  shows "wfile (send_error e code (Some m) None h) =
     wfile h @
     [HeaderBlock (headers_buffer h @
        [''HTTP/1.0 '' @ str_nat code @ '' '' @ m @ CRLF,
         ''Server: '' @ version_string e @ CRLF,
         ''Date: '' @ date_time_string e @ CRLF,
         ''Connection: close'' @ CRLF,
         ''Content-Type: text/html;charset=utf-8'' @ CRLF,
         ''Content-Length: '' @ str_nat (length (error_page e code m descr)) @ CRLF,
         COEP_line, COOP_line, CRLF])]
     @ (if command h \<noteq> Some ''HEAD'' \<and> error_page e code m descr \<noteq> []
        then [BodyBytes (error_page e code m descr)] else [])"
  using assms
  by (simp add: send_error_def Let_def wfile_end_headers headers_buffer_send_header
      headers_buffer_send_response error_content_type_def)

lemma wfile_send_error_http09:
  "request_version h = ''HTTP/0.9'' \<Longrightarrow>
   wfile (send_error e c (Some m) None h) =
     wfile h @ (if command h \<noteq> Some ''HEAD'' \<and> c \<ge> 200 \<and> c \<notin> {204, 205, 304}
                   \<and> error_page e c m (case responses c of Some r \<Rightarrow> snd r | None \<Rightarrow> ''???'') \<noteq> []
                then [BodyBytes (error_page e c m (case responses c of Some r \<Rightarrow> snd r | None \<Rightarrow> ''???''))]
                else [])"
  by (auto simp: send_error_def Let_def wfile_end_headers split: prod.splits option.splits)

subsection \<open>A reply with headers carries the two headers\<close>

lemma carries_cors_append [simp]:
  "carries_cors (pre @ HeaderBlock (ls @ [COEP_line, COOP_line, CRLF]) # post)"
  by (simp add: carries_cors_def)

lemma carries_cors_grows: "carries_cors xs \<Longrightarrow> carries_cors (xs @ ys)"
  by (simp add: carries_cors_def)

lemma carries_end_headers:
  "request_version h \<noteq> ''HTTP/0.9'' \<Longrightarrow> carries_cors (wfile (end_headers h))"
  by (simp add: wfile_end_headers)

lemma carries_send_error:
  "request_version h \<noteq> ''HTTP/0.9'' \<Longrightarrow> carries_cors (wfile (send_error e c m x h))"
  by (simp add: send_error_def Let_def carries_end_headers carries_cors_grows
      split: prod.splits)

lemma carries_list_directory:
  "request_version h \<noteq> ''HTTP/0.9'' \<Longrightarrow> carries_cors (wfile (fst (list_directory e f p h)))"
  by (simp add: list_directory_def carries_send_error carries_end_headers split: option.splits)

lemma carries_send_head_file:
  "request_version h \<noteq> ''HTTP/0.9'' \<Longrightarrow>
   (\<exists>err. send_head_file e f p h = (h, Inl err))
   \<or> ((\<exists>c. snd (send_head_file e f p h) = Inr c)
       \<and> carries_cors (wfile (fst (send_head_file e f p h))))"
  by (simp add: send_head_file_def Let_def carries_send_error carries_end_headers
      split: sum.splits pyerror.splits prod.splits)

lemma carries_send_head:
  assumes "request_version h \<noteq> ''HTTP/0.9''"
  shows "(\<exists>err. send_head e f h = (h, Inl err))
   \<or> ((\<exists>c. snd (send_head e f h) = Inr c) \<and> carries_cors (wfile (fst (send_head e f h))))"
proof -
  have ld: "\<exists>c. snd (list_directory e f p h) = Inr c" for p
    by (simp add: list_directory_def split: option.splits)
  show ?thesis
    using carries_send_head_file [OF assms, of e f] ld
      carries_list_directory [OF assms, of e f] carries_end_headers [of _] assms
    by (simp add: send_head_def Let_def)
qed

lemma carries_do_GET:
  assumes "request_version h \<noteq> ''HTTP/0.9''"
  shows "(\<exists>err. do_GET e f h = (h, Some err))
   \<or> (snd (do_GET e f h) = None \<and> carries_cors (wfile (fst (do_GET e f h))))"
  using carries_send_head [OF assms, of e f]
  by (auto simp: do_GET_def carries_cors_grows split: prod.splits sum.splits option.splits)

lemma carries_do_HEAD:
  assumes "request_version h \<noteq> ''HTTP/0.9''"
  shows "(\<exists>err. do_HEAD e f h = (h, Some err))
   \<or> (snd (do_HEAD e f h) = None \<and> carries_cors (wfile (fst (do_HEAD e f h))))"
  using carries_send_head [OF assms, of e f]
  by (auto simp: do_HEAD_def split: prod.splits sum.splits option.splits)

lemma parse_request_headers_versioned:
  "parse_request_headers e hp h = (b, h') \<Longrightarrow> request_version h \<noteq> ''HTTP/0.9'' \<Longrightarrow>
   request_version h' = request_version h
   \<and> (if b then wfile h' = wfile h \<and> command h' = command h
       else carries_cors (wfile h'))"
  by (auto simp: parse_request_headers_def Let_def carries_send_error
      split: header_parse.splits if_splits)

lemma carries_too_long:
  assumes "length (raw_requestline r) > 65536"
  shows "handle_one_request e f r h =
           (send_error e 414 None None (h\<lparr>request_version := [], command := Some []\<rparr>), None)"
    and "carries_cors (wfile (fst (handle_one_request e f r h)))"
  using assms by (simp_all add: handle_one_request_def carries_send_error)

lemma carries_versioned:
  assumes ws: "split_ws (rstrip_crlf (raw_requestline r)) = ws" "3 \<le> length ws"
    and ver: "parse_version (last ws) = Some (major, minor)" "major < 2"
    and v09: "last ws \<noteq> ''HTTP/0.9''"
    and len: "length (raw_requestline r) \<le> 65536"
    and w0: "wfile h = []"
  shows "(snd (handle_one_request e f r h) = None
            \<and> carries_cors (wfile (fst (handle_one_request e f r h))))
         \<or> (snd (handle_one_request e f r h) \<noteq> None
            \<and> wfile (fst (handle_one_request e f r h)) = [])"
proof (cases "length ws = 3")
  case False
  then have long: "3 < length ws"
    using ws(2) by simp
  have ne: "raw_requestline r \<noteq> []"
    using ws by (auto simp: rstrip_crlf_def)
  show ?thesis
    using len ne v09
    by (simp add: handle_one_request_def parse_request_def
        parse_request_line_long [OF ws(1) long ver] carries_send_error)
next
  case True
  then obtain cmd target version where w3: "ws = [cmd, target, version]"
    by (cases ws; cases "tl ws"; cases "tl (tl ws)") auto
  have line: "split_ws (rstrip_crlf (raw_requestline r)) = [cmd, target, version]"
    using ws(1) w3 by simp
  have ver': "parse_version version = Some (major, minor)" and v: "version \<noteq> ''HTTP/0.9''"
    using ver(1) v09 w3 by simp_all
  have ne: "raw_requestline r \<noteq> []"
    using line by (rule raw_nonempty)
  let ?h1 = "h\<lparr>command := Some cmd, request_version := version, close_connection := True,
               path := single_leading_slash target\<rparr>"
  obtain b h2 where ph: "parse_request_headers e (header_lines r) ?h1 = (b, h2)"
    by (cases "parse_request_headers e (header_lines r) ?h1") auto
  have h2: "request_version h2 = version"
    "if b then wfile h2 = [] \<and> command h2 = Some cmd else carries_cors (wfile h2)"
    using parse_request_headers_versioned [OF ph] v w0 by (auto split: if_splits)
  have pr: "parse_request e r h = (b, h2)"
    by (simp add: parse_request_def parse_request_line_versioned [OF line ver' ver(2)] ph)
  show ?thesis
  proof (cases b)
    case False
    then show ?thesis
      using h2 len ne by (simp add: handle_one_request_def pr)
  next
    case True
    have v2: "request_version h2 \<noteq> ''HTTP/0.9''"
      using h2(1) v by simp
    have hr: "handle_one_request e f r h =
       (if cmd = ''GET'' then do_GET e f h2
        else if cmd = ''HEAD'' then do_HEAD e f h2
        else (send_error e 501 (Some (''Unsupported method ('' @ repr e cmd @ '')'')) None h2,
              None))"
      using handle_one_request_parsed [of e r h h2 cmd f] pr True h2(2) len ne by simp
    show ?thesis
      using carries_do_GET [OF v2, of e f] carries_do_HEAD [OF v2, of e f] h2(2) True v2
      by (auto simp: hr carries_send_error)
  qed
qed

subsection \<open>A reply without headers\<close>

lemma carries_cors_body [simp]: "carries_cors (xs @ [BodyBytes b]) = carries_cors xs"
  by (simp add: carries_cors_def)

lemma quiet_end_headers:
  "request_version h = ''HTTP/0.9'' \<Longrightarrow> wfile (end_headers h) = wfile h"
  by (simp add: wfile_end_headers)

lemma quiet_send_error:
  "request_version h = ''HTTP/0.9'' \<Longrightarrow>
   carries_cors (wfile (send_error e c m x h)) = carries_cors (wfile h)"
  by (simp add: send_error_def Let_def quiet_end_headers split: prod.splits)

lemma quiet_list_directory:
  "request_version h = ''HTTP/0.9'' \<Longrightarrow>
   carries_cors (wfile (fst (list_directory e f p h))) = carries_cors (wfile h)"
  by (simp add: list_directory_def quiet_send_error quiet_end_headers split: option.splits)

lemma quiet_send_head_file:
  "request_version h = ''HTTP/0.9'' \<Longrightarrow>
   carries_cors (wfile (fst (send_head_file e f p h))) = carries_cors (wfile h)"
  by (simp add: send_head_file_def Let_def quiet_send_error quiet_end_headers
      split: sum.splits pyerror.splits prod.splits)

lemma quiet_send_head:
  "request_version h = ''HTTP/0.9'' \<Longrightarrow>
   carries_cors (wfile (fst (send_head e f h))) = carries_cors (wfile h)"
  by (simp add: send_head_def Let_def quiet_send_head_file quiet_list_directory
      quiet_end_headers)

lemma quiet_do_GET:
  "request_version h = ''HTTP/0.9'' \<Longrightarrow>
   carries_cors (wfile (fst (do_GET e f h))) = carries_cors (wfile h)"
  using quiet_send_head [of h e f]
  by (auto simp: do_GET_def split: prod.splits sum.splits option.splits)

lemma quiet_do_HEAD:
  "request_version h = ''HTTP/0.9'' \<Longrightarrow>
   carries_cors (wfile (fst (do_HEAD e f h))) = carries_cors (wfile h)"
  using quiet_send_head [of h e f]
  by (auto simp: do_HEAD_def split: prod.splits sum.splits)

lemma quiet_parse_request_headers:
  "request_version h = ''HTTP/0.9'' \<Longrightarrow>
   request_version (snd (parse_request_headers e hp h)) = ''HTTP/0.9''
   \<and> carries_cors (wfile (snd (parse_request_headers e hp h))) = carries_cors (wfile h)"
  by (auto simp: parse_request_headers_def Let_def quiet_send_error
      split: header_parse.splits)

lemma quiet_parse_request_line:
  assumes "\<not> (3 \<le> length (split_ws (rstrip_crlf raw))
            \<and> last (split_ws (rstrip_crlf raw)) \<noteq> ''HTTP/0.9''
            \<and> (\<exists>major minor. parse_version (last (split_ws (rstrip_crlf raw)))
                                = Some (major, minor) \<and> major < 2))"
  shows "request_version (snd (parse_request_line e raw h)) = ''HTTP/0.9''
   \<and> carries_cors (wfile (snd (parse_request_line e raw h))) = carries_cors (wfile h)"
proof -
  let ?ws = "split_ws (rstrip_crlf raw)"
  let ?h0 = "h\<lparr>command := None, request_version := ''HTTP/0.9'', close_connection := True\<rparr>"
  show ?thesis
  proof (cases "3 \<le> length ?ws")
    case False
    then show ?thesis
      by (auto simp: parse_request_line_def Let_def quiet_send_error)
  next
    case True
    show ?thesis
    proof (cases "parse_version (last ?ws)")
      case None
      then show ?thesis
        using True by (simp add: parse_request_line_def Let_def quiet_send_error)
    next
      case (Some v)
      obtain major minor where v: "v = (major, minor)"
        by (cases v) auto
      show ?thesis
      proof (cases "major < 2")
        case False
        then show ?thesis
          using True Some v by (simp add: parse_request_line_def Let_def quiet_send_error)
      next
        case lt: True
        then have l: "last ?ws = ''HTTP/0.9''"
          using assms True Some v by auto
        show ?thesis
          using True Some v lt l
          by (auto simp: parse_request_line_def Let_def quiet_send_error)
      qed
    qed
  qed
qed

lemma quiet_handle_one_request:
  assumes "length (raw_requestline r) \<le> 65536"
    and "\<not> (3 \<le> length (split_ws (rstrip_crlf (raw_requestline r)))
            \<and> last (split_ws (rstrip_crlf (raw_requestline r))) \<noteq> ''HTTP/0.9''
            \<and> (\<exists>major minor. parse_version (last (split_ws (rstrip_crlf (raw_requestline r))))
                                = Some (major, minor) \<and> major < 2))"
  shows "carries_cors (wfile (fst (handle_one_request e f r h))) = carries_cors (wfile h)"
proof -
  let ?l = "snd (parse_request_line e (raw_requestline r) h)"
  let ?p = "snd (parse_request e r h)"
  note l = quiet_parse_request_line [OF assms(2), of e h]
  note hd = quiet_parse_request_headers [of ?l e "header_lines r"]
  have p: "request_version ?p = ''HTTP/0.9''"
      "carries_cors (wfile ?p) = carries_cors (wfile h)"
    using l hd by (auto simp: parse_request_def split: prod.splits bool.splits)
  show ?thesis
    using assms(1) p quiet_do_GET [OF p(1), of e f] quiet_do_HEAD [OF p(1), of e f]
      quiet_send_error [OF p(1), of e]
    by (auto simp: handle_one_request_def split: prod.splits bool.splits option.splits)
qed

section \<open>Serving files\<close>

subsection \<open>What \<open>send_head\<close> writes for a file\<close>

lemma send_head_file_served:
  assumes "request_version h \<noteq> ''HTTP/0.9''" and "\<not> endswith_slash p"
    and "open_rb f p = Inr (content, mtime)" and "\<not> not_modified e (headers h) mtime"
  shows "snd (send_head_file e f p h) = Inr (Some content)"
    and "wfile (fst (send_head_file e f p h)) =
     wfile h @
     [HeaderBlock (headers_buffer h @
        [''HTTP/1.0 200 OK'' @ CRLF,
         ''Server: '' @ version_string e @ CRLF,
         ''Date: '' @ date_time_string e @ CRLF,
         ''Content-type: '' @ guess_type (registry h) p @ CRLF,
         ''Content-Length: '' @ str_nat (length content) @ CRLF,
         ''Last-Modified: '' @ format_timestamp e mtime @ CRLF,
         COEP_line, COOP_line, CRLF])]"
  using assms
  by (simp_all add: send_head_file_def Let_def wfile_end_headers headers_buffer_send_header
      send_response_default_phrase [of 200 "''OK''" "''Request fulfilled, document follows''"]
      responses_def headers_buffer_send_response)


lemma send_head_file_simple:
  assumes "request_version h = ''HTTP/0.9''" and "\<not> endswith_slash p"
    and "open_rb f p = Inr (content, mtime)"
  shows "snd (send_head_file e f p h)
           = Inr (if not_modified e (headers h) mtime then None else Some content)"
    and "wfile (fst (send_head_file e f p h)) = wfile h"
  using assms
  by (simp_all add: send_head_file_def Let_def wfile_end_headers)

lemma send_head_file_missing:
  assumes "request_version h \<noteq> ''HTTP/0.9''"
    and "endswith_slash p \<or> (\<exists>x. open_rb f p = Inl (OSError x))"
  shows "snd (send_head_file e f p h) = Inr None"
    and "wfile (fst (send_head_file e f p h)) =
     wfile h @
     [HeaderBlock (headers_buffer h @
        [''HTTP/1.0 404 File not found'' @ CRLF,
         ''Server: '' @ version_string e @ CRLF,
         ''Date: '' @ date_time_string e @ CRLF,
         ''Connection: close'' @ CRLF,
         ''Content-Type: text/html;charset=utf-8'' @ CRLF,
         ''Content-Length: ''
           @ str_nat (length (error_page e 404 ''File not found'' ''Nothing matches the given URI''))
           @ CRLF,
         COEP_line, COOP_line, CRLF])]
     @ (if command h \<noteq> Some ''HEAD''
           \<and> error_page e 404 ''File not found'' ''Nothing matches the given URI'' \<noteq> []
        then [BodyBytes (error_page e 404 ''File not found'' ''Nothing matches the given URI'')]
        else [])"
  using assms
  by (auto simp: send_head_file_def Let_def responses_def
      wfile_send_error_versioned [of _ 404 "''Not Found''" "''Nothing matches the given URI''"])

lemma send_head_file_raises:
  assumes "\<not> endswith_slash p" and "open_rb f p = Inl err" and "\<forall>x. err \<noteq> OSError x"
  shows "send_head_file e f p h = (h, Inl err)"
  using assms by (cases err) (simp_all add: send_head_file_def Let_def)

lemma send_head_plain:
  "\<not> isdir f (translate_path e (directory h) (path h)) \<Longrightarrow>
   send_head e f h = send_head_file e f (translate_path e (directory h) (path h)) h"
  by (simp add: send_head_def Let_def)

lemma wfile_do_GET:
  "wfile (fst (do_GET e f h)) =
     wfile (fst (send_head e f h))
     @ (case snd (send_head e f h) of Inr (Some content) \<Rightarrow> [BodyBytes content] | _ \<Rightarrow> [])"
  "snd (do_GET e f h) = (case snd (send_head e f h) of Inl err \<Rightarrow> Some err | Inr _ \<Rightarrow> None)"
  by (auto simp: do_GET_def split: prod.splits sum.splits option.splits)

lemma wfile_do_HEAD:
  "wfile (fst (do_HEAD e f h)) = wfile (fst (send_head e f h))"
  "snd (do_HEAD e f h) = (case snd (send_head e f h) of Inl err \<Rightarrow> Some err | Inr _ \<Rightarrow> None)"
  by (auto simp: do_HEAD_def split: prod.splits sum.splits option.splits)

subsection \<open>The type of a file\<close>

lemma guess_type_registry:
  assumes "snd (splitext p) = ext"
    and "extensions_map ext = None" and "extensions_map (lower ext) = None"
    and "suffix_map (lower ext) = None" and "encodings_map ext = None"
  shows "guess_type db p =
     (case types_map db (lower ext) of
        Some t \<Rightarrow> if t \<noteq> [] then t else ''application/octet-stream''
      | None \<Rightarrow> ''application/octet-stream'')"
proof -
  obtain base where b: "splitext p = (base, ext)"
    using assms(1) by (cases "splitext p") simp
  have a: "apply_suffix_map base ext = (base, ext)"
    by (subst apply_suffix_map.simps) (simp add: assms(4))
  have "fst (mimetypes_guess_type db p) = types_map db (lower ext)"
    by (simp add: mimetypes_guess_type_def b a assms(5))
  then show ?thesis
    using assms(1,2,3) by (simp add: guess_type_def split: option.splits)
qed

lemma dds_tables:
  "lower ''.dds'' = ''.dds''" "extensions_map ''.dds'' = None" "suffix_map ''.dds'' = None"
  "encodings_map ''.dds'' = None"
  by (simp_all add: lower_def lower_char_def extensions_map_def suffix_map_def encodings_map_def)

lemma guess_type_dds:
  assumes "snd (splitext p) = ''.dds''"
  shows "guess_type (module_init db0) p = ''application/octet-stream''"
  using guess_type_registry [OF assms, of "module_init db0"]
  by (simp add: dds_tables module_init_def add_type_def Let_def)

subsection \<open>The reply to one request for a path that is no directory\<close>

lemma reply_file:
  assumes line: "split_ws (rstrip_crlf (raw_requestline r)) = [cmd, target, version]"
    and ver: "parse_version version = Some (major, minor)" "major < 2"
    and len: "length (raw_requestline r) \<le> 65536"
    and hdr: "header_lines r = ParsedHeaders hs"
    and cmd: "cmd = ''GET'' \<or> cmd = ''HEAD''"
    and p: "p = translate_path e d (single_leading_slash target)"
    and nd: "\<not> isdir f p"
  shows "\<exists>h1. command h1 = Some cmd \<and> request_version h1 = version \<and> headers h1 = hs
     \<and> registry h1 = db \<and> wfile h1 = [] \<and> headers_buffer h1 = []
     \<and> reply_to e f db d (r # rs)
         = wfile (fst (send_head_file e f p h1))
           @ (case snd (send_head_file e f p h1) of
                Inr (Some c) \<Rightarrow> if cmd = ''GET'' then [BodyBytes c] else []
              | _ \<Rightarrow> [])
     \<and> snd (handle e f (r # rs) (new_handler d db))
         = (case snd (send_head_file e f p h1) of Inl err \<Rightarrow> Some err | Inr _ \<Rightarrow> None)"
proof -
  obtain h1 where h1: "command h1 = Some cmd" "request_version h1 = version"
    "path h1 = single_leading_slash target" "headers h1 = hs" "directory h1 = d"
    "registry h1 = db" "wfile h1 = []" "headers_buffer h1 = []"
    "handle_one_request e f r (new_handler d db)
       = (if cmd = ''GET'' then do_GET e f h1
          else if cmd = ''HEAD'' then do_HEAD e f h1
          else (send_error e 501 (Some (''Unsupported method ('' @ repr e cmd @ '')''))
                  None h1, None))"
    using request_versioned [OF line ver len hdr, of d db e f] by blast
  have sh: "send_head e f h1 = send_head_file e f p h1"
    using send_head_plain [of f e h1] nd p h1 by simp
  show ?thesis
    using h1 cmd
    by (intro exI [of _ h1])
       (auto simp: reply_to_first handle_first_only wfile_do_GET wfile_do_HEAD sh
          split: sum.splits option.splits)
qed

lemma reply_served:
  assumes "split_ws (rstrip_crlf (raw_requestline r)) = [cmd, target, version]"
    and "parse_version version = Some (major, minor)" and "major < 2"
    and "version \<noteq> ''HTTP/0.9''"
    and "length (raw_requestline r) \<le> 65536"
    and "header_lines r = ParsedHeaders hs"
    and "cmd = ''GET'' \<or> cmd = ''HEAD''"
    and "p = translate_path e d (single_leading_slash target)"
    and "\<not> isdir f p" and "\<not> endswith_slash p"
    and "open_rb f p = Inr (content, mtime)"
    and "\<not> not_modified e hs mtime"
  shows "reply_to e f db d (r # rs) =
     [HeaderBlock
        [''HTTP/1.0 200 OK'' @ CRLF,
         ''Server: '' @ version_string e @ CRLF,
         ''Date: '' @ date_time_string e @ CRLF,
         ''Content-type: '' @ guess_type db p @ CRLF,
         ''Content-Length: '' @ str_nat (length content) @ CRLF,
         ''Last-Modified: '' @ format_timestamp e mtime @ CRLF,
         COEP_line, COOP_line, CRLF]]
     @ (if cmd = ''GET'' then [BodyBytes content] else [])"
proof -
  obtain h1 where h1: "request_version h1 = version" "headers h1 = hs" "registry h1 = db"
    "wfile h1 = []" "headers_buffer h1 = []"
    "reply_to e f db d (r # rs)
       = wfile (fst (send_head_file e f p h1))
         @ (case snd (send_head_file e f p h1) of
              Inr (Some c) \<Rightarrow> if cmd = ''GET'' then [BodyBytes c] else []
            | _ \<Rightarrow> [])"
    using reply_file [OF assms(1,2,3,5,6,7,8,9), of db rs] by blast
  have v: "request_version h1 \<noteq> ''HTTP/0.9''"
    using assms(4) h1(1) by simp
  have nm: "\<not> not_modified e (headers h1) mtime"
    using assms(12) h1(2) by simp
  note served = send_head_file_served [OF v assms(10,11) nm]
  show ?thesis
    using h1(3,4,5) served by (simp add: h1(6))
qed


lemma reply_missing:
  assumes "split_ws (rstrip_crlf (raw_requestline r)) = [cmd, target, version]"
    and "parse_version version = Some (major, minor)" and "major < 2"
    and "version \<noteq> ''HTTP/0.9''"
    and "length (raw_requestline r) \<le> 65536"
    and "header_lines r = ParsedHeaders hs"
    and "cmd = ''GET'' \<or> cmd = ''HEAD''"
    and "p = translate_path e d (single_leading_slash target)"
    and "\<not> isdir f p"
    and "endswith_slash p \<or> (\<exists>x. open_rb f p = Inl (OSError x))"
  shows "snd (handle e f (r # rs) (new_handler d db)) = None"
    and "reply_to e f db d (r # rs) =
     [HeaderBlock
        [''HTTP/1.0 404 File not found'' @ CRLF,
         ''Server: '' @ version_string e @ CRLF,
         ''Date: '' @ date_time_string e @ CRLF,
         ''Connection: close'' @ CRLF,
         ''Content-Type: text/html;charset=utf-8'' @ CRLF,
         ''Content-Length: ''
           @ str_nat (length (error_page e 404 ''File not found'' ''Nothing matches the given URI''))
           @ CRLF,
         COEP_line, COOP_line, CRLF]]
     @ (if cmd = ''GET''
           \<and> error_page e 404 ''File not found'' ''Nothing matches the given URI'' \<noteq> []
        then [BodyBytes (error_page e 404 ''File not found'' ''Nothing matches the given URI'')]
        else [])"
proof -
  obtain h1 where h1: "command h1 = Some cmd" "request_version h1 = version"
    "wfile h1 = []" "headers_buffer h1 = []"
    "reply_to e f db d (r # rs)
       = wfile (fst (send_head_file e f p h1))
         @ (case snd (send_head_file e f p h1) of
              Inr (Some c) \<Rightarrow> if cmd = ''GET'' then [BodyBytes c] else []
            | _ \<Rightarrow> [])"
    "snd (handle e f (r # rs) (new_handler d db))
       = (case snd (send_head_file e f p h1) of Inl err \<Rightarrow> Some err | Inr _ \<Rightarrow> None)"
    using reply_file [OF assms(1,2,3,5,6,7,8,9), of db rs] by blast
  have v: "request_version h1 \<noteq> ''HTTP/0.9''"
    using assms(4) h1(2) by simp
  note missing = send_head_file_missing [OF v assms(10), of e]
  show "snd (handle e f (r # rs) (new_handler d db)) = None"
    using h1(6) missing(1) by simp
  show "reply_to e f db d (r # rs) =
     [HeaderBlock
        [''HTTP/1.0 404 File not found'' @ CRLF,
         ''Server: '' @ version_string e @ CRLF,
         ''Date: '' @ date_time_string e @ CRLF,
         ''Connection: close'' @ CRLF,
         ''Content-Type: text/html;charset=utf-8'' @ CRLF,
         ''Content-Length: ''
           @ str_nat (length (error_page e 404 ''File not found'' ''Nothing matches the given URI''))
           @ CRLF,
         COEP_line, COOP_line, CRLF]]
     @ (if cmd = ''GET''
           \<and> error_page e 404 ''File not found'' ''Nothing matches the given URI'' \<noteq> []
        then [BodyBytes (error_page e 404 ''File not found'' ''Nothing matches the given URI'')]
        else [])"
    using h1(1,3,4) missing assms(7) by (auto simp: h1(5))
qed

lemma reply_raises:
  assumes "split_ws (rstrip_crlf (raw_requestline r)) = [cmd, target, version]"
    and "parse_version version = Some (major, minor)" and "major < 2"
    and "length (raw_requestline r) \<le> 65536"
    and "header_lines r = ParsedHeaders hs"
    and "cmd = ''GET'' \<or> cmd = ''HEAD''"
    and "p = translate_path e d (single_leading_slash target)"
    and "\<not> isdir f p" and "\<not> endswith_slash p"
    and "open_rb f p = Inl err" and "\<forall>x. err \<noteq> OSError x"
  shows "snd (handle e f (r # rs) (new_handler d db)) = Some err"
    and "reply_to e f db d (r # rs) = []"
proof -
  obtain h1 where h1: "wfile h1 = []"
    "reply_to e f db d (r # rs)
       = wfile (fst (send_head_file e f p h1))
         @ (case snd (send_head_file e f p h1) of
              Inr (Some c) \<Rightarrow> if cmd = ''GET'' then [BodyBytes c] else []
            | _ \<Rightarrow> [])"
    "snd (handle e f (r # rs) (new_handler d db))
       = (case snd (send_head_file e f p h1) of Inl err \<Rightarrow> Some err | Inr _ \<Rightarrow> None)"
    using reply_file [OF assms(1,2,3,4,5,6,7,8), of db rs] by blast
  note raises = send_head_file_raises [OF assms(9,10,11), of e h1]
  show "snd (handle e f (r # rs) (new_handler d db)) = Some err"
    by (simp add: h1(3) raises)
  show "reply_to e f db d (r # rs) = []"
    by (simp add: h1(1,2) raises)
qed

lemma reply_simple_request:
  assumes line: "split_ws (rstrip_crlf (raw_requestline r)) = [''GET'', target]"
    and len: "length (raw_requestline r) \<le> 65536"
    and hdr: "header_lines r = ParsedHeaders hs"
    and p: "p = translate_path e d (single_leading_slash target)"
    and nd: "\<not> isdir f p" and ns: "\<not> endswith_slash p"
  shows "open_rb f p = Inr (content, mtime) \<Longrightarrow>
         reply_to e f db d (r # rs) = (if not_modified e hs mtime then [] else [BodyBytes content])"
    and "open_rb f p = Inl (OSError x) \<Longrightarrow>
         reply_to e f db d (r # rs) =
           (if error_page e 404 ''File not found'' ''Nothing matches the given URI'' \<noteq> []
            then [BodyBytes (error_page e 404 ''File not found'' ''Nothing matches the given URI'')]
            else [])"
proof -
  obtain h1 where h1: "command h1 = Some ''GET''" "request_version h1 = ''HTTP/0.9''"
    "path h1 = single_leading_slash target" "headers h1 = hs" "directory h1 = d"
    "wfile h1 = []" "handle_one_request e f r (new_handler d db) = do_GET e f h1"
    using request_simple [OF line len hdr, of d db e f] by blast
  have sh: "send_head e f h1 = send_head_file e f p h1"
    using send_head_plain [of f e h1] nd p h1 by simp
  {
    assume o: "open_rb f p = Inr (content, mtime)"
    note served = send_head_file_simple [OF h1(2) ns o, of e]
    show "reply_to e f db d (r # rs)
            = (if not_modified e hs mtime then [] else [BodyBytes content])"
      by (simp add: reply_to_first h1(4,6,7) wfile_do_GET sh served)
  }
  {
    assume o: "open_rb f p = Inl (OSError x)"
    have fst_snd: "send_head_file e f p h1 =
        (send_error e 404 (Some ''File not found'') None h1, Inr None)"
      using ns o by (simp add: send_head_file_def Let_def)
    show "reply_to e f db d (r # rs) =
           (if error_page e 404 ''File not found'' ''Nothing matches the given URI'' \<noteq> []
            then [BodyBytes (error_page e 404 ''File not found'' ''Nothing matches the given URI'')]
            else [])"
      by (simp add: reply_to_first h1(7) wfile_do_GET sh fst_snd wfile_send_error_http09
          h1(1,2,6) responses_def)
  }
qed

lemma reply_redirect:
  assumes line: "split_ws (rstrip_crlf (raw_requestline r)) = [''GET'', target, version]"
    and ver: "parse_version version = Some (major, minor)" "major < 2"
    and v09: "version \<noteq> ''HTTP/0.9''"
    and len: "length (raw_requestline r) \<le> 65536"
    and hdr: "header_lines r = ParsedHeaders hs"
    and dir: "isdir f (translate_path e d (single_leading_slash target))"
    and slash: "\<not> endswith_slash (urlsplit_path e (single_leading_slash target))"
  shows "reply_to e f db d (r # rs) =
     [HeaderBlock
        [''HTTP/1.0 301 Moved Permanently'' @ CRLF,
         ''Server: '' @ version_string e @ CRLF,
         ''Date: '' @ date_time_string e @ CRLF,
         ''Location: '' @ redirect_url e (single_leading_slash target) @ CRLF,
         ''Content-Length: 0'' @ CRLF,
         COEP_line, COOP_line, CRLF]]"
proof -
  obtain h1 where h1: "command h1 = Some ''GET''" "request_version h1 = version"
    "path h1 = single_leading_slash target" "headers h1 = hs" "directory h1 = d"
    "registry h1 = db" "wfile h1 = []" "headers_buffer h1 = []"
    "handle_one_request e f r (new_handler d db)
       = (if ''GET'' = ''GET'' then do_GET e f h1
          else if ''GET'' = ''HEAD'' then do_HEAD e f h1
          else (send_error e 501 (Some (''Unsupported method ('' @ repr e ''GET'' @ '')''))
                  None h1, None))"
    using request_versioned [OF line ver len hdr, of d db e f] by blast
  have v: "request_version h1 \<noteq> ''HTTP/0.9''"
    using v09 h1(2) by simp
  have sh: "send_head e f h1 =
      (end_headers
         (send_header ''Content-Length'' ''0''
           (send_header ''Location'' (redirect_url e (path h1))
             (send_response e 301 None h1))), Inr None)"
    using dir slash h1(3,5) by (simp add: send_head_def Let_def)
  have hr: "handle_one_request e f r (new_handler d db) = do_GET e f h1"
    using h1(9) by simp
  show ?thesis
    using h1(1-8) v
    by (simp add: reply_to_first hr wfile_do_GET sh wfile_end_headers headers_buffer_send_header
        send_response_default_phrase [of 301 "''Moved Permanently''"
          "''Object moved permanently -- see URI list''"]
        responses_def headers_buffer_send_response)
qed

subsection \<open>Paths lie under the handler's directory\<close>

lemma startswith_append: "startswith d x \<Longrightarrow> startswith d (x @ y)"
  unfolding startswith_def
proof -
  assume a: "take (length d) x = d"
  have "length (take (length d) x) = length d"
    using a by simp
  then have "length d \<le> length x"
    by simp
  then show "take (length d) (x @ y) = d"
    using a by simp
qed

lemma startswith_path_join:
  "\<not> startswith ''/'' w \<Longrightarrow> startswith d acc \<Longrightarrow> startswith d (path_join acc w)"
  by (simp add: path_join_def startswith_append)

lemma split_sep_no_sep: "w \<in> set (split_sep c s) \<Longrightarrow> c \<notin> set w"
proof (induction s arbitrary: w)
  case Nil
  then show ?case by simp
next
  case (Cons x xs)
  then show ?case
    by (cases "split_sep c xs") (auto split: if_splits)
qed

lemma startswith_fold_words:
  assumes "\<forall>w \<in> set ws. CHR ''/'' \<notin> set w" and "startswith d acc"
  shows "startswith d
     (foldl (\<lambda>acc word.
               if dirname word \<noteq> [] \<or> word = ''.'' \<or> word = ''..'' then acc
               else path_join acc word) acc ws)"
  using assms
proof (induction ws arbitrary: acc)
  case Nil
  then show ?case by simp
next
  case (Cons w ws)
  have "\<not> startswith ''/'' w"
    using Cons.prems(1) by (cases w) (auto simp: startswith_def)
  then have "startswith d (path_join acc w)"
    using Cons.prems(2) by (rule startswith_path_join)
  then show ?case
    using Cons.IH [of "path_join acc w"] Cons.IH [of acc] Cons.prems by simp
qed

lemma translate_path_under_directory: "startswith d (translate_path e d t)"
proof -
  let ?p2 = "takeWhile (\<lambda>c. c \<noteq> CHR ''#'') (takeWhile (\<lambda>c. c \<noteq> CHR ''?'') t)"
  let ?ws = "filter (\<lambda>w. w \<noteq> []) (split_sep CHR ''/'' (normpath (unquote e ?p2)))"
  let ?r = "foldl (\<lambda>acc word.
                     if dirname word \<noteq> [] \<or> word = ''.'' \<or> word = ''..'' then acc
                     else path_join acc word) d ?ws"
  have d: "startswith d d"
    by (simp add: startswith_def)
  have "\<forall>w \<in> set ?ws. CHR ''/'' \<notin> set w"
    using split_sep_no_sep [of _ "CHR ''/''"] by auto
  then have r: "startswith d ?r"
    using d by (rule startswith_fold_words)
  have "translate_path e d t = (if endswith_slash (rstrip ?p2) then ?r @ ''/'' else ?r)"
    by (simp add: translate_path_def Let_def)
  then show ?thesis
    using r startswith_append [OF r, of "''/''"] by simp
qed

section \<open>Start, serve and stop\<close>

subsection \<open>What the serving loop does\<close>

lemma serve_forever_connection:
  "serve_forever e f (Connection rs # evs) p =
     (case snd (handle e f rs (new_handler (cwd p) (mime p))) of
        None \<Rightarrow>
          serve_forever e f evs (p\<lparr>replies := replies p @ [reply_to e f (mime p) (cwd p) rs]\<rparr>)
      | Some err \<Rightarrow>
          if err = KeyboardInterrupt
          then Raised KeyboardInterrupt
                 (p\<lparr>replies := replies p @ [reply_to e f (mime p) (cwd p) rs]\<rparr>)
          else serve_forever e f evs
                 (p\<lparr>replies := replies p @ [reply_to e f (mime p) (cwd p) rs],
                    reported := reported p @ [err]\<rparr>))"
proof -
  obtain h x where hx: "handle e f rs (new_handler (cwd p) (mime p)) = (h, x)"
    by (cases "handle e f rs (new_handler (cwd p) (mime p))") auto
  have a: "after_handler h p = p\<lparr>replies := replies p @ [reply_to e f (mime p) (cwd p) rs]\<rparr>"
    using after_handler_handle [of e f rs p] hx by simp
  show ?thesis
    by (simp add: serve_forever.simps(3) hx a split: option.splits pyerror.splits)
qed

lemma serve_forever_keeps:
  "cwd (process_of (serve_forever e f evs p)) = cwd p
   \<and> mime (process_of (serve_forever e f evs p)) = mime p
   \<and> stdout (process_of (serve_forever e f evs p)) = stdout p
   \<and> sock (process_of (serve_forever e f evs p)) = sock p
   \<and> calls (process_of (serve_forever e f evs p)) = calls p"
proof (induction evs arbitrary: p)
  case Nil
  then show ?case by simp
next
  case (Cons ev evs)
  show ?case
  proof (cases ev)
    case (Raise err)
    then show ?thesis by simp
  next
    case (Connection rs)
    let ?a = "p\<lparr>replies := replies p @ [reply_to e f (mime p) (cwd p) rs]\<rparr>"
    show ?thesis
      using Cons [of ?a] Cons [of "?a\<lparr>reported := reported p @ [the (snd (handle e f rs (new_handler (cwd p) (mime p))))]\<rparr>"]
      by (auto simp: Connection serve_forever_connection split: option.splits)
  qed
qed

lemma serve_forever_replies:
  "replies (process_of (serve_forever e f evs p)) =
     replies p @ map (reply_to e f (mime p) (cwd p)) (accepted e f (mime p) (cwd p) evs)"
proof (induction evs arbitrary: p)
  case Nil
  then show ?case by simp
next
  case (Cons ev evs)
  show ?case
  proof (cases ev)
    case (Raise err)
    then show ?thesis by simp
  next
    case (Connection rs)
    let ?a = "p\<lparr>replies := replies p @ [reply_to e f (mime p) (cwd p) rs]\<rparr>"
    show ?thesis
      using Cons [of ?a] Cons [of "?a\<lparr>reported := reported p @ [the (snd (handle e f rs (new_handler (cwd p) (mime p))))]\<rparr>"]
      by (auto simp: Connection serve_forever_connection split: option.splits)
  qed
qed

lemma serve_forever_interrupt:
  "\<exists>q. serve_forever e f (map Connection conns @ Raise KeyboardInterrupt # later) p
        = Raised KeyboardInterrupt q"
proof (induction conns arbitrary: p)
  case Nil
  then show ?case by simp
next
  case (Cons rs conns)
  then show ?case
    by (auto simp: serve_forever_connection split: option.splits)
qed

lemma serve_forever_ignores_later:
  "serve_forever e f (pre @ Raise err # later) p = serve_forever e f (pre @ [Raise err]) p"
proof (induction pre arbitrary: p)
  case Nil
  then show ?case by simp
next
  case (Cons ev pre)
  then show ?case
    by (cases ev) (auto simp: serve_forever_connection split: option.splits)
qed

lemma accepted_length:
  "length (accepted e f db d (map Connection conns @ Raise err # later)) \<le> length conns"
  by (induction conns) auto

subsection \<open>What the startup does\<close>

lemma main_started:
  assumes "startup_interrupt L = None" "bind_error L = None" "dist L \<noteq> NonDirectory"
    "dist L = Directory \<longrightarrow> chdir_error L = None"
  shows "main L =
    (let p1 = (if dist L = Directory
               then (initial_process L)\<lparr>cwd := dist_path L, calls := [Chdir ''dist'']\<rparr>
               else initial_process L);
         p2 = p1\<lparr>sock := Listening, calls := calls p1 @ [SocketCreate, Bind [] PORT, Listen]\<rparr>
     in case serve_forever (environment L) (files L) (events L)
               (print banner2 (print banner1 p2)) of
          Blocked p \<Rightarrow> Serving p
        | Raised err p \<Rightarrow>
            if err = KeyboardInterrupt then Exited ExitOK (BaseServer_exit (print farewell p))
            else Exited (Uncaught err) (BaseServer_exit p))"
  using assms
  by (cases "dist L")
     (auto simp: main_def with_body_def TCPServer_init_def os_chdir_def os_path_exists_def
        initial_process_def Let_def
        split: serve_result.splits pyerror.splits)

lemma main_not_a_directory:
  assumes "dist L = NonDirectory" "startup_interrupt L \<noteq> Some AtDistCheck"
  shows "main L = Exited (Uncaught (OSError ''NotADirectoryError'')) (initial_process L)"
  using assms by (simp add: main_def os_chdir_def os_path_exists_def Let_def)

lemma main_chdir_error:
  assumes "dist L = Directory" "chdir_error L = Some errno"
    "startup_interrupt L \<noteq> Some AtDistCheck"
  shows "main L = Exited (Uncaught (OSError errno)) (initial_process L)"
  using assms by (simp add: main_def os_chdir_def os_path_exists_def Let_def)

lemma main_bind_error:
  assumes "startup_interrupt L = None" "dist L \<noteq> NonDirectory"
    "dist L = Directory \<longrightarrow> chdir_error L = None" "bind_error L = Some errno"
  shows "main L = Exited (Uncaught (OSError errno))
     (let p1 = (if dist L = Directory
                then (initial_process L)\<lparr>cwd := dist_path L, calls := [Chdir ''dist'']\<rparr>
                else initial_process L)
      in p1\<lparr>sock := Closed, calls := calls p1 @ [SocketCreate, Bind [] PORT, SocketClose]\<rparr>)"
  using assms
  by (cases "dist L")
     (auto simp: main_def TCPServer_init_def os_chdir_def os_path_exists_def server_close_def
        initial_process_def Let_def)

lemma main_startup_interrupt:
  assumes "startup_interrupt L = Some ph" "dist L \<noteq> NonDirectory"
    "dist L = Directory \<longrightarrow> chdir_error L = None" "bind_error L = None"
  shows "main L = Exited (Uncaught KeyboardInterrupt)
    (let p1 = (if dist L = Directory
                then (initial_process L)\<lparr>cwd := dist_path L, calls := [Chdir ''dist'']\<rparr>
                else initial_process L)
     in case ph of
          AtDistCheck \<Rightarrow> initial_process L
        | AtBind \<Rightarrow> p1\<lparr>sock := Closed, calls := calls p1 @ [SocketCreate, SocketClose]\<rparr>
        | AtBanner1 \<Rightarrow>
            p1\<lparr>sock := Closed,
               calls := calls p1 @ [SocketCreate, Bind [] PORT, Listen, ContextExit, SocketClose]\<rparr>
        | AtBanner2 \<Rightarrow>
            p1\<lparr>sock := Closed, stdout := [banner1],
               calls := calls p1 @ [SocketCreate, Bind [] PORT, Listen, ContextExit, SocketClose]\<rparr>)"
  using assms
  by (cases "dist L"; cases ph)
     (auto simp: main_def with_body_def TCPServer_init_def os_chdir_def os_path_exists_def
        server_close_def BaseServer_exit_def print_def initial_process_def Let_def)

lemma exit_ok_only_by_interrupt:
  assumes "outcome_exit (main L) = Some ExitOK"
  shows "startup_interrupt L = None
    \<and> (\<exists>q. raised_by (serve_forever (environment L) (files L) (events L) q)
             = Some KeyboardInterrupt)"
proof -
  have "startup_interrupt L = None"
  proof (cases "startup_interrupt L")
    case None
    then show ?thesis by simp
  next
    case (Some ph)
    with assms show ?thesis
      by (cases ph)
         (auto simp: main_def with_body_def TCPServer_init_def os_chdir_def Let_def
            split: if_splits sum.splits option.splits entry.splits prod.splits)
  qed
  moreover have "\<exists>q. raised_by (serve_forever (environment L) (files L) (events L) q)
             = Some KeyboardInterrupt"
    using assms
    by (auto simp: main_def with_body_def Let_def
        split: if_splits sum.splits option.splits prod.splits
               serve_result.splits pyerror.splits)
       (metis raised_by.simps(2))+
  ultimately show ?thesis by simp
qed

lemma farewell_not_banner [simp]: "farewell \<noteq> banner1" "farewell \<noteq> banner2"
  by (simp_all add: farewell_def banner1_def banner2_def)

section \<open>Facts about the example installation\<close>

lemma error_page_nonempty [simp]: "error_page_ascii c m x \<noteq> []"
  by (simp add: error_page_ascii_def)

lemma example_env_fields [simp]:
  "repr example_env s = [CHR 0x27] @ s @ [CHR 0x27]"
  "error_page example_env = error_page_ascii"
  "unquote example_env s = s"
  "version_string example_env = ''SimpleHTTP/0.6 Python/3.11.10''"
  "date_time_string example_env = ''Wed, 04 Nov 2026 12:00:00 GMT''"
  "format_timestamp example_env 1793707200 = ''Tue, 03 Nov 2026 12:00:00 GMT''"
  "filesystem_encoding example_env = ''utf-8''"
  "redirect_url example_env s = s @ ''/''"
  by (simp_all add: example_env_def)

lemma example_reply_eq:
  "example_reply rs =
     reply_to example_env example_fs (module_init example_system_db) ''/srv/dist'' rs"
  by (simp add: example_reply_def reply_to_def)

lemma ex_translate:
  "translate_path example_env ''/srv/dist'' (single_leading_slash ''/model.dds'') = ''/srv/dist/model.dds''"
  "translate_path example_env ''/srv/dist'' (single_leading_slash ''/missing.dds'') = ''/srv/dist/missing.dds''"
  "translate_path example_env ''/srv/dist'' (single_leading_slash ''/textures'') = ''/srv/dist/textures''"
  by (simp_all add: translate_path_def single_leading_slash_def startswith_def Let_def
      rstrip_def is_space_def endswith_slash_def example_env_def normpath_def normpath_step_def
      dirname_def rfind_def path_join_def)

lemma ex_lines:
  "split_ws (rstrip_crlf (raw_requestline (one_request ''GET /model.dds HTTP/1.1'' hs)))
     = [''GET'', ''/model.dds'', ''HTTP/1.1'']"
  "split_ws (rstrip_crlf (raw_requestline (one_request ''GET /missing.dds HTTP/1.1'' hs)))
     = [''GET'', ''/missing.dds'', ''HTTP/1.1'']"
  "split_ws (rstrip_crlf (raw_requestline (one_request ''GET /textures HTTP/1.1'' hs)))
     = [''GET'', ''/textures'', ''HTTP/1.1'']"
  "split_ws (rstrip_crlf (raw_requestline (one_request ''GET /model.dds'' hs)))
     = [''GET'', ''/model.dds'']"
  "split_ws (rstrip_crlf (raw_requestline (one_request ''GET /missing.dds'' hs)))
     = [''GET'', ''/missing.dds'']"
  "split_ws (rstrip_crlf (raw_requestline (one_request ''GET'' hs))) = [''GET'']"
  by (simp_all add: one_request_def CRLF_def rstrip_crlf_def is_space_def)

lemma ex_version: "parse_version ''HTTP/1.1'' = Some (1, 1)" "(1::nat) < 2"
  "''HTTP/1.1'' \<noteq> ''HTTP/0.9''"
  by (simp_all add: parse_version_def startswith_def Let_def is_digit_def int_of_digits_def)

lemma ex_len: "length (raw_requestline (one_request ''GET /model.dds HTTP/1.1'' hs)) \<le> 65536"
  "length (raw_requestline (one_request ''GET /missing.dds HTTP/1.1'' hs)) \<le> 65536"
  "length (raw_requestline (one_request ''GET /textures HTTP/1.1'' hs)) \<le> 65536"
  "length (raw_requestline (one_request ''GET /model.dds'' hs)) \<le> 65536"
  "length (raw_requestline (one_request ''GET /missing.dds'' hs)) \<le> 65536"
  "length (raw_requestline (one_request ''GET'' hs)) \<le> 65536"
  by (simp_all add: one_request_def CRLF_def)

lemma ex_hdr: "header_lines (one_request line hs) = ParsedHeaders hs"
  by (simp add: one_request_def)

lemma ex_splitext: "snd (splitext ''/srv/dist/model.dds'') = ''.dds''"
  by (simp add: splitext_def rfind_def Let_def)

lemma ex_fs:
  "\<not> isdir example_fs ''/srv/dist/model.dds''"
  "\<not> isdir example_fs ''/srv/dist/missing.dds''"
  "isdir example_fs ''/srv/dist/textures''"
  "open_rb example_fs ''/srv/dist/model.dds'' = Inr (''DDS |'', 1793707200)"
  "open_rb example_fs ''/srv/dist/missing.dds'' = Inl (OSError ''FileNotFoundError'')"
  "\<not> endswith_slash ''/srv/dist/model.dds''"
  "\<not> endswith_slash ''/srv/dist/missing.dds''"
  by (simp_all add: example_fs_def endswith_slash_def)

lemma ex_not_modified:
  "\<not> not_modified example_env [] 1793707200"
  "not_modified example_env [(''If-Modified-Since'', ''Wed, 04 Nov 2026 12:00:00 GMT'')] 1793707200"
  by (simp_all add: not_modified_def headers_get_def example_env_def lower_def lower_char_def)

lemma ex_content_length [simp]: "str_nat (Suc (Suc (Suc (Suc (Suc 0))))) = ''5''"
proof -
  have "str_nat 5 = ''5''"
    by (simp add: str_nat.simps digit_char_def)
  then show ?thesis
    by (simp add: eval_nat_numeral)
qed

lemma ex_model_served:
  "reply_to example_env example_fs (module_init example_system_db) ''/srv/dist''
     (one_request ''GET /model.dds HTTP/1.1'' [] # rs) =
     [HeaderBlock
        [''HTTP/1.0 200 OK'' @ CRLF,
         ''Server: SimpleHTTP/0.6 Python/3.11.10'' @ CRLF,
         ''Date: Wed, 04 Nov 2026 12:00:00 GMT'' @ CRLF,
         ''Content-type: application/octet-stream'' @ CRLF,
         ''Content-Length: 5'' @ CRLF,
         ''Last-Modified: Tue, 03 Nov 2026 12:00:00 GMT'' @ CRLF,
         COEP_line, COOP_line, CRLF],
      BodyBytes ''DDS |'']"
  using reply_served [OF ex_lines(1) ex_version ex_len(1) ex_hdr _
      ex_translate(1) [symmetric] ex_fs(1,6,4) ex_not_modified(1),
      where db = "module_init example_system_db"]
    guess_type_dds [OF ex_splitext, where ?db0.0 = example_system_db]
  by simp

lemma ex_missing:
  "snd (handle example_env example_fs (one_request ''GET /missing.dds HTTP/1.1'' [] # rs)
          (new_handler ''/srv/dist'' (module_init example_system_db))) = None"
  "reply_to example_env example_fs (module_init example_system_db) ''/srv/dist''
     (one_request ''GET /missing.dds HTTP/1.1'' [] # rs) =
     [HeaderBlock
        [''HTTP/1.0 404 File not found'' @ CRLF,
         ''Server: SimpleHTTP/0.6 Python/3.11.10'' @ CRLF,
         ''Date: Wed, 04 Nov 2026 12:00:00 GMT'' @ CRLF,
         ''Connection: close'' @ CRLF,
         ''Content-Type: text/html;charset=utf-8'' @ CRLF,
         ''Content-Length: ''
           @ str_nat (length (error_page_ascii 404 ''File not found''
                                ''Nothing matches the given URI''))
           @ CRLF,
         COEP_line, COOP_line, CRLF],
      BodyBytes (error_page_ascii 404 ''File not found'' ''Nothing matches the given URI'')]"
proof -
  have a: "endswith_slash ''/srv/dist/missing.dds''
      \<or> (\<exists>x. open_rb example_fs ''/srv/dist/missing.dds'' = Inl (OSError x))"
    using ex_fs(5) by simp
  note m = reply_missing [OF ex_lines(2) ex_version ex_len(2) ex_hdr _
      ex_translate(2) [symmetric] ex_fs(2) a,
      where db = "module_init example_system_db" and rs = rs]
  show "snd (handle example_env example_fs (one_request ''GET /missing.dds HTTP/1.1'' [] # rs)
          (new_handler ''/srv/dist'' (module_init example_system_db))) = None"
    using m(1) by simp
  show "reply_to example_env example_fs (module_init example_system_db) ''/srv/dist''
     (one_request ''GET /missing.dds HTTP/1.1'' [] # rs) =
     [HeaderBlock
        [''HTTP/1.0 404 File not found'' @ CRLF,
         ''Server: SimpleHTTP/0.6 Python/3.11.10'' @ CRLF,
         ''Date: Wed, 04 Nov 2026 12:00:00 GMT'' @ CRLF,
         ''Connection: close'' @ CRLF,
         ''Content-Type: text/html;charset=utf-8'' @ CRLF,
         ''Content-Length: ''
           @ str_nat (length (error_page_ascii 404 ''File not found''
                                ''Nothing matches the given URI''))
           @ CRLF,
         COEP_line, COOP_line, CRLF],
      BodyBytes (error_page_ascii 404 ''File not found'' ''Nothing matches the given URI'')]"
    using m(2) by simp
qed

lemma ex_nul:
  "split_ws (rstrip_crlf (raw_requestline
      (one_request (''GET /bad'' @ [CHR 0x00] @ '' HTTP/1.1'') hs)))
     = [''GET'', ''/bad'' @ [CHR 0x00], ''HTTP/1.1'']"
  "length (raw_requestline (one_request (''GET /bad'' @ [CHR 0x00] @ '' HTTP/1.1'') hs))
     \<le> 65536"
  "translate_path example_env ''/srv/dist'' (single_leading_slash (''/bad'' @ [CHR 0x00]))
     = ''/srv/dist/bad'' @ [CHR 0x00]"
  "\<not> isdir example_fs (''/srv/dist/bad'' @ [CHR 0x00])"
  "\<not> endswith_slash (''/srv/dist/bad'' @ [CHR 0x00])"
  "open_rb example_fs (''/srv/dist/bad'' @ [CHR 0x00]) = Inl ValueError"
  by (simp_all add: one_request_def CRLF_def rstrip_crlf_def is_space_def
      translate_path_def single_leading_slash_def startswith_def Let_def
      rstrip_def endswith_slash_def example_env_def normpath_def normpath_step_def
      dirname_def rfind_def path_join_def example_fs_def)

section \<open>The claims\<close>

subsection \<open>The isolation headers\<close>

text \<open>
  C1, as it holds on the code. Whatever is sent on a connection, every header block in
  it ends with \<^verbatim>\<open>Cross-Origin-Embedder-Policy: require-corp\<close>,
  \<^verbatim>\<open>Cross-Origin-Opener-Policy: same-origin\<close> and the blank line, in this order: the
  two headers are appended last, before the block is finished, for success and error
  replies alike. And a header block is there exactly when the handler answers with
  \<^verbatim>\<open>request_version\<close> other than \<^verbatim>\<open>'HTTP/0.9'\<close>. That is the case when the request
  line is longer than 65536 bytes, or has at least three words of which the last is a
  version \<^verbatim>\<open>HTTP/x.y\<close> with \<open>x < 2\<close>, other than \<^verbatim>\<open>HTTP/0.9\<close> itself: then either
  the handler raises before it has written anything, and nothing is sent, or the reply
  contains a header block with both headers. For every other request the reply
  contains no header block with them.
\<close>

theorem C1_header_blocks_end_with_cors:
  "list_all cors_ok (reply_to e f db d rs)
   \<and> (65536 < length (raw_requestline r)
        \<or> (3 \<le> length (split_ws (rstrip_crlf (raw_requestline r)))
            \<and> last (split_ws (rstrip_crlf (raw_requestline r))) \<noteq> ''HTTP/0.9''
            \<and> (\<exists>major minor.
                  parse_version (last (split_ws (rstrip_crlf (raw_requestline r))))
                    = Some (major, minor) \<and> major < 2))
       \<longrightarrow> (snd (handle e f (r # rs) (new_handler d db)) = None
              \<and> carries_cors (reply_to e f db d (r # rs)))
           \<or> (snd (handle e f (r # rs) (new_handler d db)) \<noteq> None
              \<and> reply_to e f db d (r # rs) = []))
   \<and> (\<not> (65536 < length (raw_requestline r)
           \<or> (3 \<le> length (split_ws (rstrip_crlf (raw_requestline r)))
               \<and> last (split_ws (rstrip_crlf (raw_requestline r))) \<noteq> ''HTTP/0.9''
               \<and> (\<exists>major minor.
                     parse_version (last (split_ws (rstrip_crlf (raw_requestline r))))
                       = Some (major, minor) \<and> major < 2)))
       \<longrightarrow> \<not> carries_cors (reply_to e f db d (r # rs)))"
proof (intro conjI impI)
  show "list_all cors_ok (reply_to e f db d rs)"
    by (rule cors_reply_to)
next
  let ?ws = "split_ws (rstrip_crlf (raw_requestline r))"
  assume a: "65536 < length (raw_requestline r)
        \<or> (3 \<le> length ?ws \<and> last ?ws \<noteq> ''HTTP/0.9''
            \<and> (\<exists>major minor. parse_version (last ?ws) = Some (major, minor) \<and> major < 2))"
  show "(snd (handle e f (r # rs) (new_handler d db)) = None
              \<and> carries_cors (reply_to e f db d (r # rs)))
           \<or> (snd (handle e f (r # rs) (new_handler d db)) \<noteq> None
              \<and> reply_to e f db d (r # rs) = [])"
  proof (cases "65536 < length (raw_requestline r)")
    case True
    then show ?thesis
      using carries_too_long [OF True, of e f "new_handler d db"]
      by (simp add: handle_first_only reply_to_first)
  next
    case False
    then obtain major minor where v: "3 \<le> length ?ws" "last ?ws \<noteq> ''HTTP/0.9''"
      "parse_version (last ?ws) = Some (major, minor)" "major < 2"
      using a by auto
    have len: "length (raw_requestline r) \<le> 65536"
      using False by simp
    have w0: "wfile (new_handler d db) = []"
      by (simp add: new_handler_def)
    show ?thesis
      using carries_versioned [OF refl v(1,3,4,2) len w0, of e f]
      by (simp add: handle_first_only reply_to_first)
  qed
next
  let ?ws = "split_ws (rstrip_crlf (raw_requestline r))"
  assume a: "\<not> (65536 < length (raw_requestline r)
        \<or> (3 \<le> length ?ws \<and> last ?ws \<noteq> ''HTTP/0.9''
            \<and> (\<exists>major minor. parse_version (last ?ws) = Some (major, minor) \<and> major < 2)))"
  then have len: "length (raw_requestline r) \<le> 65536"
    and nv: "\<not> (3 \<le> length ?ws \<and> last ?ws \<noteq> ''HTTP/0.9''
            \<and> (\<exists>major minor. parse_version (last ?ws) = Some (major, minor) \<and> major < 2))"
    by auto
  show "\<not> carries_cors (reply_to e f db d (r # rs))"
    using quiet_handle_one_request [OF len nv, of e f "new_handler d db"]
    by (simp add: reply_to_first new_handler_def carries_cors_def)
qed

text \<open>
  C1 at the example installation: the request for a file that does not exist has a
  version, and its error reply carries both headers; the request line \<^verbatim>\<open>GET\<close> has
  none, and its reply carries neither.
\<close>

theorem C1_witness:
  "3 \<le> length (split_ws (rstrip_crlf
            (raw_requestline (one_request ''GET /missing.dds HTTP/1.1'' []))))
   \<and> last (split_ws (rstrip_crlf
            (raw_requestline (one_request ''GET /missing.dds HTTP/1.1'' [])))) = ''HTTP/1.1''
   \<and> parse_version ''HTTP/1.1'' = Some (1, 1)
   \<and> list_all cors_ok (example_reply [one_request ''GET /missing.dds HTTP/1.1'' []])
   \<and> carries_cors (example_reply [one_request ''GET /missing.dds HTTP/1.1'' []])
   \<and> length (raw_requestline (one_request ''GET'' [])) \<le> 65536
   \<and> length (split_ws (rstrip_crlf (raw_requestline (one_request ''GET'' [])))) = 1
   \<and> \<not> carries_cors (example_reply [one_request ''GET'' []])"
  using C1_header_blocks_end_with_cors
      [of example_env example_fs "module_init example_system_db" "''/srv/dist''"
          "[one_request ''GET /missing.dds HTTP/1.1'' []]"
          "one_request ''GET /missing.dds HTTP/1.1'' []"]
    C1_header_blocks_end_with_cors
      [of example_env example_fs "module_init example_system_db" "''/srv/dist''" "[]"
          "one_request ''GET /missing.dds HTTP/1.1'' []"]
    C1_header_blocks_end_with_cors
      [of example_env example_fs "module_init example_system_db" "''/srv/dist''" "[]"
          "one_request ''GET'' []"]
    ex_missing(1) [of "[]"] ex_lines(2,6) [of "[]"] ex_version ex_len(6) [of "[]"]
  by (simp add: example_reply_eq)

text \<open>
  C1, as the claim states it, fails: the request line \<^verbatim>\<open>GET\<close> alone is answered with
  the error page for status 400 and nothing else. While the line is parsed
  \<^verbatim>\<open>request_version\<close> is \<^verbatim>\<open>'HTTP/0.9'\<close>, for which \<^verbatim>\<open>send_response_only\<close>,
  \<^verbatim>\<open>send_header\<close> and \<^verbatim>\<open>end_headers\<close> write nothing, so this error reply carries
  neither header.
\<close>

theorem C1_counterexample:
  "example_reply [one_request ''GET'' []] =
     [BodyBytes (error_page_ascii 400
        (''Bad request syntax ('' @ [CHR 0x27] @ ''GET'' @ [CHR 0x27] @ '')'')
        ''Bad request syntax or unsupported method'')]
   \<and> \<not> carries_cors (example_reply [one_request ''GET'' []])"
proof -
  have s: "rstrip_crlf (raw_requestline (one_request ''GET'' [])) = ''GET''"
    by (simp add: one_request_def CRLF_def rstrip_crlf_def)
  have ne: "raw_requestline (one_request ''GET'' []) \<noteq> []"
    by (simp add: one_request_def)
  have "handle_one_request example_env example_fs (one_request ''GET'' [])
          (new_handler ''/srv/dist'' (module_init example_system_db)) =
     (send_error example_env 400
        (Some (''Bad request syntax ('' @ repr example_env ''GET'' @ '')'')) None
        ((new_handler ''/srv/dist'' (module_init example_system_db))
           \<lparr>command := None, request_version := ''HTTP/0.9'', close_connection := True\<rparr>),
      None)"
    using ex_len(6) [of "[]"] ne
    by (simp add: handle_one_request_def parse_request_def
        parse_request_line_one_word [OF ex_lines(6)] s)
  then have "example_reply [one_request ''GET'' []] =
     [BodyBytes (error_page_ascii 400
        (''Bad request syntax ('' @ [CHR 0x27] @ ''GET'' @ [CHR 0x27] @ '')'')
        ''Bad request syntax or unsupported method'')]"
    by (simp add: example_reply_eq reply_to_first wfile_send_error_http09 new_handler_def
        responses_def)
  then show ?thesis
    by (simp add: carries_cors_def)
qed

subsection \<open>The type of a \<^verbatim>\<open>.dds\<close> file\<close>

text \<open>
  C2, as it holds on the code. When a \<^verbatim>\<open>GET\<close> or \<^verbatim>\<open>HEAD\<close> request with an HTTP/1.x
  request line resolves to an existing readable file whose name ends in \<^verbatim>\<open>.dds\<close>, and
  the file is served, the reply's \<^verbatim>\<open>Content-type\<close> header is
  \<^verbatim>\<open>application/octet-stream\<close>, whatever the MIME registry held for that extension before
  the script registered its own entry.
\<close>

theorem C2_dds_content_type:
  assumes "split_ws (rstrip_crlf (raw_requestline r)) = [cmd, target, version]"
    and "cmd = ''GET'' \<or> cmd = ''HEAD''"
    and "parse_version version = Some (1, minor)"
    and "length (raw_requestline r) \<le> 65536"
    and "header_lines r = ParsedHeaders hs"
    and "p = translate_path e d (single_leading_slash target)"
    and "snd (splitext p) = ''.dds''"
    and "\<not> isdir f p" and "\<not> endswith_slash p"
    and "open_rb f p = Inr (content, mtime)"
    and "\<not> not_modified e hs mtime"
  shows "reply_to e f (module_init db0) d [r] =
     [HeaderBlock
        [''HTTP/1.0 200 OK'' @ CRLF,
         ''Server: '' @ version_string e @ CRLF,
         ''Date: '' @ date_time_string e @ CRLF,
         ''Content-type: application/octet-stream'' @ CRLF,
         ''Content-Length: '' @ str_nat (length content) @ CRLF,
         ''Last-Modified: '' @ format_timestamp e mtime @ CRLF,
         COEP_line, COOP_line, CRLF]]
     @ (if cmd = ''GET'' then [BodyBytes content] else [])"
proof -
  have lt: "(1::nat) < 2"
    by simp
  note served = reply_served [OF assms(1,3) lt parse_version_not_09 [OF assms(3)]
      assms(4,5,2,6,8,9,10,11), where db = "module_init db0" and rs = "[]"]
  show ?thesis
    using served guess_type_dds [OF assms(7), of db0] by simp
qed

text \<open>
  C2 at the example installation, whose system registry maps \<^verbatim>\<open>.dds\<close> to
  \<^verbatim>\<open>image/vnd-ms.dds\<close>.
\<close>

theorem C2_witness:
  "split_ws (rstrip_crlf (raw_requestline (one_request ''GET /model.dds HTTP/1.1'' [])))
     = [''GET'', ''/model.dds'', ''HTTP/1.1'']
   \<and> parse_version ''HTTP/1.1'' = Some (1, 1)
   \<and> snd (splitext ''/srv/dist/model.dds'') = ''.dds''
   \<and> types_map example_system_db ''.dds'' = Some ''image/vnd-ms.dds''
   \<and> open_rb example_fs ''/srv/dist/model.dds'' = Inr (''DDS |'', 1793707200)
   \<and> example_reply [one_request ''GET /model.dds HTTP/1.1'' []] =
      [HeaderBlock
         [''HTTP/1.0 200 OK'' @ CRLF,
          ''Server: SimpleHTTP/0.6 Python/3.11.10'' @ CRLF,
          ''Date: Wed, 04 Nov 2026 12:00:00 GMT'' @ CRLF,
          ''Content-type: application/octet-stream'' @ CRLF,
          ''Content-Length: 5'' @ CRLF,
          ''Last-Modified: Tue, 03 Nov 2026 12:00:00 GMT'' @ CRLF,
          COEP_line, COOP_line, CRLF],
       BodyBytes ''DDS |'']"
  using C2_dds_content_type [OF ex_lines(1) [of "[]"] _ ex_version(1) ex_len(1) ex_hdr
      ex_translate(1) [symmetric] ex_splitext ex_fs(1,6,4) ex_not_modified(1),
      where ?db0.0 = example_system_db]
    ex_lines(1) [of "[]"] ex_version(1) ex_splitext ex_fs(4)
  by (simp add: example_reply_eq example_system_db_def)

text \<open>
  C2, as the claim states it, fails for a path that ends in \<^verbatim>\<open>.dds\<close> and names no
  file: the reply is the error page, with \<^verbatim>\<open>Content-Type: text/html;charset=utf-8\<close>.
  It also fails for a request line without a version, whose reply has no headers at all.
\<close>

theorem C2_counterexample:
  "example_reply [one_request ''GET /missing.dds HTTP/1.1'' []] =
     [HeaderBlock
        [''HTTP/1.0 404 File not found'' @ CRLF,
         ''Server: SimpleHTTP/0.6 Python/3.11.10'' @ CRLF,
         ''Date: Wed, 04 Nov 2026 12:00:00 GMT'' @ CRLF,
         ''Connection: close'' @ CRLF,
         ''Content-Type: text/html;charset=utf-8'' @ CRLF,
         ''Content-Length: ''
           @ str_nat (length (error_page_ascii 404 ''File not found''
                                ''Nothing matches the given URI''))
           @ CRLF,
         COEP_line, COOP_line, CRLF],
      BodyBytes (error_page_ascii 404 ''File not found'' ''Nothing matches the given URI'')]
   \<and> example_reply [one_request ''GET /model.dds'' []] = [BodyBytes ''DDS |'']"
  using ex_missing(2) [of "[]"]
    reply_simple_request(1) [OF ex_lines(4) [of "[]"] ex_len(4) ex_hdr ex_translate(1) [symmetric]
      ex_fs(1,6,4), where db = "module_init example_system_db" and rs = "[]"]
    ex_not_modified(1)
  by (simp add: example_reply_eq)

subsection \<open>The working directory\<close>

text \<open>
  C3, as it holds on the code. When no interrupt arrives during startup: the script
  changes directory exactly once, to \<^verbatim>\<open>dist\<close>, when \<^verbatim>\<open>dist\<close> is a directory that
  \<^verbatim>\<open>os.chdir\<close> can enter, and never otherwise; a missing \<^verbatim>\<open>dist\<close> raises nothing and
  the socket is brought to listen; a directory \<^verbatim>\<open>dist\<close> that cannot be entered ends
  the process with the uncaught \<^verbatim>\<open>OSError\<close> of \<^verbatim>\<open>os.chdir\<close>, in the launch directory.
  After a startup that succeeded, every accepted connection is answered by a handler
  created in the resulting working directory; such a handler resolves the path of a
  request to a path that begins with that directory, and a \<^verbatim>\<open>GET\<close> for a file there is
  answered with the bytes \<^verbatim>\<open>open\<close> returns for that very path.
\<close>

theorem C3_working_directory:
  assumes "startup_interrupt L = None"
  shows "cwd (outcome_process (main L))
           = (if dist L = Directory \<and> chdir_error L = None then dist_path L else launch_dir L)
    \<and> filter is_chdir (calls (outcome_process (main L)))
           = (if dist L = Directory \<and> chdir_error L = None then [Chdir ''dist''] else [])
    \<and> (dist L = Absent \<and> bind_error L = None
          \<longrightarrow> Listen \<in> set (calls (outcome_process (main L))))
    \<and> (\<forall>errno. dist L = Directory \<and> chdir_error L = Some errno
          \<longrightarrow> main L = Exited (Uncaught (OSError errno)) (initial_process L))
    \<and> (dist L \<noteq> NonDirectory \<and> chdir_error L = None \<and> bind_error L = None
          \<longrightarrow> replies (outcome_process (main L))
                = map (reply_to (environment L) (files L) (module_init (system_db L))
                         (cwd (outcome_process (main L))))
                    (accepted (environment L) (files L) (module_init (system_db L))
                       (cwd (outcome_process (main L))) (events L)))
    \<and> (\<forall>r rs target version major minor hs content mtime.
          split_ws (rstrip_crlf (raw_requestline r)) = [''GET'', target, version]
          \<and> parse_version version = Some (major, minor) \<and> major < 2
          \<and> version \<noteq> ''HTTP/0.9''
          \<and> length (raw_requestline r) \<le> 65536
          \<and> header_lines r = ParsedHeaders hs
          \<and> \<not> isdir (files L)
                (translate_path (environment L) (cwd (outcome_process (main L)))
                   (single_leading_slash target))
          \<and> \<not> endswith_slash
                (translate_path (environment L) (cwd (outcome_process (main L)))
                   (single_leading_slash target))
          \<and> open_rb (files L)
                (translate_path (environment L) (cwd (outcome_process (main L)))
                   (single_leading_slash target)) = Inr (content, mtime)
          \<and> \<not> not_modified (environment L) hs mtime
          \<longrightarrow> startswith (cwd (outcome_process (main L)))
                 (translate_path (environment L) (cwd (outcome_process (main L)))
                    (single_leading_slash target))
              \<and> reply_to (environment L) (files L) (module_init (system_db L))
                  (cwd (outcome_process (main L))) (r # rs) =
                  [HeaderBlock
                     [''HTTP/1.0 200 OK'' @ CRLF,
                      ''Server: '' @ version_string (environment L) @ CRLF,
                      ''Date: '' @ date_time_string (environment L) @ CRLF,
                      ''Content-type: ''
                        @ guess_type (module_init (system_db L))
                            (translate_path (environment L) (cwd (outcome_process (main L)))
                               (single_leading_slash target))
                        @ CRLF,
                      ''Content-Length: '' @ str_nat (length content) @ CRLF,
                      ''Last-Modified: '' @ format_timestamp (environment L) mtime @ CRLF,
                      COEP_line, COOP_line, CRLF],
                   BodyBytes content])"
proof -
  let ?d = "cwd (outcome_process (main L))"
  have served: "\<forall>r rs target version major minor hs content mtime.
          split_ws (rstrip_crlf (raw_requestline r)) = [''GET'', target, version]
          \<and> parse_version version = Some (major, minor) \<and> major < 2
          \<and> version \<noteq> ''HTTP/0.9''
          \<and> length (raw_requestline r) \<le> 65536
          \<and> header_lines r = ParsedHeaders hs
          \<and> \<not> isdir (files L) (translate_path (environment L) ?d (single_leading_slash target))
          \<and> \<not> endswith_slash (translate_path (environment L) ?d (single_leading_slash target))
          \<and> open_rb (files L) (translate_path (environment L) ?d (single_leading_slash target))
               = Inr (content, mtime)
          \<and> \<not> not_modified (environment L) hs mtime
          \<longrightarrow> startswith ?d (translate_path (environment L) ?d (single_leading_slash target))
              \<and> reply_to (environment L) (files L) (module_init (system_db L)) ?d (r # rs) =
                  [HeaderBlock
                     [''HTTP/1.0 200 OK'' @ CRLF,
                      ''Server: '' @ version_string (environment L) @ CRLF,
                      ''Date: '' @ date_time_string (environment L) @ CRLF,
                      ''Content-type: ''
                        @ guess_type (module_init (system_db L))
                            (translate_path (environment L) ?d (single_leading_slash target))
                        @ CRLF,
                      ''Content-Length: '' @ str_nat (length content) @ CRLF,
                      ''Last-Modified: '' @ format_timestamp (environment L) mtime @ CRLF,
                      COEP_line, COOP_line, CRLF],
                   BodyBytes content]"
  proof (intro allI impI, elim conjE)
    fix r :: request and rs :: "request list"
      and target version major minor hs content mtime
    let ?p = "translate_path (environment L) ?d (single_leading_slash target)"
    assume a: "split_ws (rstrip_crlf (raw_requestline r)) = [''GET'', target, version]"
      "parse_version version = Some (major, minor)" "major < 2" "version \<noteq> ''HTTP/0.9''"
      "length (raw_requestline r) \<le> 65536" "header_lines r = ParsedHeaders hs"
      "\<not> isdir (files L) ?p" "\<not> endswith_slash ?p"
      "open_rb (files L) ?p = Inr (content, mtime)" "\<not> not_modified (environment L) hs mtime"
    have g: "''GET'' = ''GET'' \<or> ''GET'' = ''HEAD''"
      by simp
    show "startswith ?d ?p
       \<and> reply_to (environment L) (files L) (module_init (system_db L)) ?d (r # rs) =
                  [HeaderBlock
                     [''HTTP/1.0 200 OK'' @ CRLF,
                      ''Server: '' @ version_string (environment L) @ CRLF,
                      ''Date: '' @ date_time_string (environment L) @ CRLF,
                      ''Content-type: '' @ guess_type (module_init (system_db L)) ?p @ CRLF,
                      ''Content-Length: '' @ str_nat (length content) @ CRLF,
                      ''Last-Modified: '' @ format_timestamp (environment L) mtime @ CRLF,
                      COEP_line, COOP_line, CRLF],
                   BodyBytes content]"
      using translate_path_under_directory [of ?d "environment L" "single_leading_slash target"]
        reply_served [OF a(1,2,3,4,5,6) g refl a(7,8,9,10),
          where db = "module_init (system_db L)" and rs = rs]
      by simp
  qed
  have rest: "cwd (outcome_process (main L))
           = (if dist L = Directory \<and> chdir_error L = None then dist_path L else launch_dir L)
    \<and> filter is_chdir (calls (outcome_process (main L)))
           = (if dist L = Directory \<and> chdir_error L = None then [Chdir ''dist''] else [])
    \<and> (dist L = Absent \<and> bind_error L = None
          \<longrightarrow> Listen \<in> set (calls (outcome_process (main L))))
    \<and> (\<forall>errno. dist L = Directory \<and> chdir_error L = Some errno
          \<longrightarrow> main L = Exited (Uncaught (OSError errno)) (initial_process L))
    \<and> (dist L \<noteq> NonDirectory \<and> chdir_error L = None \<and> bind_error L = None
          \<longrightarrow> replies (outcome_process (main L))
                = map (reply_to (environment L) (files L) (module_init (system_db L)) ?d)
                    (accepted (environment L) (files L) (module_init (system_db L)) ?d
                       (events L)))"
  proof (cases "dist L = NonDirectory")
    case True
    then show ?thesis
      using assms by (simp add: main_not_a_directory initial_process_def)
  next
    case nd: False
    show ?thesis
    proof (cases "dist L = Directory \<and> chdir_error L \<noteq> None")
      case True
      then obtain errno where "chdir_error L = Some errno"
        by auto
      then show ?thesis
        using assms True by (simp add: main_chdir_error initial_process_def)
    next
      case False
      then have ce: "dist L = Directory \<longrightarrow> chdir_error L = None"
        by simp
      show ?thesis
      proof (cases "bind_error L")
        case (Some errno)
        then show ?thesis
          using assms nd ce
          by (cases "dist L") (simp_all add: main_bind_error initial_process_def Let_def)
      next
        case None
        let ?p1 = "if dist L = Directory
                   then (initial_process L)\<lparr>cwd := dist_path L, calls := [Chdir ''dist'']\<rparr>
                   else initial_process L"
        let ?q = "print banner2 (print banner1
                    (?p1\<lparr>sock := Listening, calls := calls ?p1 @ [SocketCreate, Bind [] PORT, Listen]\<rparr>))"
        let ?r = "serve_forever (environment L) (files L) (events L) ?q"
        have op: "outcome_process (main L) =
            (case ?r of Blocked p \<Rightarrow> p
             | Raised err p \<Rightarrow> if err = KeyboardInterrupt then BaseServer_exit (print farewell p)
                                else BaseServer_exit p)"
          using main_started [OF assms None nd ce]
          by (simp add: Let_def split: serve_result.splits)
        have k: "cwd (process_of ?r) = cwd ?q" "calls (process_of ?r) = calls ?q"
             "replies (process_of ?r) =
                replies ?q @ map (reply_to (environment L) (files L) (mime ?q) (cwd ?q))
                   (accepted (environment L) (files L) (mime ?q) (cwd ?q) (events L))"
          using serve_forever_keeps [of "environment L" "files L" "events L" ?q]
            serve_forever_replies [of "environment L" "files L" "events L" ?q]
          by simp_all
        show ?thesis
          using k nd None ce unfolding op
          by (cases ?r; cases "dist L")
             (auto simp: print_def BaseServer_exit_def server_close_def initial_process_def)
      qed
    qed
  qed
  show ?thesis
    using rest served by blast
qed

text \<open>
  C3 at the example launch, where \<^verbatim>\<open>/srv/dist\<close> exists and holds \<^verbatim>\<open>model.dds\<close>: the
  one connection is sent the bytes of \<^verbatim>\<open>/srv/dist/model.dds\<close>.
\<close>

theorem C3_witness:
  "startup_interrupt example_launch = None
   \<and> dist example_launch = Directory \<and> chdir_error example_launch = None
   \<and> bind_error example_launch = None
   \<and> cwd (outcome_process (main example_launch)) = ''/srv/dist''
   \<and> filter is_chdir (calls (outcome_process (main example_launch))) = [Chdir ''dist'']
   \<and> startswith ''/srv/dist''
        (translate_path example_env ''/srv/dist'' (single_leading_slash ''/model.dds''))
   \<and> open_rb example_fs
        (translate_path example_env ''/srv/dist'' (single_leading_slash ''/model.dds''))
        = Inr (''DDS |'', 1793707200)
   \<and> replies (outcome_process (main example_launch)) =
       [[HeaderBlock
           [''HTTP/1.0 200 OK'' @ CRLF,
            ''Server: SimpleHTTP/0.6 Python/3.11.10'' @ CRLF,
            ''Date: Wed, 04 Nov 2026 12:00:00 GMT'' @ CRLF,
            ''Content-type: application/octet-stream'' @ CRLF,
            ''Content-Length: 5'' @ CRLF,
            ''Last-Modified: Tue, 03 Nov 2026 12:00:00 GMT'' @ CRLF,
            COEP_line, COOP_line, CRLF],
         BodyBytes ''DDS |'']]"
proof -
  have hyps: "startup_interrupt example_launch = None" "dist example_launch = Directory"
    "chdir_error example_launch = None" "bind_error example_launch = None"
    "dist_path example_launch = ''/srv/dist''" "environment example_launch = example_env"
    "files example_launch = example_fs" "system_db example_launch = example_system_db"
    "events example_launch = [Connection [one_request ''GET /model.dds HTTP/1.1'' []],
                              Raise KeyboardInterrupt]"
    by (simp_all add: example_launch_def)
  note c = C3_working_directory [OF hyps(1)]
  have d: "cwd (outcome_process (main example_launch)) = ''/srv/dist''"
    using c hyps by simp
  have ch: "filter is_chdir (calls (outcome_process (main example_launch))) = [Chdir ''dist'']"
    using c hyps by simp
  have r: "replies (outcome_process (main example_launch))
        = map (reply_to example_env example_fs (module_init example_system_db) ''/srv/dist'')
            (accepted example_env example_fs (module_init example_system_db) ''/srv/dist''
               (events example_launch))"
    using c hyps d by simp
  have s: "startswith ''/srv/dist''
        (translate_path example_env ''/srv/dist'' (single_leading_slash ''/model.dds''))"
    by (simp add: ex_translate startswith_def)
  show ?thesis
    using hyps(1-4) d ch s
    by (simp add: r hyps(9) ex_model_served ex_translate ex_fs)
qed

text \<open>
  C3, as the claim states it, fails when \<^verbatim>\<open>dist\<close> is a directory the process may not
  enter: the guard passes, \<^verbatim>\<open>os.chdir\<close> raises \<^verbatim>\<open>PermissionError\<close>, nothing catches it,
  and the process ends in the launch directory without having changed directory or
  created a socket.
\<close>

theorem C3_counterexample:
  "startup_interrupt (example_launch\<lparr>chdir_error := Some ''PermissionError''\<rparr>) = None
   \<and> dist (example_launch\<lparr>chdir_error := Some ''PermissionError''\<rparr>) = Directory
   \<and> os_path_exists (dist (example_launch\<lparr>chdir_error := Some ''PermissionError''\<rparr>))
   \<and> main (example_launch\<lparr>chdir_error := Some ''PermissionError''\<rparr>)
      = Exited (Uncaught (OSError ''PermissionError''))
          \<lparr>cwd = ''/srv'', mime = module_init example_system_db, stdout = [],
           sock = NoSocket, calls = [], replies = [], reported = []\<rparr>"
  by (simp add: main_chdir_error [of _ "''PermissionError''"] example_launch_def
      os_path_exists_def initial_process_def)

text \<open>
  C9. The guard asks \<^verbatim>\<open>os.path.exists\<close> only. When \<^verbatim>\<open>dist\<close> exists and is not a
  directory the guard passes, \<^verbatim>\<open>os.chdir\<close> raises \<^verbatim>\<open>NotADirectoryError\<close>, nothing catches
  it, and the process ends with status 1 before a socket is created or bound.
\<close>

theorem C9_dist_not_a_directory:
  assumes "dist L = NonDirectory" and "startup_interrupt L \<noteq> Some AtDistCheck"
  shows "os_path_exists (dist L)
    \<and> main L = Exited (Uncaught (OSError ''NotADirectoryError'')) (initial_process L)
    \<and> exit_status (Uncaught (OSError ''NotADirectoryError'')) = 1
    \<and> sock (initial_process L) = NoSocket
    \<and> calls (initial_process L) = []"
  using assms
  by (simp add: main_not_a_directory os_path_exists_def initial_process_def)

text \<open>
  C9 at the example launch with a regular file named \<^verbatim>\<open>dist\<close>.
\<close>

theorem C9_witness:
  "dist (example_launch\<lparr>dist := NonDirectory\<rparr>) = NonDirectory
   \<and> startup_interrupt (example_launch\<lparr>dist := NonDirectory\<rparr>) \<noteq> Some AtDistCheck
   \<and> os_path_exists NonDirectory
   \<and> main (example_launch\<lparr>dist := NonDirectory\<rparr>)
       = Exited (Uncaught (OSError ''NotADirectoryError''))
           (initial_process (example_launch\<lparr>dist := NonDirectory\<rparr>))
   \<and> sock (initial_process (example_launch\<lparr>dist := NonDirectory\<rparr>)) = NoSocket
   \<and> calls (initial_process (example_launch\<lparr>dist := NonDirectory\<rparr>)) = []"
  using C9_dist_not_a_directory [of "example_launch\<lparr>dist := NonDirectory\<rparr>"]
  by (simp add: example_launch_def)

subsection \<open>Binding the port\<close>

text \<open>
  C7. When the startup has come as far as the bind (no interrupt, \<^verbatim>\<open>dist\<close> missing or
  a directory that was entered) and \<^verbatim>\<open>socket.bind\<close> raises \<^verbatim>\<open>OSError\<close> (address in
  use, permission denied), the exception leaves the script uncaught: the process ends
  with a status that is not 0, after a single bind attempt on port 8080, with the socket
  closed, nothing printed and no connection served.
\<close>

theorem C7_bind_failure:
  assumes "startup_interrupt L = None" and "dist L \<noteq> NonDirectory"
    and "dist L = Directory \<longrightarrow> chdir_error L = None"
    and "bind_error L = Some errno"
  shows "outcome_exit (main L) = Some (Uncaught (OSError errno))
    \<and> exit_status (Uncaught (OSError errno)) \<noteq> 0
    \<and> filter is_bind (calls (outcome_process (main L))) = [Bind [] 8080]
    \<and> sock (outcome_process (main L)) = Closed
    \<and> stdout (outcome_process (main L)) = []
    \<and> replies (outcome_process (main L)) = []"
  using assms
  by (simp add: main_bind_error Let_def initial_process_def PORT_def)

text \<open>
  C7 at the example launch with the port already taken.
\<close>

theorem C7_witness:
  "startup_interrupt (example_launch\<lparr>bind_error := Some ''EADDRINUSE''\<rparr>) = None
   \<and> dist (example_launch\<lparr>bind_error := Some ''EADDRINUSE''\<rparr>) \<noteq> NonDirectory
   \<and> chdir_error (example_launch\<lparr>bind_error := Some ''EADDRINUSE''\<rparr>) = None
   \<and> bind_error (example_launch\<lparr>bind_error := Some ''EADDRINUSE''\<rparr>) = Some ''EADDRINUSE''
   \<and> outcome_exit (main (example_launch\<lparr>bind_error := Some ''EADDRINUSE''\<rparr>))
       = Some (Uncaught (OSError ''EADDRINUSE''))
   \<and> exit_status (Uncaught (OSError ''EADDRINUSE'')) = 1
   \<and> filter is_bind (calls (outcome_process
        (main (example_launch\<lparr>bind_error := Some ''EADDRINUSE''\<rparr>)))) = [Bind [] 8080]
   \<and> sock (outcome_process (main (example_launch\<lparr>bind_error := Some ''EADDRINUSE''\<rparr>)))
       = Closed"
  using C7_bind_failure [of "example_launch\<lparr>bind_error := Some ''EADDRINUSE''\<rparr>" "''EADDRINUSE''"]
  by (simp add: example_launch_def)

subsection \<open>Interrupts\<close>

text \<open>
  C5. After a startup without exception, an interrupt that arrives while
  \<^verbatim>\<open>serve_forever\<close> runs ends the process with status 0: the socket is closed, the
  three texts printed are the two startup lines and the shutdown message, the
  connections that would have come after the interrupt are never accepted (the run is
  the same without them), and only connections before it got a reply. Conversely the
  process ends with status 0 only when no interrupt arrived during startup and a
  \<^verbatim>\<open>KeyboardInterrupt\<close> has left the serving loop.
\<close>

theorem C5_interrupt_shutdown:
  assumes "startup_interrupt L = None" and "bind_error L = None" and "dist L \<noteq> NonDirectory"
    and "dist L = Directory \<longrightarrow> chdir_error L = None"
    and "events L = map Connection conns @ Raise KeyboardInterrupt # later"
  shows "outcome_exit (main L) = Some ExitOK
    \<and> exit_status ExitOK = 0
    \<and> sock (outcome_process (main L)) = Closed
    \<and> stdout (outcome_process (main L)) = [banner1, banner2, farewell]
    \<and> length (replies (outcome_process (main L))) \<le> length conns
    \<and> main L = main (L\<lparr>events := map Connection conns @ [Raise KeyboardInterrupt]\<rparr>)
    \<and> (\<forall>L'. outcome_exit (main L') = Some ExitOK \<longrightarrow>
           startup_interrupt L' = None
           \<and> (\<exists>q. raised_by (serve_forever (environment L') (files L') (events L') q)
                    = Some KeyboardInterrupt))"
proof -
  let ?p1 = "if dist L = Directory
             then (initial_process L)\<lparr>cwd := dist_path L, calls := [Chdir ''dist'']\<rparr>
             else initial_process L"
  let ?q = "print banner2 (print banner1
              (?p1\<lparr>sock := Listening, calls := calls ?p1 @ [SocketCreate, Bind [] PORT, Listen]\<rparr>))"
  let ?r = "serve_forever (environment L) (files L) (events L) ?q"
  let ?L2 = "L\<lparr>events := map Connection conns @ [Raise KeyboardInterrupt]\<rparr>"
  obtain p where r: "?r = Raised KeyboardInterrupt p"
    using serve_forever_interrupt [of "environment L" "files L" conns later ?q] assms(5)
    by auto
  have m: "main L = Exited ExitOK (BaseServer_exit (print farewell p))"
    using main_started [OF assms(1,2,3,4)] r by (simp add: Let_def)
  have k: "stdout p = stdout ?q" "replies p = replies ?q @
        map (reply_to (environment L) (files L) (mime ?q) (cwd ?q))
          (accepted (environment L) (files L) (mime ?q) (cwd ?q) (events L))"
    using serve_forever_keeps [of "environment L" "files L" "events L" ?q]
      serve_forever_replies [of "environment L" "files L" "events L" ?q] r
    by simp_all
  have rq: "replies ?q = []"
    by (simp add: print_def initial_process_def)
  have len: "length (replies p) \<le> length conns"
    unfolding k rq assms(5)
    using accepted_length [of "environment L" "files L" "mime ?q" "cwd ?q" conns KeyboardInterrupt later]
    by simp
  have same: "main L = main ?L2"
  proof -
    have "main ?L2 =
      (case serve_forever (environment L) (files L)
              (map Connection conns @ [Raise KeyboardInterrupt]) ?q of
         Blocked p \<Rightarrow> Serving p
       | Raised err p \<Rightarrow>
           if err = KeyboardInterrupt then Exited ExitOK (BaseServer_exit (print farewell p))
           else Exited (Uncaught err) (BaseServer_exit p))"
      using main_started [of ?L2] assms(1,2,3,4) by (simp add: Let_def initial_process_def)
    moreover have "serve_forever (environment L) (files L)
              (map Connection conns @ [Raise KeyboardInterrupt]) ?q = ?r"
      unfolding assms(5) by (rule serve_forever_ignores_later [symmetric])
    ultimately show ?thesis
      using r m by simp
  qed
  show ?thesis
    using m k len same exit_ok_only_by_interrupt
    by (simp add: BaseServer_exit_def server_close_def print_def initial_process_def)
qed

text \<open>
  C5 at the example launch: one connection, then the interrupt.
\<close>

theorem C5_witness:
  "startup_interrupt example_launch = None \<and> bind_error example_launch = None
   \<and> dist example_launch \<noteq> NonDirectory
   \<and> chdir_error example_launch = None
   \<and> events example_launch
        = map Connection [[one_request ''GET /model.dds HTTP/1.1'' []]]
          @ Raise KeyboardInterrupt # []
   \<and> outcome_exit (main example_launch) = Some ExitOK
   \<and> exit_status ExitOK = 0
   \<and> sock (outcome_process (main example_launch)) = Closed
   \<and> stdout (outcome_process (main example_launch)) = [banner1, banner2, farewell]
   \<and> length (replies (outcome_process (main example_launch))) \<le> 1
   \<and> (\<exists>q. raised_by (serve_forever (environment example_launch) (files example_launch)
                        (events example_launch) q) = Some KeyboardInterrupt)"
proof -
  have hyps: "startup_interrupt example_launch = None" "bind_error example_launch = None"
    "dist example_launch \<noteq> NonDirectory"
    "dist example_launch = Directory \<longrightarrow> chdir_error example_launch = None"
    "events example_launch
       = map Connection [[one_request ''GET /model.dds HTTP/1.1'' []]]
         @ Raise KeyboardInterrupt # []"
    by (simp_all add: example_launch_def)
  have ce: "chdir_error example_launch = None"
    by (simp add: example_launch_def)
  note c = C5_interrupt_shutdown [OF hyps]
  from c have "\<exists>q. raised_by (serve_forever (environment example_launch)
      (files example_launch) (events example_launch) q) = Some KeyboardInterrupt"
    by blast
  moreover from c have "outcome_exit (main example_launch) = Some ExitOK"
    "sock (outcome_process (main example_launch)) = Closed"
    "stdout (outcome_process (main example_launch)) = [banner1, banner2, farewell]"
    "length (replies (outcome_process (main example_launch)))
       \<le> length [[one_request ''GET /model.dds HTTP/1.1'' []]]"
    by blast+
  ultimately show ?thesis
    using hyps(1,2,3,5) ce by (simp del: serve_forever.simps)
qed

text \<open>
  C10, as it holds on the code. A \<^verbatim>\<open>KeyboardInterrupt\<close> that arrives during startup,
  where startup would otherwise succeed, is not caught: the process ends through the
  interrupt, with a status that is not 0 and without the shutdown message. The socket
  does not stay open: none exists yet during the \<^verbatim>\<open>dist\<close> check, and afterwards it is
  closed. The \<^verbatim>\<open>with\<close> statement's \<^verbatim>\<open>__exit__\<close> does the closing exactly when the
  interrupt arrives while a startup line is printed; while binding, the constructor's
  own \<^verbatim>\<open>except\<close> clause does.
\<close>

theorem C10_startup_interrupt:
  assumes "startup_interrupt L = Some ph" and "dist L \<noteq> NonDirectory"
    and "dist L = Directory \<longrightarrow> chdir_error L = None" and "bind_error L = None"
  shows "outcome_exit (main L) = Some (Uncaught KeyboardInterrupt)
    \<and> exit_status (Uncaught KeyboardInterrupt) \<noteq> 0
    \<and> farewell \<notin> set (stdout (outcome_process (main L)))
    \<and> sock (outcome_process (main L)) = (if ph = AtDistCheck then NoSocket else Closed)
    \<and> (ContextExit \<in> set (calls (outcome_process (main L)))
          \<longleftrightarrow> ph = AtBanner1 \<or> ph = AtBanner2)"
  using assms
  by (cases ph) (auto simp: main_startup_interrupt Let_def initial_process_def)

text \<open>
  C10 at the example launch, interrupted while the second startup line is printed.
\<close>

theorem C10_witness:
  "startup_interrupt (example_launch\<lparr>startup_interrupt := Some AtBanner2\<rparr>) = Some AtBanner2
   \<and> dist (example_launch\<lparr>startup_interrupt := Some AtBanner2\<rparr>) \<noteq> NonDirectory
   \<and> chdir_error (example_launch\<lparr>startup_interrupt := Some AtBanner2\<rparr>) = None
   \<and> bind_error (example_launch\<lparr>startup_interrupt := Some AtBanner2\<rparr>) = None
   \<and> outcome_exit (main (example_launch\<lparr>startup_interrupt := Some AtBanner2\<rparr>))
        = Some (Uncaught KeyboardInterrupt)
   \<and> exit_status (Uncaught KeyboardInterrupt) = 130
   \<and> farewell \<notin> set (stdout (outcome_process
        (main (example_launch\<lparr>startup_interrupt := Some AtBanner2\<rparr>))))
   \<and> sock (outcome_process (main (example_launch\<lparr>startup_interrupt := Some AtBanner2\<rparr>)))
        = Closed
   \<and> ContextExit \<in> set (calls (outcome_process
        (main (example_launch\<lparr>startup_interrupt := Some AtBanner2\<rparr>))))"
  using C10_startup_interrupt [of "example_launch\<lparr>startup_interrupt := Some AtBanner2\<rparr>" AtBanner2]
  by (simp add: example_launch_def)

text \<open>
  C10, as the claim states it, fails for its own example of an interrupt while
  binding: the socket is closed, but the trace of the run has no \<^verbatim>\<open>__exit__\<close> in it.
  The \<^verbatim>\<open>with\<close> statement is entered only after the constructor has returned.
\<close>

theorem C10_counterexample:
  "startup_interrupt (example_launch\<lparr>startup_interrupt := Some AtBind\<rparr>) = Some AtBind
   \<and> main (example_launch\<lparr>startup_interrupt := Some AtBind\<rparr>)
      = Exited (Uncaught KeyboardInterrupt)
          \<lparr>cwd = ''/srv/dist'', mime = module_init example_system_db, stdout = [],
           sock = Closed, calls = [Chdir ''dist'', SocketCreate, SocketClose],
           replies = [], reported = []\<rparr>
   \<and> ContextExit \<notin> set [Chdir ''dist'', SocketCreate, SocketClose]"
  by (simp add: main_startup_interrupt [of _ AtBind] example_launch_def Let_def
      initial_process_def)

subsection \<open>What request handling leaves alone\<close>

lemma serve_forever_result_keeps:
  "serve_forever e f evs p = Blocked q \<Longrightarrow> mime q = mime p"
  "serve_forever e f evs p = Raised err q \<Longrightarrow> mime q = mime p"
  using serve_forever_keeps [of e f evs p] by auto

lemma main_keeps_registry: "mime (outcome_process (main L)) = module_init (system_db L)"
proof -
  let ?p0 = "initial_process L"
  have p0: "mime ?p0 = module_init (system_db L)"
    by (simp add: initial_process_def)
  have ch: "os_chdir L ''dist'' ?p0 = Inr p1 \<Longrightarrow> mime p1 = mime ?p0" for p1
    by (auto simp: os_chdir_def split: entry.splits option.splits)
  have tcp: "mime (fst (TCPServer_init L p)) = mime p" for p
    by (simp add: TCPServer_init_def server_close_def Let_def split: option.splits)
  have wb: "mime (case with_body L p of Inl q \<Rightarrow> q | Inr (q, x) \<Rightarrow> BaseServer_exit q) = mime p"
    for p
    by (auto simp: with_body_def print_def BaseServer_exit_def server_close_def Let_def
        dest!: serve_forever_result_keeps split: serve_result.splits pyerror.splits)
  have op: "outcome_process (main L) =
     (if startup_interrupt L = Some AtDistCheck then ?p0
      else case (if os_path_exists (dist L) then os_chdir L ''dist'' ?p0 else Inr ?p0) of
             Inl err \<Rightarrow> ?p0
           | Inr p1 \<Rightarrow>
               (case snd (TCPServer_init L p1) of
                  Some err \<Rightarrow> fst (TCPServer_init L p1)
                | None \<Rightarrow>
                    (case with_body L (fst (TCPServer_init L p1)) of
                       Inl q \<Rightarrow> q | Inr (q, x) \<Rightarrow> BaseServer_exit q)))"
    by (auto simp: main_def Let_def split: sum.splits prod.splits option.splits)
  show ?thesis
  proof (cases "startup_interrupt L = Some AtDistCheck")
    case True
    then show ?thesis
      unfolding op using p0 by simp
  next
    case False
    show ?thesis
    proof (cases "if os_path_exists (dist L) then os_chdir L ''dist'' ?p0 else Inr ?p0")
      case (Inl err)
      then show ?thesis
        unfolding op using False p0 by simp
    next
      case (Inr p1)
      have m1: "mime p1 = mime ?p0"
        using Inr ch by (auto split: if_splits)
      show ?thesis
        unfolding op
        using False Inr m1 p0 tcp [of p1] wb [of "fst (TCPServer_init L p1)"]
        by (simp split: option.splits)
    qed
  qed
qed

text \<open>
  C8. A handler runs in a state that holds the registry and the working directory of
  the process, and the server takes both back from it; none of the handler's methods
  changes either. So whatever happens while \<^verbatim>\<open>serve_forever\<close> runs, connections and
  exceptions in any order, the MIME registry and the working directory of the process
  afterwards are those it started with, in particular the registry entry for
  \<^verbatim>\<open>.dds\<close>; that entry is \<^verbatim>\<open>application/octet-stream\<close> from the moment the module is
  loaded, and it still is in the process every run of the script ends or blocks in.
\<close>

theorem C8_registry_and_directory_fixed:
  "registry (fst (handle e f rs (new_handler d db))) = db
   \<and> working_dir (fst (handle e f rs (new_handler d db))) = d
   \<and> mime (process_of (serve_forever e f evs p)) = mime p
   \<and> cwd (process_of (serve_forever e f evs p)) = cwd p
   \<and> types_map (mime (process_of (serve_forever e f evs p))) ''.dds''
       = types_map (mime p) ''.dds''
   \<and> types_map (mime (initial_process L)) ''.dds'' = Some ''application/octet-stream''
   \<and> types_map (mime (outcome_process (main L))) ''.dds'' = Some ''application/octet-stream''"
  by (simp add: globals_handle serve_forever_keeps main_keeps_registry initial_process_def
      module_init_def add_type_def Let_def)

subsection \<open>Files that exist\<close>




subsection \<open>Paths that name no file\<close>

text \<open>
  C6, as it holds on the code. Take a \<^verbatim>\<open>GET\<close> or \<^verbatim>\<open>HEAD\<close> request whose line is at
  most 65536 bytes long and ends in a version \<^verbatim>\<open>HTTP/x.y\<close> with \<open>x < 2\<close>, other than
  \<^verbatim>\<open>HTTP/0.9\<close>, whose header fields the library can parse, and whose target
  \<^verbatim>\<open>translate_path\<close> resolves to a path that is no directory. If the path ends in a
  slash, or \<^verbatim>\<open>open\<close> raises \<^verbatim>\<open>OSError\<close> for it (no such file, no permission), the
  connection is answered \<^verbatim>\<open>404 File not found\<close> and nothing is raised. If \<^verbatim>\<open>open\<close>
  raises \<^verbatim>\<open>ValueError\<close> (a NUL character in the path), the handler does not catch it:
  nothing is sent on the connection and \<^verbatim>\<open>handle_error\<close> reports the exception. In
  both cases the server goes on with the connections that follow, exactly as it would
  have without this one.
\<close>

theorem C6_missing_path_404:
  assumes "split_ws (rstrip_crlf (raw_requestline r)) = [cmd, target, version]"
    and "cmd = ''GET'' \<or> cmd = ''HEAD''"
    and "parse_version version = Some (major, minor)" and "major < 2"
    and "version \<noteq> ''HTTP/0.9''"
    and "length (raw_requestline r) \<le> 65536"
    and "header_lines r = ParsedHeaders hs"
    and "p = translate_path e (cwd pr) (single_leading_slash target)"
    and "\<not> isdir f p"
  shows "(endswith_slash p \<or> (\<exists>x. open_rb f p = Inl (OSError x))
          \<longrightarrow> serve_forever e f (Connection (r # rs) # evs) pr =
              serve_forever e f evs
                (pr\<lparr>replies := replies pr @
                   [[HeaderBlock
                       [''HTTP/1.0 404 File not found'' @ CRLF,
                        ''Server: '' @ version_string e @ CRLF,
                        ''Date: '' @ date_time_string e @ CRLF,
                        ''Connection: close'' @ CRLF,
                        ''Content-Type: text/html;charset=utf-8'' @ CRLF,
                        ''Content-Length: ''
                          @ str_nat (length (error_page e 404 ''File not found''
                                               ''Nothing matches the given URI''))
                          @ CRLF,
                        COEP_line, COOP_line, CRLF]]
                    @ (if cmd = ''GET''
                          \<and> error_page e 404 ''File not found''
                                ''Nothing matches the given URI'' \<noteq> []
                       then [BodyBytes (error_page e 404 ''File not found''
                                          ''Nothing matches the given URI'')]
                       else [])]\<rparr>))
     \<and> (\<not> endswith_slash p \<and> open_rb f p = Inl ValueError
          \<longrightarrow> serve_forever e f (Connection (r # rs) # evs) pr =
              serve_forever e f evs
                (pr\<lparr>replies := replies pr @ [[]], reported := reported pr @ [ValueError]\<rparr>))"
proof (intro conjI impI)
  assume a: "endswith_slash p \<or> (\<exists>x. open_rb f p = Inl (OSError x))"
  note m = reply_missing [OF assms(1,3,4,5,6,7,2,8,9) a, where db = "mime pr" and rs = rs]
  show "serve_forever e f (Connection (r # rs) # evs) pr =
              serve_forever e f evs
                (pr\<lparr>replies := replies pr @
                   [[HeaderBlock
                       [''HTTP/1.0 404 File not found'' @ CRLF,
                        ''Server: '' @ version_string e @ CRLF,
                        ''Date: '' @ date_time_string e @ CRLF,
                        ''Connection: close'' @ CRLF,
                        ''Content-Type: text/html;charset=utf-8'' @ CRLF,
                        ''Content-Length: ''
                          @ str_nat (length (error_page e 404 ''File not found''
                                               ''Nothing matches the given URI''))
                          @ CRLF,
                        COEP_line, COOP_line, CRLF]]
                    @ (if cmd = ''GET''
                          \<and> error_page e 404 ''File not found''
                                ''Nothing matches the given URI'' \<noteq> []
                       then [BodyBytes (error_page e 404 ''File not found''
                                          ''Nothing matches the given URI'')]
                       else [])]\<rparr>)"
    by (simp only: serve_forever_connection m option.case)
next
  assume a: "\<not> endswith_slash p \<and> open_rb f p = Inl ValueError"
  have v: "\<forall>x. ValueError \<noteq> OSError x"
    by simp
  note m = reply_raises [OF assms(1,3,4,6,7,2,8,9) conjunct1 [OF a] conjunct2 [OF a] v,
      where db = "mime pr" and rs = rs]
  show "serve_forever e f (Connection (r # rs) # evs) pr =
              serve_forever e f evs
                (pr\<lparr>replies := replies pr @ [[]], reported := reported pr @ [ValueError]\<rparr>)"
    by (simp add: serve_forever_connection m)
qed

text \<open>
  C6 at the example installation: a connection that asks for \<^verbatim>\<open>/missing.dds\<close> and one
  whose path holds a NUL character; after each the server goes on with the next.
\<close>

theorem C6_witness:
  "split_ws (rstrip_crlf (raw_requestline (one_request ''GET /missing.dds HTTP/1.1'' [])))
     = [''GET'', ''/missing.dds'', ''HTTP/1.1'']
   \<and> parse_version ''HTTP/1.1'' = Some (1, 1)
   \<and> \<not> isdir example_fs ''/srv/dist/missing.dds''
   \<and> open_rb example_fs ''/srv/dist/missing.dds'' = Inl (OSError ''FileNotFoundError'')
   \<and> open_rb example_fs (''/srv/dist/bad'' @ [CHR 0x00]) = Inl ValueError
   \<and> serve_forever example_env example_fs
        [Connection [one_request ''GET /missing.dds HTTP/1.1'' []],
         Connection [one_request (''GET /bad'' @ [CHR 0x00] @ '' HTTP/1.1'') []]]
        \<lparr>cwd = ''/srv/dist'', mime = module_init example_system_db, stdout = [],
         sock = Listening, calls = [], replies = [], reported = []\<rparr> =
      Blocked
        \<lparr>cwd = ''/srv/dist'', mime = module_init example_system_db, stdout = [],
         sock = Listening, calls = [],
         replies =
           [[HeaderBlock
               [''HTTP/1.0 404 File not found'' @ CRLF,
                ''Server: SimpleHTTP/0.6 Python/3.11.10'' @ CRLF,
                ''Date: Wed, 04 Nov 2026 12:00:00 GMT'' @ CRLF,
                ''Connection: close'' @ CRLF,
                ''Content-Type: text/html;charset=utf-8'' @ CRLF,
                ''Content-Length: ''
                  @ str_nat (length (error_page_ascii 404 ''File not found''
                                       ''Nothing matches the given URI''))
                  @ CRLF,
                COEP_line, COOP_line, CRLF],
             BodyBytes (error_page_ascii 404 ''File not found''
                          ''Nothing matches the given URI'')],
            []],
         reported = [ValueError]\<rparr>"
proof -
  let ?pr = "\<lparr>cwd = ''/srv/dist'', mime = module_init example_system_db, stdout = [],
         sock = Listening, calls = [], replies = [], reported = []\<rparr>"
  let ?reply = "[HeaderBlock
               [''HTTP/1.0 404 File not found'' @ CRLF,
                ''Server: SimpleHTTP/0.6 Python/3.11.10'' @ CRLF,
                ''Date: Wed, 04 Nov 2026 12:00:00 GMT'' @ CRLF,
                ''Connection: close'' @ CRLF,
                ''Content-Type: text/html;charset=utf-8'' @ CRLF,
                ''Content-Length: ''
                  @ str_nat (length (error_page_ascii 404 ''File not found''
                                       ''Nothing matches the given URI''))
                  @ CRLF,
                COEP_line, COOP_line, CRLF],
             BodyBytes (error_page_ascii 404 ''File not found''
                          ''Nothing matches the given URI'')]"
  let ?pr1 = "?pr\<lparr>replies := [?reply]\<rparr>"
  have g: "''GET'' = ''GET'' \<or> ''GET'' = ''HEAD''"
    by simp
  have p: "''/srv/dist/missing.dds''
      = translate_path example_env (cwd ?pr) (single_leading_slash ''/missing.dds'')"
    by (simp add: ex_translate)
  have p1: "''/srv/dist/bad'' @ [CHR 0x00]
      = translate_path example_env (cwd ?pr1) (single_leading_slash (''/bad'' @ [CHR 0x00]))"
    using ex_nul(3) by simp
  note c = C6_missing_path_404 [OF ex_lines(2) [of "[]"] g ex_version ex_len(2) ex_hdr p
      ex_fs(2), where rs = "[]"
        and evs = "[Connection [one_request (''GET /bad'' @ [CHR 0x00] @ '' HTTP/1.1'') []]]"]
  note c1 = C6_missing_path_404 [OF ex_nul(1) [of "[]"] g ex_version ex_nul(2) ex_hdr p1
      ex_nul(4), where rs = "[]" and evs = "[]"]
  have s1: "serve_forever example_env example_fs
        [Connection [one_request ''GET /missing.dds HTTP/1.1'' []],
         Connection [one_request (''GET /bad'' @ [CHR 0x00] @ '' HTTP/1.1'') []]] ?pr
      = serve_forever example_env example_fs
          [Connection [one_request (''GET /bad'' @ [CHR 0x00] @ '' HTTP/1.1'') []]] ?pr1"
    using c ex_fs(5) by simp
  have s2: "serve_forever example_env example_fs
          [Connection [one_request (''GET /bad'' @ [CHR 0x00] @ '' HTTP/1.1'') []]] ?pr1
      = Blocked (?pr1\<lparr>replies := replies ?pr1 @ [[]],
                      reported := reported ?pr1 @ [ValueError]\<rparr>)"
    using c1 ex_nul(5,6) by simp
  show ?thesis
    using ex_lines(2) [of "[]"] ex_version(1) ex_fs(2,5) ex_nul(6)
    by (simp only: s1 s2) simp
qed

text \<open>
  C6, as the claim states it, fails three times. A path that resolves to a directory,
  which is no file, is answered \<^verbatim>\<open>301 Moved Permanently\<close>: a redirection and not a
  client error. The reply to \<^verbatim>\<open>GET /missing.dds\<close> without a version is the error
  page alone, with no status line. And a path with a NUL character gets no reply at
  all: \<^verbatim>\<open>open\<close> raises \<^verbatim>\<open>ValueError\<close>, which leaves the handler.
\<close>

theorem C6_counterexample:
  "example_reply [one_request ''GET /textures HTTP/1.1'' []] =
     [HeaderBlock
        [''HTTP/1.0 301 Moved Permanently'' @ CRLF,
         ''Server: SimpleHTTP/0.6 Python/3.11.10'' @ CRLF,
         ''Date: Wed, 04 Nov 2026 12:00:00 GMT'' @ CRLF,
         ''Location: /textures/'' @ CRLF,
         ''Content-Length: 0'' @ CRLF,
         COEP_line, COOP_line, CRLF]]
   \<and> example_reply [one_request ''GET /missing.dds'' []] =
     [BodyBytes (error_page_ascii 404 ''File not found'' ''Nothing matches the given URI'')]
   \<and> example_reply [one_request (''GET /bad'' @ [CHR 0x00] @ '' HTTP/1.1'') []] = []
   \<and> snd (handle example_env example_fs
             [one_request (''GET /bad'' @ [CHR 0x00] @ '' HTTP/1.1'') []]
             (new_handler ''/srv/dist'' (module_init example_system_db))) = Some ValueError"
proof -
  have d: "isdir example_fs
      (translate_path example_env ''/srv/dist'' (single_leading_slash ''/textures''))"
    using ex_fs(3) by (simp add: ex_translate)
  have s: "\<not> endswith_slash (urlsplit_path example_env (single_leading_slash ''/textures''))"
    by (simp add: example_env_def single_leading_slash_def startswith_def endswith_slash_def)
  have t: "single_leading_slash ''/textures'' = ''/textures''"
    by (simp add: single_leading_slash_def startswith_def)
  have g: "''GET'' = ''GET'' \<or> ''GET'' = ''HEAD''"
    by simp
  have v: "\<forall>x. ValueError \<noteq> OSError x"
    by simp
  note nul = reply_raises [OF ex_nul(1) [of "[]"] ex_version(1,2) ex_nul(2) ex_hdr g
      ex_nul(3) [symmetric] ex_nul(4,5,6) v,
      where db = "module_init example_system_db" and rs = "[]"]
  show ?thesis
    using reply_redirect [OF ex_lines(3) [of "[]"] ex_version ex_len(3) ex_hdr d s,
        where db = "module_init example_system_db" and rs = "[]"]
      reply_simple_request(2) [OF ex_lines(5) [of "[]"] ex_len(5) ex_hdr
        ex_translate(2) [symmetric] ex_fs(2,7,5),
        where db = "module_init example_system_db" and rs = "[]"]
      nul
    by (simp add: example_reply_eq t)
qed

end
